theory Spec2Isabelle
  imports Complex_Main
begin

section \<open>JavaScript values used by the converter\<close>

text \<open>
  The converter is TypeScript running on Node. Strings are modelled as lists of 8-bit
  characters (the code units below 256) and \<open>undefined\<close> as \<open>None\<close>. The source profile,
  the output map, the lookup tables and the maps of the parameter map are ordinary
  objects: an association list, or a map, gives the own properties, and a read by a
  computed name also finds what every object inherits. The source profile, the
  conversion state and the output map are three separate objects, as the data model of
  the specification has them.
\<close>

subsection \<open>Strings\<close>

definition truthy :: "string option \<Rightarrow> bool" where
  "truthy v = (case v of None \<Rightarrow> False | Some s \<Rightarrow> s \<noteq> [])"

text \<open>The operator \<open>a || d\<close> on a string (or \<open>undefined\<close>) and a string.\<close>

definition or_else :: "string option \<Rightarrow> string \<Rightarrow> string" where
  "or_else v d = (case v of None \<Rightarrow> d | Some s \<Rightarrow> if s = [] then d else s)"

definition is_digit :: "char \<Rightarrow> bool" where
  "is_digit c = (c \<in> set ''0123456789'')"

definition digit_val :: "char \<Rightarrow> nat" where
  "digit_val c = length (takeWhile (\<lambda>d. d \<noteq> c) ''0123456789'')"

definition digits_to_int :: "string \<Rightarrow> int" where
  "digits_to_int ds = foldl (\<lambda>n c. 10 * n + int (digit_val c)) 0 ds"

text \<open>The decimal digits of an integer that is not negative.\<close>

function int_to_digits :: "int \<Rightarrow> string" where
  "int_to_digits n =
     (if n < 10 then [''0123456789'' ! nat n]
      else int_to_digits (n div 10) @ [''0123456789'' ! nat (n mod 10)])"
  by pat_completeness auto
termination
  by (relation "measure nat") auto

declare int_to_digits.simps [simp del]

definition strip_sign :: "string \<Rightarrow> string" where
  "strip_sign s =
     (case s of [] \<Rightarrow> [] | c # r \<Rightarrow> if c = CHR ''+'' \<or> c = CHR ''-'' then r else s)"

text \<open>The body of the regular expressions \<open>/^[+-]?\d+(\.\d+)?$/\<close> and, followed by
  a percent sign, \<open>/^[+-]?\d+(\.\d+)?%$/\<close>.\<close>

definition decimal_grammar :: "string \<Rightarrow> bool" where
  "decimal_grammar s =
     (let u = strip_sign s in
      takeWhile is_digit u \<noteq> [] \<and>
      (case dropWhile is_digit u of
         [] \<Rightarrow> True
       | c # f \<Rightarrow> c = CHR ''.'' \<and> f \<noteq> [] \<and> list_all is_digit f))"

text \<open>White space of \<open>String.prototype.trim\<close> and of \<open>parseFloat\<close>, below code unit 256:
  TAB, LF, VT, FF, CR, SP and NBSP.\<close>

definition is_space :: "char \<Rightarrow> bool" where
  "is_space c = (c \<in> set [CHR 0x09, CHR 0x0A, CHR 0x0B, CHR 0x0C, CHR 0x0D, CHR 0x20, CHR 0xA0])"

definition trim :: "string \<Rightarrow> string" where
  "trim s = rev (dropWhile is_space (rev (dropWhile is_space s)))"

text \<open>\<open>s.split(d)\<close> for a one-character separator: never an empty array.\<close>

fun split_on :: "char \<Rightarrow> string \<Rightarrow> string list" where
  "split_on d [] = [[]]"
| "split_on d (c # cs) =
     (if c = d then [] # split_on d cs
      else (case split_on d cs of [] \<Rightarrow> [[c]] | w # ws \<Rightarrow> (c # w) # ws))"

text \<open>\<open>s.replace(/ab/g, r)\<close> for a pattern of two literal characters: leftmost matches,
  not overlapping.\<close>

fun replace_pair :: "char \<Rightarrow> char \<Rightarrow> char \<Rightarrow> string \<Rightarrow> string" where
  "replace_pair a b r (x # y # s) =
     (if x = a \<and> y = b then r # replace_pair a b r s else x # replace_pair a b r (y # s))"
| "replace_pair a b r s = s"

subsection \<open>Objects\<close>

text \<open>
  The names every ordinary object inherits from \<open>Object.prototype\<close>. Each of them is a
  function, but for the last but one, which is the prototype object itself: all count
  as true, none is a string and none can be iterated.
\<close>

definition object_prototype :: "string list" where
  "object_prototype =
     [''constructor'', ''__defineGetter__'', ''__defineSetter__'', ''hasOwnProperty'',
      ''__lookupGetter__'', ''__lookupSetter__'', ''isPrototypeOf'',
      ''propertyIsEnumerable'', ''toString'', ''valueOf'', ''__proto__'',
      ''toLocaleString'']"

text \<open>What \<open>obj[k]\<close> finds: an own property, an inherited member, or nothing
  (\<open>undefined\<close>); and \<open>k in obj\<close>.\<close>

datatype 'a property = Own 'a | Inherited | Absent

definition get_property :: "(string \<times> 'a) list \<Rightarrow> string \<Rightarrow> 'a property" where
  "get_property obj k =
     (case map_of obj k of
        Some v \<Rightarrow> Own v
      | None \<Rightarrow> if k \<in> set object_prototype then Inherited else Absent)"

definition has_property :: "(string \<times> 'a) list \<Rightarrow> string \<Rightarrow> bool" where
  "has_property obj k = (case get_property obj k of Absent \<Rightarrow> False | _ \<Rightarrow> True)"

subsection \<open>Numbers\<close>

text \<open>
  A Number is an IEEE 754 binary64 value: not-a-number, an infinity with its sign, or a
  finite value given by its sign (\<open>True\<close> for negative) and its magnitude, a rational
  that binary64 represents; both zeros are there. Results of arithmetic are rounded to
  nearest, ties to even, as ECMAScript prescribes.
\<close>

datatype jsnum = NaN | Inf bool | Fin bool rat

text \<open>Integer powers, by repeated squaring.\<close>

function ipow :: "int \<Rightarrow> int \<Rightarrow> int" where
  "ipow b n =
     (if n \<le> 0 then 1
      else (let h = ipow b (n div 2) in if even n then h * h else b * h * h))"
  by pat_completeness auto
termination
  by (relation "measure (\<lambda>(b, n). nat n)") auto

declare ipow.simps [simp del]

definition pow2 :: "int \<Rightarrow> rat" where
  "pow2 e = (if 0 \<le> e then of_int (ipow 2 e) else 1 / of_int (ipow 2 (- e)))"

definition pow10 :: "int \<Rightarrow> rat" where
  "pow10 e = (if 0 \<le> e then of_int (ipow 10 e) else 1 / of_int (ipow 10 (- e)))"

text \<open>The number of digits of a positive integer in base 2 or 10.\<close>

function ndigits :: "int \<Rightarrow> int \<Rightarrow> int" where
  "ndigits b n = (if n \<le> 0 \<or> b < 2 then 0 else 1 + ndigits b (n div b))"
  by pat_completeness auto
termination
proof (relation "measure (\<lambda>(b, n). nat n)")
  show "wf (measure (\<lambda>(b, n). nat n))" by simp
next
  fix b n :: int
  assume h: "\<not> (n \<le> 0 \<or> b < 2)"
  then have "n div b < n" by (simp add: int_div_less_self)
  then show "((b, n div b), (b, n)) \<in> measure (\<lambda>(b, n). nat n)"
    using h by simp
qed

declare ndigits.simps [simp del]

text \<open>For a positive rational, the integer \<open>e\<close> with \<open>2 ^ e \<le> a < 2 ^ (e + 1)\<close>.\<close>

definition ilog2 :: "rat \<Rightarrow> int" where
  "ilog2 a =
     (case quotient_of a of (p, q) \<Rightarrow>
        (let e = ndigits 2 p - ndigits 2 q
         in if pow2 e \<le> a then e else e - 1))"

definition round_half_even :: "rat \<Rightarrow> int" where
  "round_half_even x =
     (let f = \<lfloor>x\<rfloor>; d = x - of_int f
      in if d < 1 / 2 then f else if 1 / 2 < d then f + 1 else if even f then f else f + 1)"

text \<open>Rounding a non-negative rational to binary64 (53 significant bits, least exponent
  \<open>-1022\<close>); \<open>None\<close> is the overflow to infinity.\<close>

definition round_mag :: "rat \<Rightarrow> rat option" where
  "round_mag a =
     (if a = 0 then Some 0
      else
        (let e = max (ilog2 a) (- 1022);
             q = pow2 (e - 52);
             r = of_int (round_half_even (a / q)) * q
         in if pow2 1024 \<le> r then None else Some r))"

definition to_num :: "bool \<Rightarrow> rat \<Rightarrow> jsnum" where
  "to_num neg a = (case round_mag a of None \<Rightarrow> Inf neg | Some r \<Rightarrow> Fin neg r)"

fun num_mul :: "jsnum \<Rightarrow> jsnum \<Rightarrow> jsnum" where
  "num_mul NaN y = NaN"
| "num_mul x NaN = NaN"
| "num_mul (Inf s) (Inf t) = Inf (s \<noteq> t)"
| "num_mul (Inf s) (Fin t b) = (if b = 0 then NaN else Inf (s \<noteq> t))"
| "num_mul (Fin s a) (Inf t) = (if a = 0 then NaN else Inf (s \<noteq> t))"
| "num_mul (Fin s a) (Fin t b) = to_num (s \<noteq> t) (a * b)"

fun num_div :: "jsnum \<Rightarrow> jsnum \<Rightarrow> jsnum" where
  "num_div NaN y = NaN"
| "num_div x NaN = NaN"
| "num_div (Inf s) (Inf t) = NaN"
| "num_div (Inf s) (Fin t b) = Inf (s \<noteq> t)"
| "num_div (Fin s a) (Inf t) = Fin (s \<noteq> t) 0"
| "num_div (Fin s a) (Fin t b) =
     (if b = 0 then (if a = 0 then NaN else Inf (s \<noteq> t)) else to_num (s \<noteq> t) (a / b))"

text \<open>The comparisons \<open>x > y\<close> and \<open>x < y\<close>, false when an operand is not a number.\<close>

fun num_gt :: "jsnum \<Rightarrow> jsnum \<Rightarrow> bool" where
  "num_gt NaN y = False"
| "num_gt x NaN = False"
| "num_gt (Inf s) (Inf t) = (\<not> s \<and> t)"
| "num_gt (Inf s) (Fin t b) = (\<not> s)"
| "num_gt (Fin s a) (Inf t) = t"
| "num_gt (Fin s a) (Fin t b) = ((if t then - b else b) < (if s then - a else a))"

definition num_lt :: "jsnum \<Rightarrow> jsnum \<Rightarrow> bool" where
  "num_lt x y = num_gt y x"

text \<open>\<open>x === 0\<close>, and the numbers that count as false: both zeros and not-a-number.\<close>

definition num_is_zero :: "jsnum \<Rightarrow> bool" where
  "num_is_zero x = (case x of Fin s a \<Rightarrow> a = 0 | _ \<Rightarrow> False)"

definition num_falsy :: "jsnum \<Rightarrow> bool" where
  "num_falsy x = (case x of NaN \<Rightarrow> True | Inf s \<Rightarrow> False | Fin s a \<Rightarrow> a = 0)"

text \<open>A numeric literal of the source that is a non-negative integer.\<close>

definition num_lit :: "int \<Rightarrow> jsnum" where
  "num_lit n = to_num False (of_int n)"

text \<open>For a positive rational, the integer \<open>n\<close> with \<open>10 ^ (n - 1) \<le> a < 10 ^ n\<close>.\<close>

definition dec_exp :: "rat \<Rightarrow> int" where
  "dec_exp a =
     (if 1 \<le> a then ndigits 10 \<lfloor>a\<rfloor> else 1 - ndigits 10 (\<lceil>1 / a\<rceil> - 1))"

text \<open>
  \<open>Number::toString\<close>: the digits are the fewest that read back as the same binary64
  value; of the candidates with that many digits the one nearest the value is taken.
  With \<open>k\<close> digits the candidates are the two integers around \<open>a / 10 ^ (n - k)\<close>, and
  seventeen digits always suffice. The result is the chosen integer scaled to seventeen
  digits (eighteen when it rounds up to the next power of ten).
\<close>

fun shortest :: "rat \<Rightarrow> int \<Rightarrow> nat list \<Rightarrow> int" where
  "shortest a n [] = \<lfloor>a / pow10 (n - 17)\<rfloor>"
| "shortest a n (k # ks) =
     (let sc = pow10 (n - int k);
          lo = \<lfloor>a / sc\<rfloor>;
          hi = lo + 1;
          okl = (round_mag (of_int lo * sc) = Some a);
          okh = (round_mag (of_int hi * sc) = Some a);
          dl = a - of_int lo * sc;
          dh = of_int hi * sc - a
      in if okl \<and> okh then (if dl < dh \<or> (dl = dh \<and> even lo) then lo else hi) * ipow 10 (17 - int k)
         else if okl then lo * ipow 10 (17 - int k)
         else if okh then hi * ipow 10 (17 - int k)
         else shortest a n ks)"

definition strip_zeros :: "string \<Rightarrow> string" where
  "strip_zeros ds = rev (dropWhile (\<lambda>c. c = CHR ''0'') (rev ds))"

definition mag_to_string :: "rat \<Rightarrow> string" where
  "mag_to_string a =
     (let n0 = dec_exp a;
          all = int_to_digits (shortest a n0 [1 ..< 18]);
          n = n0 + int (length all) - 17;
          ds = strip_zeros all;
          k = int (length ds);
          ex = (if n - 1 < 0 then ''e-'' else ''e+'') @ int_to_digits \<bar>n - 1\<bar>
      in if k \<le> n \<and> n \<le> 21 then ds @ replicate (nat (n - k)) (CHR ''0'')
         else if 0 < n \<and> n \<le> 21 then take (nat n) ds @ ''.'' @ drop (nat n) ds
         else if - 6 < n \<and> n \<le> 0 then ''0.'' @ replicate (nat (- n)) (CHR ''0'') @ ds
         else if k = 1 then ds @ ex
         else take 1 ds @ ''.'' @ drop 1 ds @ ex)"

text \<open>\<open>String(x)\<close> for a number.\<close>

definition num_to_string :: "jsnum \<Rightarrow> string" where
  "num_to_string x =
     (case x of
        NaN \<Rightarrow> ''NaN''
      | Inf s \<Rightarrow> (if s then ''-Infinity'' else ''Infinity'')
      | Fin s a \<Rightarrow> (if a = 0 then ''0'' else (if s then ''-'' else []) @ mag_to_string a))"

text \<open>\<open>x.toFixed(1)\<close>: the nearest tenth, the larger one on a tie; a magnitude of
  \<open>10 ^ 21\<close> or more, and what is not finite, prints as \<open>String(x)\<close>.\<close>

definition toFixed1 :: "jsnum \<Rightarrow> string" where
  "toFixed1 x =
     (case x of
        Fin s a \<Rightarrow>
          (if pow10 21 \<le> a then num_to_string x
           else
             (let m = int_to_digits \<lfloor>a * 10 + 1 / 2\<rfloor>;
                  m' = (if length m \<le> 1 then replicate (2 - length m) (CHR ''0'') @ m else m)
              in (if s \<and> a \<noteq> 0 then ''-'' else []) @ butlast m' @ ''.'' @ [last m']))
      | _ \<Rightarrow> num_to_string x)"

text \<open>
  \<open>parseFloat\<close>: leading white space is skipped, then the longest prefix that is a decimal
  literal (sign, \<open>Infinity\<close> or digits with an optional fraction and exponent) is read and
  rounded; without such a prefix the result is not-a-number.
\<close>

definition exponent_part :: "string \<Rightarrow> int" where
  "exponent_part r =
     (case r of
        [] \<Rightarrow> 0
      | c # t \<Rightarrow>
          (if c = CHR ''e'' \<or> c = CHR ''E'' then
             (let ds = takeWhile is_digit (strip_sign t)
              in if ds = [] then 0
                 else if take 1 t = ''-'' then - digits_to_int ds
                 else digits_to_int ds)
           else 0))"

definition parseFloat :: "string \<Rightarrow> jsnum" where
  "parseFloat str =
     (let t = dropWhile is_space str;
          neg = (take 1 t = ''-'');
          u = strip_sign t
      in if take 8 u = ''Infinity'' then Inf neg
         else
           (let ip = takeWhile is_digit u;
                r1 = dropWhile is_digit u;
                dot = (take 1 r1 = ''.'');
                fp = (if dot then takeWhile is_digit (drop 1 r1) else []);
                r2 = (if dot then dropWhile is_digit (drop 1 r1) else r1)
            in if ip = [] \<and> fp = [] then NaN
               else to_num neg
                      (of_int (digits_to_int (ip @ fp)) * pow10 (exponent_part r2 - int (length fp)))))"

section \<open>Value utilities\<close>

definition isDecimal :: "string option \<Rightarrow> bool" where
  "isDecimal v = (case v of None \<Rightarrow> False | Some s \<Rightarrow> s \<noteq> [] \<and> decimal_grammar s)"

definition isPercent :: "string option \<Rightarrow> bool" where
  "isPercent v =
     (case v of
        None \<Rightarrow> False
      | Some s \<Rightarrow> s \<noteq> [] \<and> last s = CHR ''%'' \<and> decimal_grammar (butlast s))"

definition removePercent :: "string option \<Rightarrow> string" where
  "removePercent v =
     (case v of
        None \<Rightarrow> []
      | Some s \<Rightarrow> if s \<noteq> [] \<and> last s = CHR ''%'' then butlast s else s)"

definition multivalueToArray :: "string option \<Rightarrow> string list" where
  "multivalueToArray inputString =
     (case inputString of
        None \<Rightarrow> []
      | Some s \<Rightarrow>
          if s = [] then []
          else map trim (split_on (if CHR '','' \<in> set s then CHR '','' else CHR '';'') s))"

definition unbackslash :: "string \<Rightarrow> string" where
  "unbackslash str =
     replace_pair (CHR 0x5C) (CHR 0x27) (CHR 0x27)
       (replace_pair (CHR 0x5C) (CHR 0x22) (CHR 0x22)
         (replace_pair (CHR 0x5C) (CHR 0x5C) (CHR 0x5C)
           (replace_pair (CHR 0x5C) (CHR ''r'') (CHR 0x0D)
             (replace_pair (CHR 0x5C) (CHR ''t'') (CHR 0x09)
               (replace_pair (CHR 0x5C) (CHR ''n'') (CHR 0x0A) str)))))"

definition percentToFloat :: "string option \<Rightarrow> string" where
  "percentToFloat subjectValue =
     (if \<not> truthy subjectValue \<or> \<not> isPercent subjectValue then or_else subjectValue []
      else
        (let newFloat = num_div (parseFloat (removePercent subjectValue)) (num_lit 100)
         in if num_gt newFloat (num_lit 2) then ''2'' else num_to_string newFloat))"

text \<open>The comparator of \<open>percentToMm\<close> and \<open>mmToPercent\<close> is a string or a number.\<close>

datatype comparator = CStr string | CNum jsnum

definition cmp_truthy :: "comparator option \<Rightarrow> bool" where
  "cmp_truthy c =
     (case c of None \<Rightarrow> False | Some (CStr s) \<Rightarrow> s \<noteq> [] | Some (CNum x) \<Rightarrow> \<not> num_falsy x)"

definition cmp_to_string :: "comparator \<Rightarrow> string" where
  "cmp_to_string c = (case c of CStr s \<Rightarrow> s | CNum x \<Rightarrow> num_to_string x)"

definition cmp_to_num :: "comparator \<Rightarrow> jsnum" where
  "cmp_to_num c = (case c of CStr s \<Rightarrow> parseFloat s | CNum x \<Rightarrow> x)"

definition percentToMm :: "comparator option \<Rightarrow> string option \<Rightarrow> string option" where
  "percentToMm mmComparator percentParam =
     (case mmComparator of
        None \<Rightarrow> None
      | Some c \<Rightarrow>
          if \<not> cmp_truthy mmComparator \<or> \<not> truthy percentParam then None
          else if c = CStr [] \<or> percentParam = Some [] then None
          else if \<not> isPercent percentParam then percentParam
          else if isPercent (Some (cmp_to_string c)) then None
          else
            (let mmVal = cmp_to_num c;
                 percentVal = parseFloat (removePercent percentParam)
             in Some (num_to_string (num_mul mmVal (num_div percentVal (num_lit 100))))))"

definition mmToPercent :: "comparator option \<Rightarrow> string option \<Rightarrow> string option" where
  "mmToPercent mmComparator mmParam =
     (case mmComparator of
        None \<Rightarrow> None
      | Some c \<Rightarrow>
          if \<not> cmp_truthy mmComparator \<or> \<not> truthy mmParam then None
          else if isPercent mmParam then mmParam
          else if isPercent (Some (cmp_to_string c)) then None
          else
            (let comparator = cmp_to_num c;
                 param = parseFloat (or_else mmParam [])
             in if num_is_zero comparator then None
                else Some (num_to_string (num_mul (num_div param comparator) (num_lit 100)) @ ''%'')))"

definition evaluatePrintOrder :: "bool option \<Rightarrow> bool option \<Rightarrow> string" where
  "evaluatePrintOrder externalPerimetersFirst infillFirst =
     (let e = (externalPerimetersFirst = Some True); i = (infillFirst = Some True)
      in if \<not> e \<and> \<not> i then ''inner wall/outer wall/infill''
         else if e \<and> \<not> i then ''outer wall/inner wall/infill''
         else if \<not> e \<and> i then ''infill/inner wall/outer wall''
         else if e \<and> i then ''infill/outer wall/inner wall''
         else ''inner wall/outer wall/infill'')"

definition evaluateIroningType :: "bool option \<Rightarrow> string option \<Rightarrow> string" where
  "evaluateIroningType ironing ironingType =
     (if ironing = Some True then or_else ironingType ''no ironing'' else ''no ironing'')"

section \<open>Data model\<close>

datatype SlicerFlavor = PrusaSlicer | SuperSlicer | Unknown

text \<open>The source profile: parameter names with their values, which may be \<open>undefined\<close>.
  \<open>src_get\<close> reads it under a name that no object inherits, as all the names are that
  the source spells out.\<close>

type_synonym SourceIni = "(string \<times> string option) list"

definition src_get :: "SourceIni \<Rightarrow> string \<Rightarrow> string option" where
  "src_get sourceIni k = (case map_of sourceIni k of None \<Rightarrow> None | Some v \<Rightarrow> v)"

text \<open>The output map holds strings, numbers and arrays of strings.\<close>

datatype hash_value = HStr string | HNum jsnum | HArr "string list"

type_synonym NewHash = "string \<rightharpoonup> hash_value"

text \<open>\<open>typeof base === 'string' ? base : ''\<close> for an entry of the output map.\<close>

definition hash_str :: "NewHash \<Rightarrow> string \<Rightarrow> string" where
  "hash_str h k = (case h k of Some (HStr s) \<Rightarrow> s | _ \<Rightarrow> [])"

record Dirs =
  output' :: "string option"
  data :: string
  slicer :: "string option"
  temp :: "string option"

record ToVar =
  externalPerimetersFirst :: "bool option"
  infillFirst :: "bool option"
  ironing :: "bool option"

record Reset =
  onExisting :: bool
  physicalPrinter :: bool
  nozzleSize :: bool
  inherits :: bool
  compatiblePrintersCondition :: bool
  compatiblePrintsCondition :: bool

record Values =
  onExisting :: "string option"
  physicalPrinter :: "string option"
  nozzleSize :: "jsnum option"
  inherits :: "string option"
  compatiblePrintersCondition :: "string option"
  compatiblePrintsCondition :: "string option"

text \<open>The conversion state, the interface \<open>Status\<close> of the source; its field \<open>value\<close> is written
  \<open>value'\<close>.\<close>

record Status =
  forceOut :: bool
  legacyOverwrite :: bool
  maxTemp :: jsnum
  interactiveMode :: bool
  outdirWasProvided :: bool
  slicerFlavor :: "SlicerFlavor option"
  iniType :: "string option"
  profileName :: "string option"
  ironingType :: "string option"
  iterationsLeft :: "jsnum option"
  dirs :: Dirs
  toVar :: ToVar
  reset :: Reset
  value' :: Values

text \<open>
  The parameter map sends a source parameter to one target key or to several. Its
  module is not part of the sources at hand, so the functions that read it take it as
  their first argument. It is read under a profile type, which the type \<open>IniType\<close> of
  the source keeps to five names that no object inherits.
\<close>

datatype map_target = One string | Many "string list"

type_synonym TypeMap = "(string \<times> map_target) list"

type_synonym ParameterMap = "(string \<times> TypeMap) list"

text \<open>
  The interactive collaborator \<open>displayMenu(prompt, isSingleOption, options)\<close> answers
  with one string or with an array of strings. The objects a call works on are kept
  together: the source profile, the conversion state, the output map, and the prompts
  shown so far.
\<close>

datatype menu_answer = Chosen string | ChosenMany "string list"

type_synonym menu = "string \<Rightarrow> bool \<Rightarrow> string list \<Rightarrow> menu_answer"

record store =
  sourceIni :: SourceIni
  status :: Status
  newHash :: NewHash
  prompts :: "string list"

text \<open>What \<open>convertParams\<close> returns when it returns a value: a string, an array of
  strings, or the inherited member that a lookup table gave under the name kept here.
  A call may also throw.\<close>

datatype conv_value = VStr string | VArr "string list" | VMember string

datatype error = TypeError

type_synonym rule = "store \<Rightarrow> (error + conv_value) \<times> store"

section \<open>Lookup tables\<close>

definition filamentTypes :: "(string \<times> string) list" where
  "filamentTypes = [(''PET'', ''PETG''), (''FLEX'', ''TPU''), (''NYLON'', ''PA'')]"

definition defaultMVS :: "(string \<times> string) list" where
  "defaultMVS =
     [(''PLA'', ''15''), (''PET'', ''10''), (''ABS'', ''12''), (''ASA'', ''12''),
      (''FLEX'', ''3.2''), (''NYLON'', ''12''), (''PVA'', ''12''), (''PC'', ''12''),
      (''PSU'', ''8''), (''HIPS'', ''8''), (''EDGE'', ''8''), (''NGEN'', ''8''),
      (''PP'', ''8''), (''PEI'', ''8''), (''PEEK'', ''8''), (''PEKK'', ''8''),
      (''POM'', ''8''), (''PVDF'', ''8''), (''SCAFF'', ''8'')]"

definition speedSequence :: "string list" where
  "speedSequence =
     [''perimeter_speed'', ''external_perimeter_speed'', ''solid_infill_speed'',
      ''infill_speed'', ''small_perimeter_speed'', ''top_solid_infill_speed'',
      ''gap_fill_speed'', ''support_material_speed'', ''support_material_interface_speed'',
      ''bridge_speed'', ''first_layer_speed'', ''first_layer_infill_speed'']"

definition speedParams :: "(string \<times> string) list" where
  "speedParams =
     [(''perimeter_speed'', ''inner_wall_speed''),
      (''external_perimeter_speed'', ''outer_wall_speed''),
      (''small_perimeter_speed'', ''small_perimeter_speed''),
      (''solid_infill_speed'', ''internal_solid_infill_speed''),
      (''infill_speed'', ''sparse_infill_speed''),
      (''top_solid_infill_speed'', ''top_surface_speed''),
      (''gap_fill_speed'', ''gap_infill_speed''),
      (''support_material_speed'', ''support_speed''),
      (''support_material_interface_speed'', ''support_interface_speed''),
      (''bridge_speed'', ''bridge_speed''),
      (''first_layer_speed'', ''initial_layer_speed''),
      (''first_layer_infill_speed'', ''initial_layer_infill_speed'')]"

definition seamPositions :: "(string \<times> string) list" where
  "seamPositions =
     [(''cost'', ''nearest''), (''random'', ''random''), (''allrandom'', ''random''),
      (''aligned'', ''aligned''), (''contiguous'', ''aligned''), (''rear'', ''back''),
      (''nearest'', ''nearest'')]"

definition infillTypes :: "(string \<times> string) list" where
  "infillTypes =
     [(''3dhoneycomb'', ''3dhoneycomb''), (''adaptivecubic'', ''adaptivecubic''),
      (''alignedrectilinear'', ''alignedrectilinear''),
      (''archimedeanchords'', ''archimedeanchords''), (''concentric'', ''concentric''),
      (''concentricgapfill'', ''concentric''), (''cubic'', ''cubic''), (''grid'', ''grid''),
      (''gyroid'', ''gyroid''), (''hilbertcurve'', ''hilbertcurve''),
      (''honeycomb'', ''honeycomb''), (''lightning'', ''lightning''), (''line'', ''line''),
      (''monotonic'', ''monotonic''), (''monotonicgapfill'', ''monotonic''),
      (''monotoniclines'', ''monotonicline''), (''octagramspiral'', ''octagramspiral''),
      (''rectilinear'', ''zig-zag''), (''rectilineargapfill'', ''zig-zag''),
      (''rectiwithperimeter'', ''zig-zag''), (''sawtooth'', ''zig-zag''),
      (''scatteredrectilinear'', ''zig-zag''), (''smooth'', ''monotonic''),
      (''smoothhilbert'', ''hilbertcurve''), (''smoothtriple'', ''triangles''),
      (''stars'', ''tri-hexagon''), (''supportcubic'', ''supportcubic''),
      (''triangles'', ''triangles'')]"

definition supportStyles :: "(string \<times> string \<times> string) list" where
  "supportStyles =
     [(''grid'', ''normal'', ''grid''), (''snug'', ''normal'', ''snug''),
      (''tree'', ''tree'', ''default''), (''organic'', ''tree'', ''organic'')]"

definition supportPatterns :: "(string \<times> bool) list" where
  "supportPatterns =
     [(''rectilinear'', True), (''rectilinear-grid'', True), (''honeycomb'', True),
      (''lightning'', True), (''default'', True), (''hollow'', True)]"

definition interfacePatterns :: "(string \<times> bool) list" where
  "interfacePatterns =
     [(''auto'', True), (''rectilinear'', True), (''concentric'', True),
      (''rectilinear_interlaced'', True), (''grid'', True)]"

definition gcodeFlavors :: "(string \<times> string) list" where
  "gcodeFlavors =
     [(''klipper'', ''klipper''), (''mach3'', ''reprapfirmware''),
      (''machinekit'', ''reprapfirmware''), (''makerware'', ''reprapfirmware''),
      (''marlin'', ''marlin''), (''marlin2'', ''marlin2''),
      (''no-extrusion'', ''reprapfirmware''), (''repetier'', ''reprapfirmware''),
      (''reprap'', ''reprapfirmware''), (''reprapfirmware'', ''reprapfirmware''),
      (''sailfish'', ''reprapfirmware''), (''smoothie'', ''reprapfirmware''),
      (''teacup'', ''reprapfirmware''), (''sprinter'', ''reprapfirmware'')]"

definition hostTypes :: "(string \<times> string) list" where
  "hostTypes =
     [(''repetier'', ''repetier''), (''prusalink'', ''prusalink''),
      (''prusaconnect'', ''prusaconnect''), (''octoprint'', ''octoprint''),
      (''moonraker'', ''octoprint''), (''mks'', ''mks''), (''klipper'', ''octoprint''),
      (''flashair'', ''flashair''), (''duet'', ''duet''), (''astrobox'', ''astrobox'')]"

definition zhopEnforcement :: "(string \<times> string) list" where
  "zhopEnforcement =
     [(''All surfaces'', ''All Surfaces''), (''Not on top'', ''Bottom Only''),
      (''Only on top'', ''Top Only'')]"

definition thumbnailFormat :: "(string \<times> string) list" where
  "thumbnailFormat =
     [(''PNG'', ''PNG''), (''JPG'', ''JPG''), (''QOI'', ''QOI''), (''BIQU'', ''BTT_TFT'')]"

datatype MultivalueParamType = single | array

definition multivalueParams :: "(string \<times> MultivalueParamType) list" where
  "multivalueParams =
     [(''max_layer_height'', single), (''min_layer_height'', single),
      (''deretract_speed'', single), (''default_filament_profile'', single),
      (''machine_max_acceleration_e'', array),
      (''machine_max_acceleration_extruding'', array),
      (''machine_max_acceleration_retracting'', array),
      (''machine_max_acceleration_travel'', array),
      (''machine_max_acceleration_x'', array), (''machine_max_acceleration_y'', array),
      (''machine_max_acceleration_z'', array), (''machine_max_feedrate_e'', array),
      (''machine_max_feedrate_x'', array), (''machine_max_feedrate_y'', array),
      (''machine_max_feedrate_z'', array), (''machine_max_jerk_e'', array),
      (''machine_max_jerk_x'', array), (''machine_max_jerk_y'', array),
      (''machine_max_jerk_z'', array), (''machine_min_extruding_rate'', array),
      (''machine_min_travel_rate'', array), (''nozzle_diameter'', single),
      (''bed_shape'', array), (''retract_before_wipe'', single),
      (''retract_length_toolchange'', single),
      (''retract_restart_extra_toolchange'', single), (''retract_restart_extra'', single),
      (''retract_layer_change'', single), (''retract_length'', single),
      (''retract_lift'', single), (''retract_before_travel'', single),
      (''retract_speed'', single), (''thumbnails'', array), (''extruder_offset'', single),
      (''retract_lift_above'', single), (''retract_lift_below'', single),
      (''wipe'', single)]"

section \<open>Conversion engine\<close>

text \<open>The element \<open>arr[i]\<close> of an array, and \<open>String(status.value.nozzleSize || '')\<close>.\<close>

fun elem_at :: "'a list \<Rightarrow> nat \<Rightarrow> 'a option" where
  "elem_at [] i = None"
| "elem_at (x # xs) 0 = Some x"
| "elem_at (x # xs) (Suc i) = elem_at xs i"

definition nozzle_string :: "Status \<Rightarrow> string" where
  "nozzle_string st =
     (case nozzleSize (value' st) of
        None \<Rightarrow> []
      | Some x \<Rightarrow> if num_falsy x then [] else num_to_string x)"

definition as_comparator :: "string option \<Rightarrow> comparator option" where
  "as_comparator v = map_option CStr v"

text \<open>\<open>s.replace(/^"(.*)"$/, '$1')\<close>: one pair of surrounding double quotes is removed
  when no line break stands between them.\<close>

definition strip_quotes :: "string \<Rightarrow> string" where
  "strip_quotes s =
     (if 2 \<le> length s \<and> take 1 s = [CHR 0x22] \<and> last s = CHR 0x22
         \<and> list_all (\<lambda>c. c \<noteq> CHR 0x0A \<and> c \<noteq> CHR 0x0D) (butlast (drop 1 s))
      then butlast (drop 1 s) else s)"

definition unbackslashGcode :: "string \<Rightarrow> string" where
  "unbackslashGcode newValue =
     (if newValue = [] then [] else unbackslash (strip_quotes newValue))"

text \<open>\<open>s.replace(/\[/g, '{').replace(/\]/g, '}')\<close>.\<close>

definition braces :: "string \<Rightarrow> string" where
  "braces s =
     map (\<lambda>c. if c = CHR ''['' then CHR ''{'' else if c = CHR '']'' then CHR ''}'' else c) s"

text \<open>The text shown for a compatibility condition.\<close>

definition esc :: "string \<Rightarrow> string" where
  "esc s = CHR 0x1B # s"

definition compatible_prompt ::
  "string \<Rightarrow> string option \<Rightarrow> string option \<Rightarrow> string \<Rightarrow> string" where
  "compatible_prompt parameter file ty newValue =
     (let parts = split_on (CHR ''_'') parameter;
          affectedProfile = or_else (map_option butlast (elem_at parts 1)) ''profile'';
          t = (case ty of None \<Rightarrow> ''undefined'' | Some x \<Rightarrow> x)
      in ''The '' @ esc ''[1m'' @ or_else file ''profile'' @ esc ''[0m '' @ t
         @ '' profile has the following '' @ esc ''[1m'' @ parameter @ esc ''[0m value:''
         @ [CHR 0x0A, CHR 0x0A, CHR 0x09] @ esc ''[40m'' @ esc ''[0;93m'' @ newValue
         @ esc ''[0m'' @ [CHR 0x0A, CHR 0x0A]
         @ ''If you keep this value, this '' @ t
         @ '' profile will not be visible in OrcaSlicer unless you have selected a ''
         @ affectedProfile
         @ '' that satisfies all the conditions specified above. If you discard this value, this ''
         @ t @ '' profile will be visible regardless of which '' @ affectedProfile
         @ '' you have selected.'' @ [CHR 0x0A, CHR 0x0A]
         @ ''Do you want to KEEP this value or DISCARD it?'' @ [CHR 0x0A, CHR 0x0A])"

definition set_printers_condition :: "string \<Rightarrow> store \<Rightarrow> store" where
  "set_printers_condition choice w =
     w\<lparr>status := (status w)\<lparr>value' :=
          (value' (status w))\<lparr>compatiblePrintersCondition := Some choice\<rparr>\<rparr>\<rparr>"

definition set_prints_condition :: "string \<Rightarrow> store \<Rightarrow> store" where
  "set_prints_condition choice w =
     w\<lparr>status := (status w)\<lparr>value' :=
          (value' (status w))\<lparr>compatiblePrintsCondition := Some choice\<rparr>\<rparr>\<rparr>"

definition handleCompatibleCondition ::
  "menu \<Rightarrow> string \<Rightarrow> string option \<Rightarrow> string \<Rightarrow> store \<Rightarrow> string \<times> store" where
  "handleCompatibleCondition displayMenu parameter file newValue w =
     (if parameter = ''compatible_printers_condition'' then
        (if compatiblePrintersCondition (value' (status w)) = Some ''DISCARD'' then ([], w)
         else if newValue = []
                 \<or> compatiblePrintersCondition (value' (status w)) = Some ''KEEP''
         then (newValue, w)
         else
           (let msg = compatible_prompt parameter file (iniType (status w)) newValue;
                w1 = w\<lparr>prompts := prompts w @ [msg]\<rparr>
            in case displayMenu msg True [''KEEP'', ''DISCARD''] of
                 Chosen choice \<Rightarrow>
                   (if choice = ''KEEP'' then newValue else [], set_printers_condition choice w1)
               | ChosenMany cs \<Rightarrow> ([], w1)))
      else if parameter = ''compatible_prints_condition'' then
        (if compatiblePrintsCondition (value' (status w)) = Some ''DISCARD'' then ([], w)
         else if newValue = []
                 \<or> compatiblePrintsCondition (value' (status w)) = Some ''KEEP''
         then (newValue, w)
         else
           (let msg = compatible_prompt parameter file (iniType (status w)) newValue;
                w1 = w\<lparr>prompts := prompts w @ [msg]\<rparr>
            in case displayMenu msg True [''KEEP'', ''DISCARD''] of
                 Chosen choice \<Rightarrow>
                   (if choice = ''KEEP'' then newValue else [], set_prints_condition choice w1)
               | ChosenMany cs \<Rightarrow> ([], w1)))
      else (newValue, w))"

text \<open>A special case that only computes a string leaves the objects as they are; so
  does one that returns what a lookup table gives. \<open>returning\<close> is a special case that
  works on the objects and returns a string.\<close>

definition pure_case :: "(store \<Rightarrow> string) \<Rightarrow> rule" where
  "pure_case f w = (Inr (VStr (f w)), w)"

definition table_case :: "(store \<Rightarrow> conv_value) \<Rightarrow> rule" where
  "table_case f w = (Inr (f w), w)"

definition returning :: "(store \<Rightarrow> string \<times> store) \<Rightarrow> rule" where
  "returning g w = (case g w of (r, w') \<Rightarrow> (Inr (VStr r), w'))"

text \<open>\<open>table[k] || d\<close> and the test \<open>table[k] ? ... : ...\<close>.\<close>

definition lookup_or :: "(string \<times> string) list \<Rightarrow> string \<Rightarrow> string \<Rightarrow> conv_value" where
  "lookup_or table k d =
     (case get_property table k of
        Own v \<Rightarrow> VStr (if v = [] then d else v)
      | Inherited \<Rightarrow> VMember k
      | Absent \<Rightarrow> VStr d)"

definition listed :: "(string \<times> bool) list \<Rightarrow> string \<Rightarrow> bool" where
  "listed table k =
     (case get_property table k of Own b \<Rightarrow> b | Inherited \<Rightarrow> True | Absent \<Rightarrow> False)"

definition nozzle_mm :: "string \<Rightarrow> rule" where
  "nozzle_mm newValue =
     pure_case (\<lambda>w. or_else
       (percentToMm (Some (CStr (nozzle_string (status w)))) (Some newValue)) [])"

definition infill_pattern :: "string \<Rightarrow> rule" where
  "infill_pattern newValue = table_case (\<lambda>w. lookup_or infillTypes newValue newValue)"

text \<open>The three speeds that SuperSlicer gives relative to \<open>default_speed\<close>.\<close>

definition default_speed_case :: "string \<Rightarrow> string option \<Rightarrow> rule" where
  "default_speed_case newValue defaultSpeed =
     pure_case (\<lambda>w.
       if slicerFlavor (status w) = Some SuperSlicer
       then or_else (percentToMm (as_comparator defaultSpeed) (Some newValue)) newValue
       else newValue)"

text \<open>The speeds that SuperSlicer gives relative to a speed already in the output map.\<close>

definition output_speed_case :: "string \<Rightarrow> string \<Rightarrow> rule" where
  "output_speed_case key newValue =
     pure_case (\<lambda>w.
       if slicerFlavor (status w) = Some SuperSlicer
       then or_else (percentToMm (Some (CStr (hash_str (newHash w) key))) (Some newValue)) newValue
       else newValue)"

text \<open>The entries of \<open>supportStyles\<close> are arrays of two strings, which the special case
  takes apart; an inherited member counts as true and cannot be taken apart, so the
  special case throws.\<close>

definition support_material_style :: "string \<Rightarrow> rule" where
  "support_material_style newValue w =
     (case get_property supportStyles newValue of
        Absent \<Rightarrow> (Inr (VStr []), w)
      | Inherited \<Rightarrow> (Inl TypeError, w)
      | Own (supportType, supportStyle) \<Rightarrow>
          (let genstyle =
                 (if truthy (src_get (sourceIni w) ''support_material_auto'')
                  then ''auto'' else ''manual'')
           in (Inr (VStr []), w\<lparr>newHash := (newHash w)
                   (''support_type'' \<mapsto> HStr (supportType @ ''('' @ genstyle @ '')''),
                    ''support_style'' \<mapsto> HStr supportStyle)\<rparr>)))"

definition specialCases ::
  "menu \<Rightarrow> string \<Rightarrow> string option \<Rightarrow> string \<Rightarrow> string option
     \<Rightarrow> (string \<times> rule) list" where
  "specialCases displayMenu parameter file newValue defaultSpeed =
     [(''start_filament_gcode'', pure_case (\<lambda>w. unbackslashGcode newValue)),
      (''end_filament_gcode'', pure_case (\<lambda>w. unbackslashGcode newValue)),
      (''post_process'', pure_case (\<lambda>w. unbackslashGcode newValue)),
      (''before_layer_gcode'', pure_case (\<lambda>w. unbackslashGcode newValue)),
      (''toolchange_gcode'', pure_case (\<lambda>w. unbackslashGcode newValue)),
      (''layer_gcode'', pure_case (\<lambda>w. unbackslashGcode newValue)),
      (''feature_gcode'', pure_case (\<lambda>w. unbackslashGcode newValue)),
      (''end_gcode'', pure_case (\<lambda>w. unbackslashGcode newValue)),
      (''pause_print_gcode'', pure_case (\<lambda>w. unbackslashGcode newValue)),
      (''start_gcode'', pure_case (\<lambda>w. unbackslashGcode newValue)),
      (''template_custom_gcode'', pure_case (\<lambda>w. unbackslashGcode newValue)),
      (''notes'', pure_case (\<lambda>w. unbackslashGcode newValue)),
      (''filament_notes'', pure_case (\<lambda>w. unbackslashGcode newValue)),
      (''printer_notes'', pure_case (\<lambda>w. unbackslashGcode newValue)),
      (''filament_type'', table_case (\<lambda>w. lookup_or filamentTypes newValue newValue)),
      (''filament_max_volumetric_speed'', table_case (\<lambda>w.
          let val = parseFloat newValue
          in if num_gt val (num_lit 0) then VStr (num_to_string val)
             else lookup_or defaultMVS (or_else (src_get (sourceIni w) ''filament_type'') [])
                    ''15'')),
      (''draft_shield'', pure_case (\<lambda>w.
          if newValue = ''disabled'' then ''0''
          else if newValue = ''enabled'' then ''1'' else newValue)),
      (''external_perimeter_fan_speed'', pure_case (\<lambda>w.
          let val = parseFloat newValue
          in if num_lt val (num_lit 0) then ''0%'' else num_to_string val @ ''%'')),
      (''ironing_type'', returning (\<lambda>w.
          (newValue, w\<lparr>status := (status w)\<lparr>ironingType := Some newValue\<rparr>\<rparr>))),
      (''default_filament_profile'', pure_case (\<lambda>w.
          unbackslash (or_else (elem_at (multivalueToArray (Some newValue)) 0) []))),
      (''retract_lift_top'', table_case (\<lambda>w.
          let arr = multivalueToArray (Some newValue)
          in lookup_or zhopEnforcement (or_else (elem_at arr 0) [])
               (or_else (elem_at arr 0) []))),
      (''compatible_printers_condition'',
          returning (handleCompatibleCondition displayMenu parameter file newValue)),
      (''compatible_prints_condition'',
          returning (handleCompatibleCondition displayMenu parameter file newValue)),
      (''max_layer_height'', nozzle_mm newValue),
      (''min_layer_height'', nozzle_mm newValue),
      (''fuzzy_skin_point_dist'', nozzle_mm newValue),
      (''fuzzy_skin_thickness'', nozzle_mm newValue),
      (''small_perimeter_min_length'', nozzle_mm newValue),
      (''bridge_flow_ratio'', pure_case (\<lambda>w. percentToFloat (Some newValue))),
      (''fill_top_flow_ratio'', pure_case (\<lambda>w. percentToFloat (Some newValue))),
      (''first_layer_flow_ratio'', pure_case (\<lambda>w. percentToFloat (Some newValue))),
      (''wall_transition_length'', pure_case (\<lambda>w. or_else
          (mmToPercent (Some (CStr (nozzle_string (status w)))) (Some newValue)) [])),
      (''machine_limits_usage'', pure_case (\<lambda>w.
          if newValue = ''emit_to_gcode'' then ''1'' else ''0'')),
      (''remaining_times'', pure_case (\<lambda>w. if newValue = ''0'' then ''1'' else ''0'')),
      (''support_material_bottom_contact_distance'', pure_case (\<lambda>w.
          if newValue = ''0''
          then or_else (src_get (sourceIni w) ''support_material_contact_distance'') []
          else newValue)),
      (''support_material_style'', support_material_style newValue),
      (''fill_pattern'', infill_pattern newValue),
      (''top_fill_pattern'', infill_pattern newValue),
      (''bottom_fill_pattern'', infill_pattern newValue),
      (''solid_fill_pattern'', infill_pattern newValue),
      (''gcode_flavor'', table_case (\<lambda>w. lookup_or gcodeFlavors newValue [])),
      (''host_type'', table_case (\<lambda>w. lookup_or hostTypes newValue newValue)),
      (''thumbnails_format'', table_case (\<lambda>w. lookup_or thumbnailFormat newValue newValue)),
      (''support_material_pattern'', pure_case (\<lambda>w.
          if listed supportPatterns newValue then newValue else ''default'')),
      (''support_material_interface_pattern'', pure_case (\<lambda>w.
          if listed interfacePatterns newValue then newValue else ''auto'')),
      (''seam_position'', table_case (\<lambda>w. lookup_or seamPositions newValue newValue)),
      (''support_material_layer_height'', pure_case (\<lambda>w.
          if num_gt (parseFloat newValue) (num_lit 0) then ''1'' else ''0'')),
      (''output_filename_format'', pure_case (\<lambda>w. braces newValue)),
      (''support_material_xy_spacing'', pure_case (\<lambda>w.
          let calculated =
                percentToMm
                  (as_comparator (src_get (sourceIni w) ''external_perimeter_extrusion_width''))
                  (Some newValue);
              calculated' =
                (if \<not> truthy calculated
                 then percentToMm (Some (CStr (nozzle_string (status w)))) (Some newValue)
                 else calculated)
          in or_else calculated' [])),
      (''extrusion_width'', pure_case (\<lambda>w. if newValue = [] then ''0'' else newValue)),
      (''infill_every_layers'', pure_case (\<lambda>w.
          if num_gt (parseFloat newValue) (num_lit 0) then ''1'' else ''0'')),
      (''complete_objects'', pure_case (\<lambda>w.
          if newValue \<noteq> [] then ''by object'' else ''by layer'')),
      (''external_perimeter_speed'', pure_case (\<lambda>w. or_else
          (percentToMm (as_comparator (src_get (sourceIni w) ''perimeter_speed'')) (Some newValue))
          newValue)),
      (''first_layer_speed'', pure_case (\<lambda>w. or_else
          (percentToMm (as_comparator (src_get (sourceIni w) ''perimeter_speed'')) (Some newValue))
          newValue)),
      (''top_solid_infill_speed'', pure_case (\<lambda>w. or_else
          (percentToMm (Some (CStr (hash_str (newHash w) ''internal_solid_infill_speed'')))
             (Some newValue))
          newValue)),
      (''support_material_interface_speed'', pure_case (\<lambda>w. or_else
          (percentToMm (as_comparator (src_get (sourceIni w) ''support_material_speed''))
             (Some newValue))
          newValue)),
      (''first_layer_infill_speed'', pure_case (\<lambda>w.
          let base = (if slicerFlavor (status w) = Some PrusaSlicer
                      then src_get (sourceIni w) ''first_layer_speed'' else Some newValue)
          in or_else (percentToMm (as_comparator (src_get (sourceIni w) ''infill_speed'')) base)
               newValue)),
      (''solid_infill_speed'', pure_case (\<lambda>w.
          let base = (if slicerFlavor (status w) = Some PrusaSlicer
                      then src_get (sourceIni w) ''infill_speed'' else defaultSpeed)
          in or_else (percentToMm (as_comparator base) (Some newValue)) newValue)),
      (''perimeter_speed'', default_speed_case newValue defaultSpeed),
      (''support_material_speed'', default_speed_case newValue defaultSpeed),
      (''bridge_speed'', default_speed_case newValue defaultSpeed),
      (''infill_speed'', output_speed_case ''internal_solid_infill_speed'' newValue),
      (''small_perimeter_speed'', output_speed_case ''sparse_infill_speed'' newValue),
      (''gap_fill_speed'', output_speed_case ''sparse_infill_speed'' newValue)]"

text \<open>The special case registered for the parameter runs; without one the value passes
  through. A parameter under a name that objects inherit never gets here: the test of
  \<open>multivalueParams[parameter]\<close> has ended the call.\<close>

definition run_special_case ::
  "menu \<Rightarrow> string \<Rightarrow> string option \<Rightarrow> string \<Rightarrow> string option \<Rightarrow> store
     \<Rightarrow> (error + conv_value option) \<times> store" where
  "run_special_case displayMenu parameter file newValue defaultSpeed w =
     (case map_of (specialCases displayMenu parameter file newValue defaultSpeed) parameter of
        Some rule \<Rightarrow>
          (case rule w of (Inl e, w') \<Rightarrow> (Inl e, w') | (Inr r, w') \<Rightarrow> (Inr (Some r), w'))
      | None \<Rightarrow> (Inr (Some (VStr newValue)), w))"

text \<open>A fan-out parameter: the same value under every listed key. Writing a string
  under \<open>__proto__\<close> changes nothing.\<close>

definition write_all :: "string list \<Rightarrow> string \<Rightarrow> NewHash \<Rightarrow> NewHash" where
  "write_all keys newValue h =
     fold (\<lambda>key m. if key = ''__proto__'' then m else m(key \<mapsto> HStr newValue)) keys h"

definition set_toVar :: "(ToVar \<Rightarrow> ToVar) \<Rightarrow> store \<Rightarrow> store" where
  "set_toVar f w = w\<lparr>status := (status w)\<lparr>toVar := f (toVar (status w))\<rparr>\<rparr>"

text \<open>
  \<open>convertParams\<close>. Under a name that objects inherit and the profile does not have,
  \<open>sourceIni[parameter]\<close> is the inherited member and so is \<open>multivalueParams[parameter]\<close>;
  both count as true, and \<open>multivalueToArray\<close> calls \<open>includes\<close> on a value that has no
  such method, which throws. Under such a name that the profile has, the inherited
  member of \<open>multivalueParams\<close> is not \<open>'single'\<close> and the array is returned.
\<close>

definition convertParams ::
  "ParameterMap \<Rightarrow> menu \<Rightarrow> string \<Rightarrow> string option \<Rightarrow> store
     \<Rightarrow> (error + conv_value option) \<times> store" where
  "convertParams parameterMap displayMenu parameter file w =
     (case get_property (sourceIni w) parameter of
        Absent \<Rightarrow> (Inr None, w)
      | Inherited \<Rightarrow> (Inl TypeError, w)
      | Own None \<Rightarrow> (Inr None, w)
      | Own (Some v) \<Rightarrow>
          if v = [] then (Inr None, w)
          else if v = ''nil'' then (Inr None, w)
          else if get_property multivalueParams parameter = Own array
                  \<or> get_property multivalueParams parameter = Inherited
          then (Inr (Some (VArr (multivalueToArray (Some v)))), w)
          else
            (let newValue =
                   (if get_property multivalueParams parameter = Own single
                    then or_else (elem_at (multivalueToArray (Some v)) 0) [] else v);
                 defaultSpeed =
                   (if slicerFlavor (status w) = Some SuperSlicer
                    then src_get (sourceIni w) ''default_speed'' else None)
             in if \<not> truthy (iniType (status w))
                   \<or> iniType (status w) = Some ''unsupported''
                   \<or> iniType (status w) = Some ''physical_printer''
                then (Inr None, w)
                else
                  (case map_of parameterMap (or_else (iniType (status w)) []) of
                     None \<Rightarrow> (Inr None, w)
                   | Some typeMap \<Rightarrow>
                       (case get_property typeMap parameter of
                          Own (Many keys) \<Rightarrow>
                            (Inr None, w\<lparr>newHash := write_all keys newValue (newHash w)\<rparr>)
                        | _ \<Rightarrow>
                            if parameter = ''external_perimeters_first'' then
                              (Inr None, set_toVar
                                 (\<lambda>t. t\<lparr>externalPerimetersFirst := Some (newValue \<noteq> [])\<rparr>) w)
                            else if parameter = ''infill_first'' then
                              (Inr None,
                               set_toVar (\<lambda>t. t\<lparr>infillFirst := Some (newValue \<noteq> [])\<rparr>) w)
                            else if parameter = ''ironing'' then
                              (Inr None, set_toVar (\<lambda>t. t\<lparr>ironing := Some (newValue \<noteq> [])\<rparr>) w)
                            else run_special_case displayMenu parameter file newValue
                                   defaultSpeed w))))"

section \<open>Print-parameter post-processor\<close>

text \<open>\<open>s.replace(/\.?0+$/, '')\<close>: trailing zeros go, and a point standing before them.\<close>

definition strip_fraction_zeros :: "string \<Rightarrow> string" where
  "strip_fraction_zeros s =
     (let r = strip_zeros s
      in if r = s then s
         else if r \<noteq> [] \<and> last r = CHR ''.'' then butlast r else r)"

text \<open>The key \<open>speedParams[parameter]\<close>; a missing entry would give the key
  \<open>undefined\<close>.\<close>

definition speed_key :: "string \<Rightarrow> string" where
  "speed_key parameter =
     (case map_of speedParams parameter of None \<Rightarrow> ''undefined'' | Some k \<Rightarrow> k)"

text \<open>The loop over the speed parameters; a call of \<open>convertParams\<close> that throws ends
  it.\<close>

fun speed_loop ::
  "ParameterMap \<Rightarrow> menu \<Rightarrow> string list \<Rightarrow> store \<Rightarrow> error option \<times> store" where
  "speed_loop parameterMap displayMenu [] w = (None, w)"
| "speed_loop parameterMap displayMenu (parameter # rest) w =
     (if \<not> truthy (src_get (sourceIni w) parameter)
      then speed_loop parameterMap displayMenu rest w
      else
        (case convertParams parameterMap displayMenu parameter None w of
           (Inl e, w1) \<Rightarrow> (Some e, w1)
         | (Inr (Some (VStr newValue)), w1) \<Rightarrow>
             if newValue = [] then speed_loop parameterMap displayMenu rest w1
             else if isDecimal (Some newValue) then
               speed_loop parameterMap displayMenu rest
                 (w1\<lparr>newHash := (newHash w1)
                    (speed_key parameter \<mapsto>
                       HStr (strip_fraction_zeros (toFixed1 (parseFloat newValue))))\<rparr>)
             else
               speed_loop parameterMap displayMenu rest
                 (w1\<lparr>newHash := (newHash w1)(speed_key parameter \<mapsto> HStr newValue)\<rparr>)
         | (Inr _, w1) \<Rightarrow> speed_loop parameterMap displayMenu rest w1))"

definition overhangSpeedKeys :: "string list" where
  "overhangSpeedKeys =
     [''overhang_1_4_speed'', ''overhang_2_4_speed'', ''overhang_3_4_speed'',
      ''overhang_4_4_speed'']"

text \<open>The speeds gathered for the dynamic overhang thresholds.\<close>

definition overhang_speeds :: "store \<Rightarrow> string list" where
  "overhang_speeds w =
     (if slicerFlavor (status w) = Some SuperSlicer
      then split_on (CHR '','') (or_else (src_get (sourceIni w) ''dynamic_overhang_speeds'') [])
      else [or_else (src_get (sourceIni w) ''overhang_speed_0'') [],
            or_else (src_get (sourceIni w) ''overhang_speed_1'') [],
            or_else (src_get (sourceIni w) ''overhang_speed_2'') [],
            or_else (src_get (sourceIni w) ''overhang_speed_3'') []])"

text \<open>\<open>overhangSpeedKeys.forEach((key, idx) => { newHash[key] = speeds[3 - idx] || ''; })\<close>\<close>

definition write_overhang :: "string list \<Rightarrow> NewHash \<Rightarrow> NewHash" where
  "write_overhang speeds h =
     fold (\<lambda>(key, idx) m. m(key \<mapsto> HStr (or_else (elem_at speeds (3 - idx)) [])))
       (zip overhangSpeedKeys [0 ..< length overhangSpeedKeys]) h"

text \<open>What follows the loop: the overhang flag and speeds, the wall order and the
  ironing type.\<close>

definition after_speeds :: "store \<Rightarrow> store" where
  "after_speeds w1 =
     (let enableDynamicOverhangSpeeds =
            truthy (src_get (sourceIni w1) ''enable_dynamic_overhang_speeds'');
          w2 = w1\<lparr>newHash := (newHash w1)
                 (''enable_overhang_speed'' \<mapsto>
                    HStr (if enableDynamicOverhangSpeeds then ''1'' else ''0''))\<rparr>;
          w3 = (if enableDynamicOverhangSpeeds
                then w2\<lparr>newHash := write_overhang (overhang_speeds w2) (newHash w2)\<rparr>
                else w2);
          w4 = w3\<lparr>newHash := (newHash w3)
                 (''wall_infill_order'' \<mapsto>
                    HStr (evaluatePrintOrder
                            (externalPerimetersFirst (toVar (status w3)))
                            (infillFirst (toVar (status w3)))))\<rparr>
      in w4\<lparr>newHash := (newHash w4)
            (''ironing_type'' \<mapsto>
               HStr (evaluateIroningType
                       (ironing (toVar (status w4))) (ironingType (status w4))))\<rparr>)"

definition calculatePrintParams ::
  "ParameterMap \<Rightarrow> menu \<Rightarrow> store \<Rightarrow> (error + NewHash) \<times> store" where
  "calculatePrintParams parameterMap displayMenu w =
     (case speed_loop parameterMap displayMenu speedSequence w of
        (Some e, w1) \<Rightarrow> (Inl e, w1)
      | (None, w1) \<Rightarrow> (Inr (newHash (after_speeds w1)), after_speeds w1))"

section \<open>Profile type detector\<close>

text \<open>\<open>Object.keys\<close> of an object given by an association list: each key once, in the
  order of its first entry.\<close>

fun object_keys :: "(string \<times> 'a) list \<Rightarrow> string list" where
  "object_keys [] = []"
| "object_keys ((k, v) # xs) = k # filter (\<lambda>k'. k' \<noteq> k) (object_keys xs)"

text \<open>For how many parameter names of the profile \<open>param in typeMap\<close> holds.\<close>

definition match_count :: "TypeMap \<Rightarrow> SourceIni \<Rightarrow> nat" where
  "match_count typeMap ini =
     length (filter (\<lambda>param. has_property typeMap param) (object_keys ini))"

definition typeCounts :: "ParameterMap \<Rightarrow> SourceIni \<Rightarrow> (string \<times> nat) list" where
  "typeCounts parameterMap ini =
     map (\<lambda>type. (type, (case map_of parameterMap type of
                            None \<Rightarrow> 0
                          | Some typeMap \<Rightarrow> match_count typeMap ini)))
       (object_keys parameterMap)"

text \<open>\<open>entries.sort((a, b) => b[1] - a[1])\<close>: a stable sort, the larger count first.\<close>

definition sort_by_count :: "(string \<times> nat) list \<Rightarrow> (string \<times> nat) list" where
  "sort_by_count entries = sort_key (\<lambda>(type, count). - int count) entries"

definition detectIniType :: "ParameterMap \<Rightarrow> SourceIni \<Rightarrow> string option" where
  "detectIniType parameterMap ini =
     (if truthy (src_get ini ''ini_type'') then src_get ini ''ini_type''
      else if \<not> list_ex (\<lambda>(type, count). 10 \<le> count) (typeCounts parameterMap ini)
      then None
      else (case sort_by_count (typeCounts parameterMap ini) of
              [] \<Rightarrow> None
            | (type, count) # rest \<Rightarrow> Some type))"

section \<open>Reading the specification\<close>

text \<open>
  A call of \<open>convertParams\<close> on \<open>parameter\<close> reaches the combination flags and the special
  cases with the source value \<open>v\<close> when the value is neither empty nor the sentinel
  \<open>nil\<close>, the profile type is set and is neither \<open>unsupported\<close> nor \<open>physical_printer\<close>,
  the parameter map has a map for the type, and that map does not send the parameter to
  several keys.
\<close>

definition reaches :: "ParameterMap \<Rightarrow> store \<Rightarrow> string \<Rightarrow> string \<Rightarrow> bool" where
  "reaches parameterMap w parameter v =
     (src_get (sourceIni w) parameter = Some v \<and> v \<noteq> [] \<and> v \<noteq> ''nil''
      \<and> truthy (iniType (status w))
      \<and> iniType (status w) \<noteq> Some ''unsupported''
      \<and> iniType (status w) \<noteq> Some ''physical_printer''
      \<and> (case map_of parameterMap (or_else (iniType (status w)) []) of
            None \<Rightarrow> False
          | Some typeMap \<Rightarrow>
              (case map_of typeMap parameter of Some (Many keys) \<Rightarrow> False | _ \<Rightarrow> True)))"

text \<open>
  The state machine of the specification for a compatibility condition: from the slot,
  the source value and the answer the collaborator would give, the value produced, the
  slot afterwards, and whether the collaborator is prompted.
\<close>

definition condition_machine ::
  "string option \<Rightarrow> string \<Rightarrow> menu_answer \<Rightarrow> string \<times> string option \<times> bool" where
  "condition_machine slot v answer =
     (if slot = Some ''DISCARD'' then ([], slot, False)
      else if v = [] \<or> slot = Some ''KEEP'' then (v, slot, False)
      else (case answer of
              Chosen choice \<Rightarrow> (if choice = ''KEEP'' then v else [], Some choice, True)
            | ChosenMany cs \<Rightarrow> ([], slot, True)))"

text \<open>The slot of a compatibility-condition parameter, and a store with that slot set.\<close>

definition slot_of :: "string \<Rightarrow> store \<Rightarrow> string option" where
  "slot_of parameter w =
     (if parameter = ''compatible_printers_condition''
      then compatiblePrintersCondition (value' (status w))
      else compatiblePrintsCondition (value' (status w)))"

definition with_slot :: "string \<Rightarrow> string option \<Rightarrow> store \<Rightarrow> store" where
  "with_slot parameter slot w =
     (if parameter = ''compatible_printers_condition''
      then w\<lparr>status := (status w)\<lparr>value' :=
             (value' (status w))\<lparr>compatiblePrintersCondition := slot\<rparr>\<rparr>\<rparr>
      else w\<lparr>status := (status w)\<lparr>value' :=
             (value' (status w))\<lparr>compatiblePrintsCondition := slot\<rparr>\<rparr>\<rparr>)"

text \<open>The number of parameter names of a profile that are keys of a type's map, and the
  count of a candidate type as the specification has it.\<close>

definition shared_names :: "TypeMap \<Rightarrow> SourceIni \<Rightarrow> nat" where
  "shared_names typeMap ini = card (fst ` set ini \<inter> fst ` set typeMap)"

definition candidate_count :: "ParameterMap \<Rightarrow> SourceIni \<Rightarrow> string \<Rightarrow> nat" where
  "candidate_count parameterMap ini type =
     (case map_of parameterMap type of None \<Rightarrow> 0 | Some typeMap \<Rightarrow> shared_names typeMap ini)"

text \<open>The count the detector itself keeps for a candidate type.\<close>

definition kept_count :: "ParameterMap \<Rightarrow> SourceIni \<Rightarrow> string \<Rightarrow> nat" where
  "kept_count parameterMap ini type =
     (case map_of parameterMap type of None \<Rightarrow> 0 | Some typeMap \<Rightarrow> match_count typeMap ini)"

text \<open>A special case is read-only on the source profile and on the slicer flavor.\<close>

definition keeps_source :: "rule \<Rightarrow> bool" where
  "keeps_source rule =
     (\<forall>w. sourceIni (snd (rule w)) = sourceIni w
          \<and> slicerFlavor (status (snd (rule w))) = slicerFlavor (status w))"

section \<open>Sample inputs\<close>

text \<open>The state the tests of the repository start from, a small parameter map, and
  collaborators with a fixed answer.\<close>

definition sample_status :: Status where
  "sample_status =
     \<lparr>forceOut = False, legacyOverwrite = False, maxTemp = Fin False 0,
      interactiveMode = False, outdirWasProvided = False,
      slicerFlavor = Some PrusaSlicer, iniType = Some ''print'',
      profileName = Some ''test'', ironingType = None, iterationsLeft = None,
      dirs = \<lparr>output' = None, data = ''/tmp'', slicer = None, temp = None\<rparr>,
      toVar = \<lparr>externalPerimetersFirst = None, infillFirst = None, ironing = None\<rparr>,
      reset = \<lparr>Reset.onExisting = False, Reset.physicalPrinter = False,
               Reset.nozzleSize = False, Reset.inherits = False,
               Reset.compatiblePrintersCondition = False,
               Reset.compatiblePrintsCondition = False\<rparr>,
      value' = \<lparr>onExisting = None, physicalPrinter = None,
                nozzleSize = Some (Fin False (3602879701896397 / 9007199254740992)),
                inherits = None, compatiblePrintersCondition = None,
                compatiblePrintsCondition = None\<rparr>\<rparr>"

definition sample_map :: ParameterMap where
  "sample_map =
     [(''print'',
         [(''layer_height'', One ''layer_height''),
          (''perimeter_speed'', One ''inner_wall_speed''),
          (''support_material_style'', One ''support_style''),
          (''ironing'', One ''ironing''),
          (''compatible_printers_condition'', One ''compatible_printers_condition'')]),
      (''filament'',
         [(''filament_type'', One ''filament_type''),
          (''bed_temperature'', Many [''hot_plate_temp'', ''cool_plate_temp''])]),
      (''printer'',
         [(''gcode_flavor'', One ''gcode_flavor''),
          (''max_layer_height'', One ''max_layer_height'')])]"

definition store_of :: "SourceIni \<Rightarrow> Status \<Rightarrow> store" where
  "store_of ini st = \<lparr>sourceIni = ini, status = st, newHash = Map.empty, prompts = []\<rparr>"

definition answering :: "menu_answer \<Rightarrow> menu" where
  "answering a prompt isSingleOption options = a"

text \<open>Stores with a compatibility condition: one to decide, an empty one, and one kept
  earlier in a profile of unsupported type.\<close>

definition condition_store :: store where
  "condition_store =
     store_of [(''compatible_printers_condition'', Some ''printer_model=~/MK3/'')] sample_status"

definition empty_condition_store :: store where
  "empty_condition_store =
     store_of [(''compatible_printers_condition'', Some [])] sample_status"

definition kept_unsupported_store :: store where
  "kept_unsupported_store =
     store_of [(''compatible_printers_condition'', Some ''printer_model=~/MK3/'')]
       (sample_status\<lparr>iniType := Some ''unsupported'',
          value' := (value' sample_status)\<lparr>compatiblePrintersCondition := Some ''KEEP''\<rparr>\<rparr>)"

text \<open>Stores with a support style, under the type \<open>print\<close> and under \<open>unsupported\<close>.\<close>

definition style_profile :: SourceIni where
  "style_profile =
     [(''support_material_style'', Some ''grid''), (''support_material_auto'', Some ''0'')]"

definition style_store :: store where
  "style_store = store_of style_profile sample_status"

definition unsupported_style_store :: store where
  "unsupported_style_store =
     store_of style_profile (sample_status\<lparr>iniType := Some ''unsupported''\<rparr>)"

text \<open>Stores with a style that the table of support styles lacks: one that is no
  property of the table at all, and one that the table inherits.\<close>

definition bogus_style_store :: store where
  "bogus_style_store =
     store_of [(''support_material_style'', Some ''bogus'')] sample_status"

definition inherited_style_store :: store where
  "inherited_style_store =
     store_of [(''support_material_style'', Some ''constructor'')] sample_status"

text \<open>A state without a nozzle size, and profiles whose lengths and speeds are
  percentages with no base to convert them.\<close>

definition no_nozzle_status :: Status where
  "no_nozzle_status =
     sample_status\<lparr>slicerFlavor := Some SuperSlicer, iniType := Some ''printer'',
       value' := (value' sample_status)\<lparr>nozzleSize := None\<rparr>\<rparr>"

definition layer_height_store :: store where
  "layer_height_store = store_of [(''max_layer_height'', Some ''50%'')] no_nozzle_status"

definition percent_names :: "string list" where
  "percent_names =
     [''external_perimeter_speed'', ''support_material_interface_speed'',
      ''top_solid_infill_speed'', ''first_layer_infill_speed'', ''solid_infill_speed'',
      ''perimeter_speed'', ''infill_speed'', ''small_perimeter_speed'',
      ''fuzzy_skin_thickness'', ''min_layer_height'', ''wall_transition_length'',
      ''support_material_xy_spacing'', ''support_material_speed'']"

definition percent_store :: store where
  "percent_store =
     store_of (map (\<lambda>name. (name, Some ''50%'')) percent_names)
       (no_nozzle_status\<lparr>iniType := Some ''print''\<rparr>)"

text \<open>For the detector: ten parameter names that two profile types share, a profile
  with all ten and a profile with nine of them.\<close>

definition ten_names :: "string list" where
  "ten_names = map (\<lambda>c. [c]) ''abcdefghij''"

definition detector_map :: ParameterMap where
  "detector_map =
     [(''print'', map (\<lambda>name. (name, One name)) ten_names),
      (''filament'', map (\<lambda>name. (name, One name)) ten_names)]"

definition ten_profile :: SourceIni where
  "ten_profile = map (\<lambda>name. (name, Some ''1'')) ten_names"

definition nine_profile :: SourceIni where
  "nine_profile = map (\<lambda>name. (name, Some ''1'')) (butlast ten_names)"

text \<open>The profile with nine of the names and a parameter called \<open>constructor\<close>, as the
  reader of profiles builds it from a file with the line \<open>constructor = 1\<close>.\<close>

definition inherited_profile :: SourceIni where
  "inherited_profile = nine_profile @ [(''constructor'', Some ''1'')]"

text \<open>Two profiles with dynamic overhang speeds, as each slicer flavor writes them.\<close>

definition overhang_fields :: SourceIni where
  "overhang_fields =
     [(''enable_dynamic_overhang_speeds'', Some ''1''), (''overhang_speed_0'', Some ''100''),
      (''overhang_speed_1'', Some ''80''), (''overhang_speed_2'', Some ''60''),
      (''overhang_speed_3'', Some ''40'')]"

definition overhang_list :: SourceIni where
  "overhang_list =
     [(''enable_dynamic_overhang_speeds'', Some ''1''),
      (''dynamic_overhang_speeds'', Some ''100,80,60,40'')]"

text \<open>A PrusaSlicer profile that has dynamic overhang speeds switched off.\<close>

definition overhang_off :: SourceIni where
  "overhang_off =
     [(''enable_dynamic_overhang_speeds'', Some ''0''), (''overhang_speed_0'', Some ''100''),
      (''overhang_speed_1'', Some ''80''), (''overhang_speed_2'', Some ''60''),
      (''overhang_speed_3'', Some ''40'')]"

definition overhang_off_store :: store where
  "overhang_off_store = store_of overhang_off sample_status"

section \<open>The numeric helpers\<close>

lemma int_to_digits_digits: "set (int_to_digits n) \<subseteq> set ''0123456789''"
proof (induction n rule: int_to_digits.induct)
  case (1 n)
  show ?case
  proof (cases "n < 10")
    case True
    then have "nat n < 10" by simp
    then have "''0123456789'' ! nat n \<in> set ''0123456789''"
      by (intro nth_mem) simp
    then show ?thesis
      using True by (subst int_to_digits.simps) simp
  next
    case False
    have "nat (n mod 10) < 10" by simp
    then have "''0123456789'' ! nat (n mod 10) \<in> set ''0123456789''"
      by (intro nth_mem) simp
    then show ?thesis
      using False 1 by (subst int_to_digits.simps) simp
  qed
qed

lemma strip_zeros_subset: "set (strip_zeros ds) \<subseteq> set ds"
  using set_dropWhileD [of _ "\<lambda>c. c = CHR ''0''" "rev ds"] by (auto simp: strip_zeros_def)

lemma mag_to_string_chars: "CHR ''%'' \<notin> set (mag_to_string a)"
proof -
  have d: "CHR ''%'' \<notin> set (int_to_digits n)" for n
    using int_to_digits_digits [of n] by auto
  then have s: "CHR ''%'' \<notin> set (strip_zeros (int_to_digits n))" for n
    using strip_zeros_subset [of "int_to_digits n"] by auto
  have t: "CHR ''%'' \<notin> set (take k (strip_zeros (int_to_digits n)))" for n k
    using s [of n] set_take_subset [of k "strip_zeros (int_to_digits n)"] by auto
  have r: "CHR ''%'' \<notin> set (drop k (strip_zeros (int_to_digits n)))" for n k
    using s [of n] set_drop_subset [of k "strip_zeros (int_to_digits n)"] by auto
  show ?thesis
    by (simp add: mag_to_string_def Let_def d s t r)
qed

lemma num_to_string_chars: "CHR ''%'' \<notin> set (num_to_string x)"
  using mag_to_string_chars by (cases x) (simp_all add: num_to_string_def)

lemma num_to_string_not_percent [simp]: "\<not> isPercent (Some (num_to_string x))"
proof
  assume "isPercent (Some (num_to_string x))"
  then have "num_to_string x \<noteq> []" "last (num_to_string x) = CHR ''%''"
    by (simp_all add: isPercent_def)
  then have "CHR ''%'' \<in> set (num_to_string x)"
    using last_in_set by metis
  then show False
    using num_to_string_chars by simp
qed

lemma isPercent_nonempty: "isPercent (Some p) \<Longrightarrow> p \<noteq> [] \<and> truthy (Some p) \<and> removePercent (Some p) = butlast p"
  by (auto simp: isPercent_def truthy_def removePercent_def)

lemma number_counts_as_true:
  "n \<noteq> NaN \<Longrightarrow> n \<noteq> Fin False 0 \<Longrightarrow> n \<noteq> Fin True 0 \<Longrightarrow> \<not> num_falsy n"
  by (cases n) (auto simp: num_falsy_def)

lemma percentToMm_absent:
  "percentToMm None p = None"
  "percentToMm b None = None"
  "percentToMm (Some (CStr [])) p = None"
  "percentToMm b (Some []) = None"
  "percentToMm (Some (CNum NaN)) p = None"
  "percentToMm (Some (CNum (Fin sg 0))) p = None"
  by (simp_all add: percentToMm_def cmp_truthy_def truthy_def num_falsy_def
      split: option.split comparator.split)

lemma percentToMm_passthrough:
  assumes "p \<noteq> []" and "\<not> isPercent (Some p)"
  shows "s \<noteq> [] \<Longrightarrow> percentToMm (Some (CStr s)) (Some p) = Some p"
    and "n \<noteq> NaN \<Longrightarrow> n \<noteq> Fin False 0 \<Longrightarrow> n \<noteq> Fin True 0
           \<Longrightarrow> percentToMm (Some (CNum n)) (Some p) = Some p"
  using assms number_counts_as_true [of n]
  by (simp_all add: percentToMm_def cmp_truthy_def truthy_def)

lemma percentToMm_percent_base:
  "isPercent (Some p) \<Longrightarrow> isPercent (Some s) \<Longrightarrow> percentToMm (Some (CStr s)) (Some p) = None"
  using isPercent_nonempty [of p] isPercent_nonempty [of s]
  by (simp add: percentToMm_def cmp_truthy_def cmp_to_string_def)

lemma percentToMm_value:
  assumes "isPercent (Some p)"
  shows "s \<noteq> [] \<Longrightarrow> \<not> isPercent (Some s) \<Longrightarrow>
         percentToMm (Some (CStr s)) (Some p) =
           Some (num_to_string
             (num_mul (parseFloat s) (num_div (parseFloat (butlast p)) (num_lit 100))))"
    and "n \<noteq> NaN \<Longrightarrow> n \<noteq> Fin False 0 \<Longrightarrow> n \<noteq> Fin True 0 \<Longrightarrow>
         percentToMm (Some (CNum n)) (Some p) =
           Some (num_to_string (num_mul n (num_div (parseFloat (butlast p)) (num_lit 100))))"
  using isPercent_nonempty [OF assms] assms number_counts_as_true [of n]
  by (simp_all add: percentToMm_def cmp_truthy_def cmp_to_string_def cmp_to_num_def)

lemma percentToMm_examples:
  "percentToMm (Some (CNum (num_lit 10))) (Some ''50%'') = Some ''5''"
  "percentToMm (Some (CNum (num_lit 10))) (Some ''5'') = Some ''5''"
  by code_simp+

text \<open>
  C5, as amended. \<open>percentToMm(base, pct)\<close> returns no result when either argument is
  \<open>undefined\<close> or the empty string, and when the base is a number that counts as false:
  zero, of either sign, or not-a-number. Otherwise it returns \<open>pct\<close> unchanged when \<open>pct\<close>
  is not a percentage string, no result when the base is itself a percentage string,
  and else the string form of the product, computed in binary64 as the base (read by
  \<open>parseFloat\<close> when it is a string) times the hundredth of the number before the percent
  sign. So \<open>percentToMm(10, "50%")\<close> is \<open>"5"\<close> and \<open>percentToMm(10, "5")\<close> is \<open>"5"\<close>.
\<close>

theorem percentToMm_cases:
  "percentToMm None p1 = None
   \<and> percentToMm b1 None = None
   \<and> percentToMm (Some (CStr [])) p1 = None
   \<and> percentToMm b1 (Some []) = None
   \<and> percentToMm (Some (CNum NaN)) p1 = None
   \<and> percentToMm (Some (CNum (Fin sg1 0))) p1 = None
   \<and> (p2 \<noteq> [] \<and> \<not> isPercent (Some p2) \<and> s2 \<noteq> []
        \<longrightarrow> percentToMm (Some (CStr s2)) (Some p2) = Some p2)
   \<and> (p2 \<noteq> [] \<and> \<not> isPercent (Some p2) \<and> n2 \<noteq> NaN \<and> n2 \<noteq> Fin False 0 \<and> n2 \<noteq> Fin True 0
        \<longrightarrow> percentToMm (Some (CNum n2)) (Some p2) = Some p2)
   \<and> (isPercent (Some p3) \<and> isPercent (Some s3)
        \<longrightarrow> percentToMm (Some (CStr s3)) (Some p3) = None)
   \<and> (isPercent (Some p4) \<and> s4 \<noteq> [] \<and> \<not> isPercent (Some s4)
        \<longrightarrow> percentToMm (Some (CStr s4)) (Some p4) =
              Some (num_to_string
                (num_mul (parseFloat s4) (num_div (parseFloat (butlast p4)) (num_lit 100)))))
   \<and> (isPercent (Some p4) \<and> n4 \<noteq> NaN \<and> n4 \<noteq> Fin False 0 \<and> n4 \<noteq> Fin True 0
        \<longrightarrow> percentToMm (Some (CNum n4)) (Some p4) =
              Some (num_to_string
                (num_mul n4 (num_div (parseFloat (butlast p4)) (num_lit 100)))))
   \<and> percentToMm (Some (CNum (num_lit 10))) (Some ''50%'') = Some ''5''
   \<and> percentToMm (Some (CNum (num_lit 10))) (Some ''5'') = Some ''5''"
proof -
  have c0: "percentToMm None p1 = None"
    by (rule percentToMm_absent)
  have c1: "percentToMm b1 None = None"
    by (rule percentToMm_absent)
  have c2: "percentToMm (Some (CStr [])) p1 = None"
    by (rule percentToMm_absent)
  have c3: "percentToMm b1 (Some []) = None"
    by (rule percentToMm_absent)
  have c4: "percentToMm (Some (CNum NaN)) p1 = None"
    by (rule percentToMm_absent)
  have c5: "percentToMm (Some (CNum (Fin sg1 0))) p1 = None"
    by (rule percentToMm_absent)
  have c6: "(p2 \<noteq> [] \<and> \<not> isPercent (Some p2) \<and> s2 \<noteq> []
        \<longrightarrow> percentToMm (Some (CStr s2)) (Some p2) = Some p2)"
    by (simp add: percentToMm_passthrough)
  have c7: "(p2 \<noteq> [] \<and> \<not> isPercent (Some p2) \<and> n2 \<noteq> NaN \<and> n2 \<noteq> Fin False 0 \<and> n2 \<noteq> Fin True 0
        \<longrightarrow> percentToMm (Some (CNum n2)) (Some p2) = Some p2)"
    by (simp add: percentToMm_passthrough)
  have c8: "(isPercent (Some p3) \<and> isPercent (Some s3)
        \<longrightarrow> percentToMm (Some (CStr s3)) (Some p3) = None)"
    by (simp add: percentToMm_percent_base)
  have c9: "(isPercent (Some p4) \<and> s4 \<noteq> [] \<and> \<not> isPercent (Some s4)
        \<longrightarrow> percentToMm (Some (CStr s4)) (Some p4) =
              Some (num_to_string
                (num_mul (parseFloat s4) (num_div (parseFloat (butlast p4)) (num_lit 100)))))"
    by (simp add: percentToMm_value)
  have c10: "(isPercent (Some p4) \<and> n4 \<noteq> NaN \<and> n4 \<noteq> Fin False 0 \<and> n4 \<noteq> Fin True 0
        \<longrightarrow> percentToMm (Some (CNum n4)) (Some p4) =
              Some (num_to_string
                (num_mul n4 (num_div (parseFloat (butlast p4)) (num_lit 100)))))"
    by (simp add: percentToMm_value)
  have c11: "percentToMm (Some (CNum (num_lit 10))) (Some ''50%'') = Some ''5''"
    by (rule percentToMm_examples)
  have c12: "percentToMm (Some (CNum (num_lit 10))) (Some ''5'') = Some ''5''"
    by (rule percentToMm_examples)
  show ?thesis
    by (rule conjI [OF c0 conjI [OF c1 conjI [OF c2 conjI [OF c3 conjI [OF c4 conjI [OF c5 conjI [OF c6 conjI [OF c7 conjI [OF c8 conjI [OF c9 conjI [OF c10 conjI [OF c11 c12]]]]]]]]]]]])
qed

theorem percentToMm_cases_witness:
  "(''abc'' \<noteq> [] \<and> \<not> isPercent (Some ''abc'') \<and> ''0.4'' \<noteq> [])
   \<and> percentToMm (Some (CStr ''0.4'')) (Some ''abc'') = Some ''abc''
   \<and> (''abc'' \<noteq> [] \<and> \<not> isPercent (Some ''abc'') \<and> num_lit 10 \<noteq> NaN
        \<and> num_lit 10 \<noteq> Fin False 0 \<and> num_lit 10 \<noteq> Fin True 0)
   \<and> percentToMm (Some (CNum (num_lit 10))) (Some ''abc'') = Some ''abc''
   \<and> (isPercent (Some ''50%'') \<and> isPercent (Some ''200%''))
   \<and> percentToMm (Some (CStr ''200%'')) (Some ''50%'') = None
   \<and> (isPercent (Some ''200%'') \<and> ''0.4'' \<noteq> [] \<and> \<not> isPercent (Some ''0.4''))
   \<and> percentToMm (Some (CStr ''0.4'')) (Some ''200%'') =
        Some (num_to_string
          (num_mul (parseFloat ''0.4'') (num_div (parseFloat (butlast ''200%'')) (num_lit 100))))
   \<and> (isPercent (Some ''200%'') \<and> num_lit 10 \<noteq> NaN
        \<and> num_lit 10 \<noteq> Fin False 0 \<and> num_lit 10 \<noteq> Fin True 0)
   \<and> percentToMm (Some (CNum (num_lit 10))) (Some ''200%'') =
        Some (num_to_string
          (num_mul (num_lit 10) (num_div (parseFloat (butlast ''200%'')) (num_lit 100))))
   \<and> num_to_string
        (num_mul (parseFloat ''0.4'') (num_div (parseFloat (butlast ''200%'')) (num_lit 100)))
      = ''0.8''
   \<and> num_to_string
        (num_mul (num_lit 10) (num_div (parseFloat (butlast ''200%'')) (num_lit 100))) = ''20''"
proof -
  note t = percentToMm_cases [of None None False "''abc''" "''0.4''" "num_lit 10" "''50%''" "''200%''" "''200%''" "''0.4''" "num_lit 10"]
  have h0: "''abc'' \<noteq> [] \<and> \<not> isPercent (Some ''abc'') \<and> ''0.4'' \<noteq> []"
    by code_simp
  have r0: "percentToMm (Some (CStr ''0.4'')) (Some ''abc'') = Some ''abc''"
    by (rule mp [OF t [THEN conjunct2, THEN conjunct2, THEN conjunct2, THEN conjunct2, THEN conjunct2, THEN conjunct2, THEN conjunct1] h0])
  have h1: "''abc'' \<noteq> [] \<and> \<not> isPercent (Some ''abc'') \<and> num_lit 10 \<noteq> NaN
        \<and> num_lit 10 \<noteq> Fin False 0 \<and> num_lit 10 \<noteq> Fin True 0"
    by code_simp
  have r1: "percentToMm (Some (CNum (num_lit 10))) (Some ''abc'') = Some ''abc''"
    by (rule mp [OF t [THEN conjunct2, THEN conjunct2, THEN conjunct2, THEN conjunct2, THEN conjunct2, THEN conjunct2, THEN conjunct2, THEN conjunct1] h1])
  have h2: "isPercent (Some ''50%'') \<and> isPercent (Some ''200%'')"
    by code_simp
  have r2: "percentToMm (Some (CStr ''200%'')) (Some ''50%'') = None"
    by (rule mp [OF t [THEN conjunct2, THEN conjunct2, THEN conjunct2, THEN conjunct2, THEN conjunct2, THEN conjunct2, THEN conjunct2, THEN conjunct2, THEN conjunct1] h2])
  have h3: "isPercent (Some ''200%'') \<and> ''0.4'' \<noteq> [] \<and> \<not> isPercent (Some ''0.4'')"
    by code_simp
  have r3: "percentToMm (Some (CStr ''0.4'')) (Some ''200%'') =
        Some (num_to_string
          (num_mul (parseFloat ''0.4'') (num_div (parseFloat (butlast ''200%'')) (num_lit 100))))"
    by (rule mp [OF t [THEN conjunct2, THEN conjunct2, THEN conjunct2, THEN conjunct2, THEN conjunct2, THEN conjunct2, THEN conjunct2, THEN conjunct2, THEN conjunct2, THEN conjunct1] h3])
  have h4: "isPercent (Some ''200%'') \<and> num_lit 10 \<noteq> NaN
        \<and> num_lit 10 \<noteq> Fin False 0 \<and> num_lit 10 \<noteq> Fin True 0"
    by code_simp
  have r4: "percentToMm (Some (CNum (num_lit 10))) (Some ''200%'') =
        Some (num_to_string
          (num_mul (num_lit 10) (num_div (parseFloat (butlast ''200%'')) (num_lit 100))))"
    by (rule mp [OF t [THEN conjunct2, THEN conjunct2, THEN conjunct2, THEN conjunct2, THEN conjunct2, THEN conjunct2, THEN conjunct2, THEN conjunct2, THEN conjunct2, THEN conjunct2, THEN conjunct1] h4])
  have v5: "num_to_string
        (num_mul (parseFloat ''0.4'') (num_div (parseFloat (butlast ''200%'')) (num_lit 100)))
      = ''0.8''"
    by code_simp
  have v6: "num_to_string
        (num_mul (num_lit 10) (num_div (parseFloat (butlast ''200%'')) (num_lit 100))) = ''20''"
    by code_simp
  show ?thesis
    by (rule conjI [OF h0 conjI [OF r0 conjI [OF h1 conjI [OF r1 conjI [OF h2 conjI [OF r2 conjI [OF h3 conjI [OF r3 conjI [OF h4 conjI [OF r4 conjI [OF v5 v6]]]]]]]]]]])
qed

text \<open>
  C5 as stated fails for a base that is the number zero: the arguments are neither
  \<open>undefined\<close> nor the empty string and \<open>"5"\<close> is not a percentage string, yet there is no
  result; and \<open>percentToMm(0, "50%")\<close> has no result where the product is \<open>"0"\<close>.
\<close>

theorem percentToMm_counterexample:
  "\<not> isPercent (Some ''5'')
   \<and> percentToMm (Some (CNum (num_lit 0))) (Some ''5'') = None
   \<and> percentToMm (Some (CNum (num_lit 0))) (Some ''5'') \<noteq> Some ''5''
   \<and> isPercent (Some ''50%'')
   \<and> num_to_string (num_mul (num_lit 0) (num_div (parseFloat ''50'') (num_lit 100))) = ''0''
   \<and> percentToMm (Some (CNum (num_lit 0))) (Some ''50%'') = None"
  by code_simp

lemma mmToPercent_absent:
  "mmToPercent None m = None"
  "mmToPercent b None = None"
  "mmToPercent (Some (CStr [])) m = None"
  "mmToPercent b (Some []) = None"
  "mmToPercent (Some (CNum NaN)) m = None"
  "mmToPercent (Some (CNum (Fin sg 0))) m = None"
  by (simp_all add: mmToPercent_def cmp_truthy_def truthy_def num_falsy_def
      split: option.split comparator.split)

lemma mmToPercent_passthrough:
  assumes "isPercent (Some m)"
  shows "s \<noteq> [] \<Longrightarrow> mmToPercent (Some (CStr s)) (Some m) = Some m"
    and "n \<noteq> NaN \<Longrightarrow> n \<noteq> Fin False 0 \<Longrightarrow> n \<noteq> Fin True 0
           \<Longrightarrow> mmToPercent (Some (CNum n)) (Some m) = Some m"
  using isPercent_nonempty [OF assms] assms number_counts_as_true [of n]
  by (simp_all add: mmToPercent_def cmp_truthy_def)

lemma mmToPercent_refused:
  assumes "m \<noteq> []" and "\<not> isPercent (Some m)"
  shows "isPercent (Some s) \<Longrightarrow> mmToPercent (Some (CStr s)) (Some m) = None"
    and "s \<noteq> [] \<Longrightarrow> parseFloat s = Fin sg 0 \<Longrightarrow> mmToPercent (Some (CStr s)) (Some m) = None"
  using assms
  by (simp_all add: mmToPercent_def cmp_truthy_def cmp_to_string_def cmp_to_num_def truthy_def
      num_is_zero_def Let_def)

lemma not_zero:
  "x \<noteq> Fin False 0 \<Longrightarrow> x \<noteq> Fin True 0 \<Longrightarrow> \<not> num_is_zero x"
  by (cases x) (auto simp: num_is_zero_def)

lemma mmToPercent_value:
  assumes "m \<noteq> []" and "\<not> isPercent (Some m)"
  shows "s \<noteq> [] \<Longrightarrow> \<not> isPercent (Some s) \<Longrightarrow>
         parseFloat s \<noteq> Fin False 0 \<Longrightarrow> parseFloat s \<noteq> Fin True 0 \<Longrightarrow>
         mmToPercent (Some (CStr s)) (Some m) =
           Some (num_to_string (num_mul (num_div (parseFloat m) (parseFloat s)) (num_lit 100))
                 @ ''%'')"
    and "n \<noteq> NaN \<Longrightarrow> n \<noteq> Fin False 0 \<Longrightarrow> n \<noteq> Fin True 0 \<Longrightarrow>
         mmToPercent (Some (CNum n)) (Some m) =
           Some (num_to_string (num_mul (num_div (parseFloat m) n) (num_lit 100)) @ ''%'')"
  using assms number_counts_as_true [of n] not_zero [of n] not_zero [of "parseFloat s"]
  by (simp_all add: mmToPercent_def cmp_truthy_def cmp_to_string_def cmp_to_num_def truthy_def
      or_else_def Let_def)

lemma mmToPercent_examples:
  "mmToPercent (Some (CNum (num_lit 10))) (Some ''5'') = Some ''50%''"
  "mmToPercent (Some (CNum (num_lit 0))) (Some ''5'') = None"
  by code_simp+

text \<open>
  C6, as amended. \<open>mmToPercent(base, mm)\<close> returns no result when either argument is
  \<open>undefined\<close> or empty, and when the base is a number that counts as false: zero, of
  either sign, or not-a-number. Otherwise it returns \<open>mm\<close> unchanged when \<open>mm\<close> is already
  a percentage string, no result when the base is itself a percentage string or a
  string that \<open>parseFloat\<close> reads as zero, and else \<open>(mm / base) * 100\<close>, computed in
  binary64, followed by a percent sign. So \<open>mmToPercent(10, "5")\<close> is \<open>"50%"\<close> and
  \<open>mmToPercent(0, "5")\<close> is absent.
\<close>

theorem mmToPercent_cases:
  "mmToPercent None m1 = None
   \<and> mmToPercent b1 None = None
   \<and> mmToPercent (Some (CStr [])) m1 = None
   \<and> mmToPercent b1 (Some []) = None
   \<and> mmToPercent (Some (CNum NaN)) m1 = None
   \<and> mmToPercent (Some (CNum (Fin sg1 0))) m1 = None
   \<and> (isPercent (Some m2) \<and> s2 \<noteq> [] \<longrightarrow> mmToPercent (Some (CStr s2)) (Some m2) = Some m2)
   \<and> (isPercent (Some m2) \<and> n2 \<noteq> NaN \<and> n2 \<noteq> Fin False 0 \<and> n2 \<noteq> Fin True 0
        \<longrightarrow> mmToPercent (Some (CNum n2)) (Some m2) = Some m2)
   \<and> (m3 \<noteq> [] \<and> \<not> isPercent (Some m3) \<and> isPercent (Some s3)
        \<longrightarrow> mmToPercent (Some (CStr s3)) (Some m3) = None)
   \<and> (m3 \<noteq> [] \<and> \<not> isPercent (Some m3) \<and> z3 \<noteq> [] \<and> parseFloat z3 = Fin sg3 0
        \<longrightarrow> mmToPercent (Some (CStr z3)) (Some m3) = None)
   \<and> (m4 \<noteq> [] \<and> \<not> isPercent (Some m4) \<and> s4 \<noteq> [] \<and> \<not> isPercent (Some s4)
        \<and> parseFloat s4 \<noteq> Fin False 0 \<and> parseFloat s4 \<noteq> Fin True 0
        \<longrightarrow> mmToPercent (Some (CStr s4)) (Some m4) =
              Some (num_to_string
                (num_mul (num_div (parseFloat m4) (parseFloat s4)) (num_lit 100)) @ ''%''))
   \<and> (m4 \<noteq> [] \<and> \<not> isPercent (Some m4) \<and> n4 \<noteq> NaN \<and> n4 \<noteq> Fin False 0 \<and> n4 \<noteq> Fin True 0
        \<longrightarrow> mmToPercent (Some (CNum n4)) (Some m4) =
              Some (num_to_string (num_mul (num_div (parseFloat m4) n4) (num_lit 100)) @ ''%''))
   \<and> mmToPercent (Some (CNum (num_lit 10))) (Some ''5'') = Some ''50%''
   \<and> mmToPercent (Some (CNum (num_lit 0))) (Some ''5'') = None"
proof -
  have c0: "mmToPercent None m1 = None"
    by (rule mmToPercent_absent)
  have c1: "mmToPercent b1 None = None"
    by (rule mmToPercent_absent)
  have c2: "mmToPercent (Some (CStr [])) m1 = None"
    by (rule mmToPercent_absent)
  have c3: "mmToPercent b1 (Some []) = None"
    by (rule mmToPercent_absent)
  have c4: "mmToPercent (Some (CNum NaN)) m1 = None"
    by (rule mmToPercent_absent)
  have c5: "mmToPercent (Some (CNum (Fin sg1 0))) m1 = None"
    by (rule mmToPercent_absent)
  have c6: "(isPercent (Some m2) \<and> s2 \<noteq> [] \<longrightarrow> mmToPercent (Some (CStr s2)) (Some m2) = Some m2)"
    by (simp add: mmToPercent_passthrough)
  have c7: "(isPercent (Some m2) \<and> n2 \<noteq> NaN \<and> n2 \<noteq> Fin False 0 \<and> n2 \<noteq> Fin True 0
        \<longrightarrow> mmToPercent (Some (CNum n2)) (Some m2) = Some m2)"
    by (simp add: mmToPercent_passthrough)
  have c8: "(m3 \<noteq> [] \<and> \<not> isPercent (Some m3) \<and> isPercent (Some s3)
        \<longrightarrow> mmToPercent (Some (CStr s3)) (Some m3) = None)"
    by (simp add: mmToPercent_refused)
  have c9: "(m3 \<noteq> [] \<and> \<not> isPercent (Some m3) \<and> z3 \<noteq> [] \<and> parseFloat z3 = Fin sg3 0
        \<longrightarrow> mmToPercent (Some (CStr z3)) (Some m3) = None)"
    by (simp add: mmToPercent_refused)
  have c10: "(m4 \<noteq> [] \<and> \<not> isPercent (Some m4) \<and> s4 \<noteq> [] \<and> \<not> isPercent (Some s4)
        \<and> parseFloat s4 \<noteq> Fin False 0 \<and> parseFloat s4 \<noteq> Fin True 0
        \<longrightarrow> mmToPercent (Some (CStr s4)) (Some m4) =
              Some (num_to_string
                (num_mul (num_div (parseFloat m4) (parseFloat s4)) (num_lit 100)) @ ''%''))"
    by (simp add: mmToPercent_value)
  have c11: "(m4 \<noteq> [] \<and> \<not> isPercent (Some m4) \<and> n4 \<noteq> NaN \<and> n4 \<noteq> Fin False 0 \<and> n4 \<noteq> Fin True 0
        \<longrightarrow> mmToPercent (Some (CNum n4)) (Some m4) =
              Some (num_to_string (num_mul (num_div (parseFloat m4) n4) (num_lit 100)) @ ''%''))"
    by (simp add: mmToPercent_value)
  have c12: "mmToPercent (Some (CNum (num_lit 10))) (Some ''5'') = Some ''50%''"
    by (rule mmToPercent_examples)
  have c13: "mmToPercent (Some (CNum (num_lit 0))) (Some ''5'') = None"
    by (rule mmToPercent_examples)
  show ?thesis
    by (rule conjI [OF c0 conjI [OF c1 conjI [OF c2 conjI [OF c3 conjI [OF c4 conjI [OF c5 conjI [OF c6 conjI [OF c7 conjI [OF c8 conjI [OF c9 conjI [OF c10 conjI [OF c11 conjI [OF c12 c13]]]]]]]]]]]]])
qed

theorem mmToPercent_cases_witness:
  "(isPercent (Some ''50%'') \<and> ''0'' \<noteq> [])
   \<and> mmToPercent (Some (CStr ''0'')) (Some ''50%'') = Some ''50%''
   \<and> (isPercent (Some ''50%'') \<and> num_lit 10 \<noteq> NaN
        \<and> num_lit 10 \<noteq> Fin False 0 \<and> num_lit 10 \<noteq> Fin True 0)
   \<and> mmToPercent (Some (CNum (num_lit 10))) (Some ''50%'') = Some ''50%''
   \<and> (''5'' \<noteq> [] \<and> \<not> isPercent (Some ''5'') \<and> isPercent (Some ''50%''))
   \<and> mmToPercent (Some (CStr ''50%'')) (Some ''5'') = None
   \<and> (''5'' \<noteq> [] \<and> \<not> isPercent (Some ''5'') \<and> ''0.0'' \<noteq> [] \<and> parseFloat ''0.0'' = Fin False 0)
   \<and> mmToPercent (Some (CStr ''0.0'')) (Some ''5'') = None
   \<and> (''0.8'' \<noteq> [] \<and> \<not> isPercent (Some ''0.8'') \<and> ''0.4'' \<noteq> [] \<and> \<not> isPercent (Some ''0.4'')
        \<and> parseFloat ''0.4'' \<noteq> Fin False 0 \<and> parseFloat ''0.4'' \<noteq> Fin True 0)
   \<and> mmToPercent (Some (CStr ''0.4'')) (Some ''0.8'') =
        Some (num_to_string
          (num_mul (num_div (parseFloat ''0.8'') (parseFloat ''0.4'')) (num_lit 100)) @ ''%'')
   \<and> (''0.8'' \<noteq> [] \<and> \<not> isPercent (Some ''0.8'') \<and> num_lit 20 \<noteq> NaN
        \<and> num_lit 20 \<noteq> Fin False 0 \<and> num_lit 20 \<noteq> Fin True 0)
   \<and> mmToPercent (Some (CNum (num_lit 20))) (Some ''0.8'') =
        Some (num_to_string (num_mul (num_div (parseFloat ''0.8'') (num_lit 20)) (num_lit 100))
              @ ''%'')
   \<and> num_to_string (num_mul (num_div (parseFloat ''0.8'') (parseFloat ''0.4'')) (num_lit 100))
      = ''200''
   \<and> num_to_string (num_mul (num_div (parseFloat ''0.8'') (num_lit 20)) (num_lit 100)) = ''4''"
proof -
  note t = mmToPercent_cases [of None None False "''50%''" "''0''" "num_lit 10" "''5''" "''50%''" "''0.0''" False "''0.8''" "''0.4''" "num_lit 20"]
  have h0: "isPercent (Some ''50%'') \<and> ''0'' \<noteq> []"
    by code_simp
  have r0: "mmToPercent (Some (CStr ''0'')) (Some ''50%'') = Some ''50%''"
    by (rule mp [OF t [THEN conjunct2, THEN conjunct2, THEN conjunct2, THEN conjunct2, THEN conjunct2, THEN conjunct2, THEN conjunct1] h0])
  have h1: "isPercent (Some ''50%'') \<and> num_lit 10 \<noteq> NaN
        \<and> num_lit 10 \<noteq> Fin False 0 \<and> num_lit 10 \<noteq> Fin True 0"
    by code_simp
  have r1: "mmToPercent (Some (CNum (num_lit 10))) (Some ''50%'') = Some ''50%''"
    by (rule mp [OF t [THEN conjunct2, THEN conjunct2, THEN conjunct2, THEN conjunct2, THEN conjunct2, THEN conjunct2, THEN conjunct2, THEN conjunct1] h1])
  have h2: "''5'' \<noteq> [] \<and> \<not> isPercent (Some ''5'') \<and> isPercent (Some ''50%'')"
    by code_simp
  have r2: "mmToPercent (Some (CStr ''50%'')) (Some ''5'') = None"
    by (rule mp [OF t [THEN conjunct2, THEN conjunct2, THEN conjunct2, THEN conjunct2, THEN conjunct2, THEN conjunct2, THEN conjunct2, THEN conjunct2, THEN conjunct1] h2])
  have h3: "''5'' \<noteq> [] \<and> \<not> isPercent (Some ''5'') \<and> ''0.0'' \<noteq> [] \<and> parseFloat ''0.0'' = Fin False 0"
    by code_simp
  have r3: "mmToPercent (Some (CStr ''0.0'')) (Some ''5'') = None"
    by (rule mp [OF t [THEN conjunct2, THEN conjunct2, THEN conjunct2, THEN conjunct2, THEN conjunct2, THEN conjunct2, THEN conjunct2, THEN conjunct2, THEN conjunct2, THEN conjunct1] h3])
  have h4: "''0.8'' \<noteq> [] \<and> \<not> isPercent (Some ''0.8'') \<and> ''0.4'' \<noteq> [] \<and> \<not> isPercent (Some ''0.4'')
        \<and> parseFloat ''0.4'' \<noteq> Fin False 0 \<and> parseFloat ''0.4'' \<noteq> Fin True 0"
    by code_simp
  have r4: "mmToPercent (Some (CStr ''0.4'')) (Some ''0.8'') =
        Some (num_to_string
          (num_mul (num_div (parseFloat ''0.8'') (parseFloat ''0.4'')) (num_lit 100)) @ ''%'')"
    by (rule mp [OF t [THEN conjunct2, THEN conjunct2, THEN conjunct2, THEN conjunct2, THEN conjunct2, THEN conjunct2, THEN conjunct2, THEN conjunct2, THEN conjunct2, THEN conjunct2, THEN conjunct1] h4])
  have h5: "''0.8'' \<noteq> [] \<and> \<not> isPercent (Some ''0.8'') \<and> num_lit 20 \<noteq> NaN
        \<and> num_lit 20 \<noteq> Fin False 0 \<and> num_lit 20 \<noteq> Fin True 0"
    by code_simp
  have r5: "mmToPercent (Some (CNum (num_lit 20))) (Some ''0.8'') =
        Some (num_to_string (num_mul (num_div (parseFloat ''0.8'') (num_lit 20)) (num_lit 100))
              @ ''%'')"
    by (rule mp [OF t [THEN conjunct2, THEN conjunct2, THEN conjunct2, THEN conjunct2, THEN conjunct2, THEN conjunct2, THEN conjunct2, THEN conjunct2, THEN conjunct2, THEN conjunct2, THEN conjunct2, THEN conjunct1] h5])
  have v6: "num_to_string (num_mul (num_div (parseFloat ''0.8'') (parseFloat ''0.4'')) (num_lit 100))
      = ''200''"
    by code_simp
  have v7: "num_to_string (num_mul (num_div (parseFloat ''0.8'') (num_lit 20)) (num_lit 100)) = ''4''"
    by code_simp
  show ?thesis
    by (rule conjI [OF h0 conjI [OF r0 conjI [OF h1 conjI [OF r1 conjI [OF h2 conjI [OF r2 conjI [OF h3 conjI [OF r3 conjI [OF h4 conjI [OF r4 conjI [OF h5 conjI [OF r5 conjI [OF v6 v7]]]]]]]]]]]]])
qed

text \<open>
  C6 as stated fails for a base that is a number counting as false. With the number
  zero a value that is already a percentage is not returned; with not-a-number, which
  is neither \<open>undefined\<close>, nor empty, nor a percentage, nor zero, there is no result where
  the quotient gives \<open>"NaN%"\<close>.
\<close>

theorem mmToPercent_counterexample:
  "isPercent (Some ''50%'')
   \<and> mmToPercent (Some (CNum (num_lit 0))) (Some ''50%'') = None
   \<and> mmToPercent (Some (CNum (num_lit 0))) (Some ''50%'') \<noteq> Some ''50%''
   \<and> \<not> isPercent (Some ''5'') \<and> \<not> num_is_zero NaN
   \<and> num_to_string (num_mul (num_div (parseFloat ''5'') NaN) (num_lit 100)) @ ''%'' = ''NaN%''
   \<and> mmToPercent (Some (CNum NaN)) (Some ''5'') = None"
  by code_simp

lemma percentToFloat_passthrough:
  "\<not> isPercent (Some s) \<Longrightarrow> percentToFloat (Some s) = s"
  by (simp add: percentToFloat_def or_else_def)

lemma percentToFloat_undefined: "percentToFloat None = []"
  by (simp add: percentToFloat_def or_else_def truthy_def)

lemma percentToFloat_value:
  "isPercent (Some s) \<Longrightarrow>
   percentToFloat (Some s) =
     (if num_gt (num_div (parseFloat (butlast s)) (num_lit 100)) (num_lit 2) then ''2''
      else num_to_string (num_div (parseFloat (butlast s)) (num_lit 100)))"
  using isPercent_nonempty [of s] by (simp add: percentToFloat_def Let_def)

lemma percentToFloat_examples:
  "percentToFloat (Some ''250%'') = ''2''"
  "percentToFloat (Some ''100%'') = ''1''"
  "percentToFloat (Some ''50'') = ''50''"
  by code_simp+

text \<open>
  C7. \<open>percentToFloat(s)\<close> returns \<open>s\<close> unchanged when \<open>s\<close> is not a percentage string,
  and the empty string when \<open>s\<close> is \<open>undefined\<close>; when \<open>s\<close> is a percentage string it
  returns the string form of the numeric part divided by 100, and the exact string \<open>"2"\<close>
  whenever that quotient is greater than 2. So \<open>percentToFloat("250%")\<close> is \<open>"2"\<close>,
  \<open>percentToFloat("100%")\<close> is \<open>"1"\<close> and \<open>percentToFloat("50")\<close> is \<open>"50"\<close>.
\<close>

theorem percentToFloat_cases:
  "(\<not> isPercent (Some s1) \<longrightarrow> percentToFloat (Some s1) = s1)
   \<and> percentToFloat None = []
   \<and> (isPercent (Some s2) \<longrightarrow>
        percentToFloat (Some s2) =
          (if num_gt (num_div (parseFloat (butlast s2)) (num_lit 100)) (num_lit 2) then ''2''
           else num_to_string (num_div (parseFloat (butlast s2)) (num_lit 100))))
   \<and> percentToFloat (Some ''250%'') = ''2''
   \<and> percentToFloat (Some ''100%'') = ''1''
   \<and> percentToFloat (Some ''50'') = ''50''"
  using percentToFloat_passthrough [of s1] percentToFloat_undefined
    percentToFloat_value [of s2] percentToFloat_examples
  by blast

theorem percentToFloat_cases_witness:
  "\<not> isPercent (Some ''abc'') \<and> percentToFloat (Some ''abc'') = ''abc''
   \<and> isPercent (Some ''150%'')
   \<and> percentToFloat (Some ''150%'') =
        (if num_gt (num_div (parseFloat (butlast ''150%'')) (num_lit 100)) (num_lit 2) then ''2''
         else num_to_string (num_div (parseFloat (butlast ''150%'')) (num_lit 100)))
   \<and> num_to_string (num_div (parseFloat (butlast ''150%'')) (num_lit 100)) = ''1.5''"
proof -
  have h1: "\<not> isPercent (Some ''abc'')" by code_simp
  have h2: "isPercent (Some ''150%'')" by code_simp
  have h3: "num_to_string (num_div (parseFloat (butlast ''150%'')) (num_lit 100)) = ''1.5''"
    by code_simp
  show ?thesis
    using h1 h2 h3 percentToFloat_cases [of "''abc''" "''150%''"] by blast
qed

section \<open>The source profile is read-only\<close>

lemma snd_case_pair [simp]: "snd (case x of (r, w') \<Rightarrow> (g r, w')) = snd x"
  by (cases x) simp

lemma fst_case_pair [simp]: "fst (case x of (r, w') \<Rightarrow> (g r, w')) = g (fst x)"
  by (cases x) simp

lemma pure_case_frame [simp]: "snd (pure_case f w) = w" "fst (pure_case f w) = Inr (VStr (f w))"
  by (simp_all add: pure_case_def)

lemma table_case_frame [simp]: "snd (table_case f w) = w" "fst (table_case f w) = Inr (f w)"
  by (simp_all add: table_case_def)

lemma returning_frame [simp]:
  "snd (returning g w) = snd (g w)" "fst (returning g w) = Inr (VStr (fst (g w)))"
  by (simp_all add: returning_def)

lemma handleCompatibleCondition_frame:
  "sourceIni (snd (handleCompatibleCondition m p f nv w)) = sourceIni w
   \<and> slicerFlavor (status (snd (handleCompatibleCondition m p f nv w))) = slicerFlavor (status w)
   \<and> newHash (snd (handleCompatibleCondition m p f nv w)) = newHash w"
  by (simp add: handleCompatibleCondition_def Let_def set_printers_condition_def
      set_prints_condition_def split: menu_answer.splits)

lemma support_material_style_frame:
  "sourceIni (snd (support_material_style nv w)) = sourceIni w
   \<and> slicerFlavor (status (snd (support_material_style nv w))) = slicerFlavor (status w)"
  by (simp add: support_material_style_def Let_def split: property.splits prod.splits)

lemma keeps_source_simps [simp]:
  "keeps_source (pure_case g)"
  "keeps_source (table_case h)"
  "keeps_source (returning (handleCompatibleCondition m p f nv))"
  "keeps_source (support_material_style nv)"
  "keeps_source (nozzle_mm nv)"
  "keeps_source (infill_pattern nv)"
  "keeps_source (default_speed_case nv ds)"
  "keeps_source (output_speed_case key nv)"
  "keeps_source (returning (\<lambda>w. (nv, w\<lparr>status := (status w)\<lparr>ironingType := x\<rparr>\<rparr>)))"
  using handleCompatibleCondition_frame support_material_style_frame
  by (simp_all add: keeps_source_def nozzle_mm_def infill_pattern_def default_speed_case_def
      output_speed_case_def)

lemma specialCases_all: "list_all (\<lambda>(k, rule). keeps_source rule) (specialCases m p f nv ds)"
  unfolding specialCases_def by simp

lemma specialCases_frame:
  assumes "map_of (specialCases m p f nv ds) k = Some rule"
  shows "keeps_source rule"
proof -
  have "(k, rule) \<in> set (specialCases m p f nv ds)"
    using assms by (rule map_of_SomeD)
  then show ?thesis
    using specialCases_all [of m p f nv ds] by (auto simp: list_all_iff)
qed

lemma snd_rule_result [simp]:
  "snd (case x of (Inl e, w') \<Rightarrow> (Inl e, w') | (Inr r, w') \<Rightarrow> (Inr (g r), w')) = snd x"
  by (cases x) (simp split: sum.split)

lemma run_special_case_frame [simp]:
  "sourceIni (snd (run_special_case m p f nv ds w)) = sourceIni w"
  "slicerFlavor (status (snd (run_special_case m p f nv ds w))) = slicerFlavor (status w)"
proof -
  show "sourceIni (snd (run_special_case m p f nv ds w)) = sourceIni w"
  proof (cases "map_of (specialCases m p f nv ds) p")
    case None
    then show ?thesis by (simp add: run_special_case_def)
  next
    case (Some rule)
    then have "keeps_source rule" by (rule specialCases_frame)
    then show ?thesis
      using Some by (simp add: run_special_case_def keeps_source_def)
  qed
  show "slicerFlavor (status (snd (run_special_case m p f nv ds w))) = slicerFlavor (status w)"
  proof (cases "map_of (specialCases m p f nv ds) p")
    case None
    then show ?thesis by (simp add: run_special_case_def)
  next
    case (Some rule)
    then have "keeps_source rule" by (rule specialCases_frame)
    then show ?thesis
      using Some by (simp add: run_special_case_def keeps_source_def)
  qed
qed

lemma convertParams_frame [simp]:
  "sourceIni (snd (convertParams pm m p f w)) = sourceIni w"
  "slicerFlavor (status (snd (convertParams pm m p f w))) = slicerFlavor (status w)"
  by (simp_all add: convertParams_def Let_def set_toVar_def
      split: option.split map_target.split property.split)

lemma speed_loop_frame:
  "sourceIni (snd (speed_loop pm m ps w)) = sourceIni w
   \<and> slicerFlavor (status (snd (speed_loop pm m ps w))) = slicerFlavor (status w)"
proof (induction ps arbitrary: w)
  case Nil
  show ?case by simp
next
  case (Cons parameter rest)
  obtain r w1 where c: "convertParams pm m parameter None w = (r, w1)"
    by (cases "convertParams pm m parameter None w")
  have w1: "sourceIni w1 = sourceIni w" "slicerFlavor (status w1) = slicerFlavor (status w)"
    using convertParams_frame [of pm m parameter None w] c by simp_all
  show ?case
    using Cons.IH w1 c
    by (simp split: option.split conv_value.split sum.split)
qed

lemma after_speeds_frame [simp]:
  "sourceIni (after_speeds w) = sourceIni w" "status (after_speeds w) = status w"
  by (simp_all add: after_speeds_def Let_def)

lemma calculatePrintParams_frame:
  "sourceIni (snd (calculatePrintParams pm m w)) = sourceIni w"
proof -
  obtain e w1 where l: "speed_loop pm m speedSequence w = (e, w1)"
    by (cases "speed_loop pm m speedSequence w")
  have "sourceIni w1 = sourceIni w"
    using speed_loop_frame [of pm m speedSequence w] l by simp
  then show ?thesis
    using l by (simp add: calculatePrintParams_def split: option.split)
qed

text \<open>
  C9. Neither \<open>convertParams\<close> nor \<open>calculatePrintParams\<close> modifies the source profile:
  after either call, also one that throws, the profile is the same association list, so
  it has the same keys and the same value under every key.
\<close>

theorem source_profile_read_only:
  "sourceIni (snd (convertParams pm m p f w)) = sourceIni w
   \<and> sourceIni (snd (calculatePrintParams pm m w)) = sourceIni w
   \<and> fst ` set (sourceIni (snd (convertParams pm m p f w))) = fst ` set (sourceIni w)
   \<and> fst ` set (sourceIni (snd (calculatePrintParams pm m w))) = fst ` set (sourceIni w)
   \<and> src_get (sourceIni (snd (convertParams pm m p f w))) k = src_get (sourceIni w) k
   \<and> src_get (sourceIni (snd (calculatePrintParams pm m w))) k = src_get (sourceIni w) k"
  by (simp add: calculatePrintParams_frame)

theorem source_profile_read_only_witness:
  "sourceIni (snd (convertParams sample_map (answering (Chosen ''KEEP'')) ''ironing'' None
      (store_of [(''ironing'', Some ''1'')] sample_status))) = [(''ironing'', Some ''1'')]
   \<and> sourceIni (snd (calculatePrintParams sample_map (answering (Chosen ''KEEP''))
      (store_of [(''perimeter_speed'', Some ''60.123'')] sample_status)))
      = [(''perimeter_speed'', Some ''60.123'')]"
  using source_profile_read_only [of sample_map "answering (Chosen ''KEEP'')" "''ironing''" None
      "store_of [(''ironing'', Some ''1'')] sample_status"]
    source_profile_read_only [of sample_map "answering (Chosen ''KEEP'')" _ _
      "store_of [(''perimeter_speed'', Some ''60.123'')] sample_status"]
  by (simp add: store_of_def)

section \<open>Calls that reach the special cases\<close>

lemma reachesE:
  assumes "reaches pm w p v"
  obtains t tm where "src_get (sourceIni w) p = Some v" "v \<noteq> []" "v \<noteq> ''nil''"
    "iniType (status w) = Some t" "t \<noteq> []" "t \<noteq> ''unsupported''" "t \<noteq> ''physical_printer''"
    "map_of pm t = Some tm" "\<forall>keys. map_of tm p \<noteq> Some (Many keys)"
proof -
  from assms have a: "src_get (sourceIni w) p = Some v" "v \<noteq> []" "v \<noteq> ''nil''"
    and ty: "truthy (iniType (status w))" "iniType (status w) \<noteq> Some ''unsupported''"
      "iniType (status w) \<noteq> Some ''physical_printer''"
    and c: "(case map_of pm (or_else (iniType (status w)) []) of
              None \<Rightarrow> False
            | Some typeMap \<Rightarrow>
                (case map_of typeMap p of Some (Many keys) \<Rightarrow> False | _ \<Rightarrow> True))"
    by (simp_all add: reaches_def)
  from ty(1) obtain t where t: "iniType (status w) = Some t" "t \<noteq> []"
    by (cases "iniType (status w)") (simp_all add: truthy_def)
  then have o: "or_else (iniType (status w)) [] = t"
    by (simp add: or_else_def)
  from c o obtain tm where tm: "map_of pm t = Some tm"
    by (cases "map_of pm t") simp_all
  from c o tm have "\<forall>keys. map_of tm p \<noteq> Some (Many keys)"
    by (cases "map_of tm p") (auto split: map_target.splits)
  with a t ty tm show thesis
    using that by simp
qed

lemma get_property_own [simp]: "map_of obj k = Some x \<Longrightarrow> get_property obj k = Own x"
  by (simp add: get_property_def)

lemma get_property_other [simp]:
  "map_of obj k = None \<Longrightarrow> k \<notin> set object_prototype \<Longrightarrow> get_property obj k = Absent"
  by (simp add: get_property_def)

lemma get_property_eq_Own [simp]: "get_property obj k = Own x \<longleftrightarrow> map_of obj k = Some x"
  by (simp add: get_property_def split: option.split)

lemma src_get_Some: "src_get ini k = Some v \<Longrightarrow> map_of ini k = Some (Some v)"
  by (simp add: src_get_def split: option.splits)

lemma convertParams_reached:
  assumes "reaches pm w p v" and "map_of multivalueParams p \<noteq> Some array"
    and "p \<notin> set object_prototype"
  shows "convertParams pm m p f w =
    (let newValue = (if map_of multivalueParams p = Some single
                     then or_else (elem_at (multivalueToArray (Some v)) 0) [] else v);
         defaultSpeed = (if slicerFlavor (status w) = Some SuperSlicer
                         then src_get (sourceIni w) ''default_speed'' else None)
     in if p = ''external_perimeters_first'' then
          (Inr None, set_toVar (\<lambda>t. t\<lparr>externalPerimetersFirst := Some (newValue \<noteq> [])\<rparr>) w)
        else if p = ''infill_first'' then
          (Inr None, set_toVar (\<lambda>t. t\<lparr>infillFirst := Some (newValue \<noteq> [])\<rparr>) w)
        else if p = ''ironing'' then
          (Inr None, set_toVar (\<lambda>t. t\<lparr>ironing := Some (newValue \<noteq> [])\<rparr>) w)
        else run_special_case m p f newValue defaultSpeed w)"
proof -
  from assms(1) obtain t tm where h: "src_get (sourceIni w) p = Some v" "v \<noteq> []" "v \<noteq> ''nil''"
    "iniType (status w) = Some t" "t \<noteq> []" "t \<noteq> ''unsupported''" "t \<noteq> ''physical_printer''"
    "map_of pm t = Some tm" "\<forall>keys. map_of tm p \<noteq> Some (Many keys)"
    by (rule reachesE)
  have o: "or_else (Some t) [] = t" "truthy (Some t)"
    using h(5) by (simp_all add: or_else_def truthy_def)
  have s: "get_property (sourceIni w) p = Own (Some v)"
    using h(1) by (simp add: src_get_Some)
  have mi: "get_property multivalueParams p \<noteq> Inherited"
    using assms(3) by (simp add: get_property_def split: option.split)
  show ?thesis
  proof (cases "map_of tm p")
    case None
    then have "get_property tm p = Absent"
      using assms(3) by simp
    then show ?thesis
      using h o s mi assms(2) by (simp add: convertParams_def Let_def)
  next
    case (Some tgt)
    then obtain k where "tgt = One k"
      using h(9) by (cases tgt) auto
    then have "get_property tm p = Own (One k)"
      using Some by simp
    then show ?thesis
      using h o s mi assms(2) by (simp add: convertParams_def Let_def)
  qed
qed

lemma not_inherited [simp]:
  "''external_perimeters_first'' \<notin> set object_prototype"
  "''infill_first'' \<notin> set object_prototype"
  "''ironing'' \<notin> set object_prototype"
  "''compatible_printers_condition'' \<notin> set object_prototype"
  "''compatible_prints_condition'' \<notin> set object_prototype"
  "''support_material_style'' \<notin> set object_prototype"
  by (simp_all add: object_prototype_def)

lemma not_multivalue [simp]:
  "map_of multivalueParams ''external_perimeters_first'' = None"
  "map_of multivalueParams ''infill_first'' = None"
  "map_of multivalueParams ''ironing'' = None"
  "map_of multivalueParams ''compatible_printers_condition'' = None"
  "map_of multivalueParams ''compatible_prints_condition'' = None"
  "map_of multivalueParams ''support_material_style'' = None"
  by (simp_all add: multivalueParams_def)

text \<open>
  C8. For a call of \<open>convertParams\<close> on \<open>external_perimeters_first\<close>, \<open>infill_first\<close> or
  \<open>ironing\<close> that reaches the combination flags (a value that is neither empty nor \<open>nil\<close>,
  a profile type that is set, neither \<open>unsupported\<close> nor \<open>physical_printer\<close>, and has a
  parameter map that does not fan the parameter out), nothing is returned, the output
  map, the source profile and the prompts are as before, and the state differs only in
  the flag of the parameter, which is set to whether the source string is truthy: to
  true.
\<close>

theorem combination_flags:
  assumes "reaches pm w p v"
  shows "(p = ''external_perimeters_first'' \<longrightarrow>
            convertParams pm m p f w =
              (Inr None, w\<lparr>status := (status w)\<lparr>toVar :=
                 (toVar (status w))\<lparr>externalPerimetersFirst := Some (truthy (Some v))\<rparr>\<rparr>\<rparr>))
         \<and> (p = ''infill_first'' \<longrightarrow>
            convertParams pm m p f w =
              (Inr None, w\<lparr>status := (status w)\<lparr>toVar :=
                 (toVar (status w))\<lparr>infillFirst := Some (truthy (Some v))\<rparr>\<rparr>\<rparr>))
         \<and> (p = ''ironing'' \<longrightarrow>
            convertParams pm m p f w =
              (Inr None, w\<lparr>status := (status w)\<lparr>toVar :=
                 (toVar (status w))\<lparr>ironing := Some (truthy (Some v))\<rparr>\<rparr>\<rparr>))
         \<and> truthy (Some v)"
proof -
  have v: "truthy (Some v)" "v \<noteq> []"
    using assms by (simp_all add: reaches_def truthy_def)
  have a: "p = ''external_perimeters_first'' \<longrightarrow>
            convertParams pm m p f w =
              (Inr None, w\<lparr>status := (status w)\<lparr>toVar :=
                 (toVar (status w))\<lparr>externalPerimetersFirst := Some (truthy (Some v))\<rparr>\<rparr>\<rparr>)"
  proof
    assume p: "p = ''external_perimeters_first''"
    then have "map_of multivalueParams p \<noteq> Some array" "p \<notin> set object_prototype"
      by simp_all
    from convertParams_reached [OF assms this, of m f] p v
    show "convertParams pm m p f w =
              (Inr None, w\<lparr>status := (status w)\<lparr>toVar :=
                 (toVar (status w))\<lparr>externalPerimetersFirst := Some (truthy (Some v))\<rparr>\<rparr>\<rparr>)"
      by (simp add: set_toVar_def)
  qed
  have b: "p = ''infill_first'' \<longrightarrow>
            convertParams pm m p f w =
              (Inr None, w\<lparr>status := (status w)\<lparr>toVar :=
                 (toVar (status w))\<lparr>infillFirst := Some (truthy (Some v))\<rparr>\<rparr>\<rparr>)"
  proof
    assume p: "p = ''infill_first''"
    then have "map_of multivalueParams p \<noteq> Some array" "p \<notin> set object_prototype"
      by simp_all
    from convertParams_reached [OF assms this, of m f] p v
    show "convertParams pm m p f w =
              (Inr None, w\<lparr>status := (status w)\<lparr>toVar :=
                 (toVar (status w))\<lparr>infillFirst := Some (truthy (Some v))\<rparr>\<rparr>\<rparr>)"
      by (simp add: set_toVar_def)
  qed
  have c: "p = ''ironing'' \<longrightarrow>
            convertParams pm m p f w =
              (Inr None, w\<lparr>status := (status w)\<lparr>toVar :=
                 (toVar (status w))\<lparr>ironing := Some (truthy (Some v))\<rparr>\<rparr>\<rparr>)"
  proof
    assume p: "p = ''ironing''"
    then have "map_of multivalueParams p \<noteq> Some array" "p \<notin> set object_prototype"
      by simp_all
    from convertParams_reached [OF assms this, of m f] p v
    show "convertParams pm m p f w =
              (Inr None, w\<lparr>status := (status w)\<lparr>toVar :=
                 (toVar (status w))\<lparr>ironing := Some (truthy (Some v))\<rparr>\<rparr>\<rparr>)"
      by (simp add: set_toVar_def)
  qed
  from a b c v(1) show ?thesis by blast
qed

theorem combination_flags_witness:
  "reaches sample_map (store_of [(''ironing'', Some ''0'')] sample_status) ''ironing'' ''0''
   \<and> convertParams sample_map (answering (Chosen ''KEEP'')) ''ironing'' None
         (store_of [(''ironing'', Some ''0'')] sample_status)
       = (Inr None, (store_of [(''ironing'', Some ''0'')] sample_status)
            \<lparr>status := sample_status\<lparr>toVar := (toVar sample_status)\<lparr>ironing := Some True\<rparr>\<rparr>\<rparr>)"
proof -
  let ?w = "store_of [(''ironing'', Some ''0'')] sample_status"
  have r: "reaches sample_map ?w ''ironing'' ''0''"
    by code_simp
  have s: "status ?w = sample_status"
    by (simp add: store_of_def)
  from combination_flags [OF r, of "answering (Chosen ''KEEP'')" None]
  have "convertParams sample_map (answering (Chosen ''KEEP'')) ''ironing'' None ?w
       = (Inr None, ?w\<lparr>status := (status ?w)\<lparr>toVar :=
            (toVar (status ?w))\<lparr>ironing := Some (truthy (Some ''0''))\<rparr>\<rparr>\<rparr>)
        \<and> truthy (Some ''0'')"
    by blast
  then show ?thesis
    using r s by simp
qed

lemma special_compatible:
  "map_of (specialCases m p f nv ds) ''compatible_printers_condition''
     = Some (returning (handleCompatibleCondition m p f nv))"
  "map_of (specialCases m p f nv ds) ''compatible_prints_condition''
     = Some (returning (handleCompatibleCondition m p f nv))"
  by (simp_all add: specialCases_def)

lemma with_slot_same [simp]: "with_slot p (slot_of p w) w = w"
  by (simp add: with_slot_def slot_of_def)

lemma handleCompatibleCondition_machine:
  assumes "p = ''compatible_printers_condition'' \<or> p = ''compatible_prints_condition''"
  shows "handleCompatibleCondition m p f v w =
     (case condition_machine (slot_of p w) v
             (m (compatible_prompt p f (iniType (status w)) v) True [''KEEP'', ''DISCARD'']) of
        (out, slot', prompted) \<Rightarrow>
          (out, with_slot p slot'
                  (if prompted
                   then w\<lparr>prompts := prompts w @ [compatible_prompt p f (iniType (status w)) v]\<rparr>
                   else w)))"
proof -
  have same: "\<And>x. with_slot p (slot_of p w) (w\<lparr>prompts := x\<rparr>) = w\<lparr>prompts := x\<rparr>"
    by (simp add: with_slot_def slot_of_def)
  from assms show ?thesis
  proof
    assume p: "p = ''compatible_printers_condition''"
    show ?thesis
      unfolding p handleCompatibleCondition_def condition_machine_def Let_def
      using same [unfolded p]
      by (simp add: slot_of_def set_printers_condition_def with_slot_def
          split: menu_answer.split)
  next
    assume p: "p = ''compatible_prints_condition''"
    show ?thesis
      unfolding p handleCompatibleCondition_def condition_machine_def Let_def
      using same [unfolded p]
      by (simp add: slot_of_def set_prints_condition_def with_slot_def
          split: menu_answer.split)
  qed
qed

text \<open>
  C2, as amended. For \<open>compatible_printers_condition\<close> and \<open>compatible_prints_condition\<close>,
  each with its own slot, a call of \<open>convertParams\<close> that reaches the special cases
  (a source value that is neither empty nor \<open>nil\<close>, a profile type that is set, neither
  \<open>unsupported\<close> nor \<open>physical_printer\<close>, with a parameter map that does not fan the
  parameter out) behaves as the state machine: with the slot at \<open>DISCARD\<close> it produces the
  empty string without prompting; with the slot at \<open>KEEP\<close> it produces the source value
  without prompting; otherwise it prompts, stores a string answer in the slot and
  produces the source value on \<open>KEEP\<close> and the empty string on any other answer; an answer
  that is not a string produces the empty string and leaves the slot as it was.
\<close>

theorem compatible_condition_machine:
  assumes "reaches pm w p v"
    and "p = ''compatible_printers_condition'' \<or> p = ''compatible_prints_condition''"
  shows "convertParams pm m p f w =
     (case condition_machine (slot_of p w) v
             (m (compatible_prompt p f (iniType (status w)) v) True [''KEEP'', ''DISCARD'']) of
        (out, slot', prompted) \<Rightarrow>
          (Inr (Some (VStr out)),
           with_slot p slot'
             (if prompted
              then w\<lparr>prompts := prompts w @ [compatible_prompt p f (iniType (status w)) v]\<rparr>
              else w)))"
proof -
  have mv: "map_of multivalueParams p = None"
    using assms(2) by auto
  then have na: "map_of multivalueParams p \<noteq> Some array"
    by simp
  have flags: "p \<noteq> ''external_perimeters_first''" "p \<noteq> ''infill_first''" "p \<noteq> ''ironing''"
    using assms(2) by auto
  have ni: "p \<notin> set object_prototype"
    using assms(2) by auto
  have look: "map_of (specialCases m p f v ds) p
                = Some (returning (handleCompatibleCondition m p f v))" for ds
    using assms(2) special_compatible [of m p f v ds] by auto
  have "convertParams pm m p f w =
          (case handleCompatibleCondition m p f v w of (r, w') \<Rightarrow> (Inr (Some (VStr r)), w'))"
    using convertParams_reached [OF assms(1) na ni, of m f] mv flags look
    by (simp add: Let_def run_special_case_def returning_def split: prod.split)
  then show ?thesis
    by (simp add: handleCompatibleCondition_machine [OF assms(2)] split: prod.split)
qed

theorem compatible_condition_machine_witness:
  "reaches sample_map condition_store ''compatible_printers_condition'' ''printer_model=~/MK3/''
   \<and> convertParams sample_map (answering (Chosen ''KEEP'')) ''compatible_printers_condition''
         (Some ''test.ini'') condition_store
       = (Inr (Some (VStr ''printer_model=~/MK3/'')),
          with_slot ''compatible_printers_condition'' (Some ''KEEP'')
            (condition_store\<lparr>prompts := prompts condition_store @
               [compatible_prompt ''compatible_printers_condition'' (Some ''test.ini'')
                  (iniType (status condition_store)) ''printer_model=~/MK3/'']\<rparr>))"
proof -
  have r: "reaches sample_map condition_store ''compatible_printers_condition''
             ''printer_model=~/MK3/''"
    by code_simp
  have c: "condition_machine (slot_of ''compatible_printers_condition'' condition_store)
             ''printer_model=~/MK3/'' (Chosen ''KEEP'')
           = (''printer_model=~/MK3/'', Some ''KEEP'', True)"
    by code_simp
  from compatible_condition_machine [OF r, of "answering (Chosen ''KEEP'')" "Some ''test.ini''"] c
  have "convertParams sample_map (answering (Chosen ''KEEP'')) ''compatible_printers_condition''
         (Some ''test.ini'') condition_store
       = (Inr (Some (VStr ''printer_model=~/MK3/'')),
          with_slot ''compatible_printers_condition'' (Some ''KEEP'')
            (condition_store\<lparr>prompts := prompts condition_store @
               [compatible_prompt ''compatible_printers_condition'' (Some ''test.ini'')
                  (iniType (status condition_store)) ''printer_model=~/MK3/'']\<rparr>))"
    by (simp add: answering_def)
  with r show ?thesis by blast
qed

text \<open>
  C2 as stated fails where a guard of \<open>convertParams\<close> returns first: an empty source
  value produces nothing, not the (empty) source value, and under the type
  \<open>unsupported\<close> a kept condition produces nothing, not the source value.
\<close>

theorem compatible_condition_counterexample:
  "src_get (sourceIni empty_condition_store) ''compatible_printers_condition'' = Some []
   \<and> fst (condition_machine
              (slot_of ''compatible_printers_condition'' empty_condition_store) []
              (Chosen ''KEEP'')) = []
   \<and> fst (convertParams sample_map (answering (Chosen ''KEEP''))
              ''compatible_printers_condition'' (Some ''test.ini'') empty_condition_store)
       \<noteq> Inr (Some (VStr []))
   \<and> slot_of ''compatible_printers_condition'' kept_unsupported_store = Some ''KEEP''
   \<and> src_get (sourceIni kept_unsupported_store) ''compatible_printers_condition''
       = Some ''printer_model=~/MK3/''
   \<and> fst (convertParams sample_map (answering (Chosen ''KEEP''))
              ''compatible_printers_condition'' (Some ''test.ini'') kept_unsupported_store)
       = Inr None"
  by code_simp

lemma special_support_style:
  "map_of (specialCases m p f nv ds) ''support_material_style'' = Some (support_material_style nv)"
  by (simp add: specialCases_def)

lemma convertParams_support_style:
  assumes "reaches pm w ''support_material_style'' v"
  shows "convertParams pm m ''support_material_style'' f w =
           (case support_material_style v w of
              (Inl e, w') \<Rightarrow> (Inl e, w')
            | (Inr r, w') \<Rightarrow> (Inr (Some r), w'))"
proof -
  have na: "map_of multivalueParams ''support_material_style'' \<noteq> Some array"
    by simp
  have ni: "''support_material_style'' \<notin> set object_prototype"
    by simp
  show ?thesis
    using convertParams_reached [OF assms na ni, of m f]
    by (simp add: Let_def run_special_case_def special_support_style)
qed

text \<open>
  C10, as amended. For a call of \<open>convertParams\<close> on \<open>support_material_style\<close> that reaches
  the special cases (a value that is neither empty nor \<open>nil\<close>, a profile type that is set,
  neither \<open>unsupported\<close> nor \<open>physical_printer\<close>, with a parameter map that does not fan
  the parameter out): when the support-style table has the value, \<open>support_type\<close> is
  written as the mapped type followed by \<open>(auto)\<close> exactly when the source profile's
  \<open>support_material_auto\<close> is a non-empty string (the string \<open>"0"\<close> included) and by
  \<open>(manual)\<close> when it is absent or empty, and \<open>support_style\<close> is written as the mapped
  style; when the table lacks the value and the value is not a name that every object
  inherits, neither key is written; in both cases the empty string is returned and
  nothing else changes.
\<close>

theorem support_style_keys:
  assumes "reaches pm w ''support_material_style'' v"
  shows "(map_of supportStyles v = Some (supportType, supportStyle) \<longrightarrow>
            convertParams pm m ''support_material_style'' f w =
              (Inr (Some (VStr [])),
               w\<lparr>newHash := (newHash w)
                 (''support_type'' \<mapsto>
                    HStr (supportType @
                      (if truthy (src_get (sourceIni w) ''support_material_auto'')
                       then ''(auto)'' else ''(manual)'')),
                  ''support_style'' \<mapsto> HStr supportStyle)\<rparr>))
         \<and> (map_of supportStyles v = None \<and> v \<notin> set object_prototype \<longrightarrow>
            convertParams pm m ''support_material_style'' f w = (Inr (Some (VStr [])), w))
         \<and> truthy (Some ''0'')
         \<and> \<not> truthy None \<and> \<not> truthy (Some [])"
proof -
  note c = convertParams_support_style [OF assms, of m f]
  have a: "map_of supportStyles v = Some (supportType, supportStyle) \<longrightarrow>
            convertParams pm m ''support_material_style'' f w =
              (Inr (Some (VStr [])),
               w\<lparr>newHash := (newHash w)
                 (''support_type'' \<mapsto>
                    HStr (supportType @
                      (if truthy (src_get (sourceIni w) ''support_material_auto'')
                       then ''(auto)'' else ''(manual)'')),
                  ''support_style'' \<mapsto> HStr supportStyle)\<rparr>)"
    using c by (simp add: support_material_style_def)
  have b: "map_of supportStyles v = None \<and> v \<notin> set object_prototype \<longrightarrow>
            convertParams pm m ''support_material_style'' f w = (Inr (Some (VStr [])), w)"
    using c by (simp add: support_material_style_def)
  have t: "truthy (Some ''0'') \<and> \<not> truthy None \<and> \<not> truthy (Some [])"
    by (simp add: truthy_def)
  from a b t show ?thesis by blast
qed

theorem support_style_keys_witness:
  "reaches sample_map style_store ''support_material_style'' ''grid''
   \<and> map_of supportStyles ''grid'' = Some (''normal'', ''grid'')
   \<and> src_get (sourceIni style_store) ''support_material_auto'' = Some ''0''
   \<and> convertParams sample_map (answering (Chosen ''KEEP'')) ''support_material_style'' None
         style_store
       = (Inr (Some (VStr [])),
          style_store\<lparr>newHash := (newHash style_store)
            (''support_type'' \<mapsto> HStr ''normal(auto)'', ''support_style'' \<mapsto> HStr ''grid'')\<rparr>)
   \<and> reaches sample_map bogus_style_store ''support_material_style'' ''bogus''
   \<and> map_of supportStyles ''bogus'' = None
   \<and> ''bogus'' \<notin> set object_prototype
   \<and> convertParams sample_map (answering (Chosen ''KEEP'')) ''support_material_style'' None
         bogus_style_store
       = (Inr (Some (VStr [])), bogus_style_store)"
proof -
  have r: "reaches sample_map style_store ''support_material_style'' ''grid''"
    by code_simp
  have t: "map_of supportStyles ''grid'' = Some (''normal'', ''grid'')"
    by code_simp
  have a: "src_get (sourceIni style_store) ''support_material_auto'' = Some ''0''"
    by code_simp
  have c1: "convertParams sample_map (answering (Chosen ''KEEP'')) ''support_material_style'' None
         style_store
       = (Inr (Some (VStr [])),
          style_store\<lparr>newHash := (newHash style_store)
            (''support_type'' \<mapsto> HStr ''normal(auto)'', ''support_style'' \<mapsto> HStr ''grid'')\<rparr>)"
    using support_style_keys [OF r, of "''normal''" "''grid''" "answering (Chosen ''KEEP'')" None]
      t a
    by (simp add: truthy_def)
  have r2: "reaches sample_map bogus_style_store ''support_material_style'' ''bogus''"
    by code_simp
  have t2: "map_of supportStyles ''bogus'' = None"
    by code_simp
  have n2: "''bogus'' \<notin> set object_prototype"
    by code_simp
  have c2: "convertParams sample_map (answering (Chosen ''KEEP'')) ''support_material_style'' None
         bogus_style_store
       = (Inr (Some (VStr [])), bogus_style_store)"
    using support_style_keys [OF r2, of _ _ "answering (Chosen ''KEEP'')" None] t2 n2
    by simp
  show ?thesis
    by (rule conjI [OF r conjI [OF t conjI [OF a conjI [OF c1 conjI [OF r2 conjI [OF t2
          conjI [OF n2 c2]]]]]]])
qed

text \<open>
  C10 as stated fails in two places. Where a guard of \<open>convertParams\<close> returns first:
  under the profile type \<open>unsupported\<close> a recognized style writes neither key and nothing
  is returned. And for a style that the table lacks but every object inherits, such as
  \<open>constructor\<close>: the call throws.
\<close>

theorem support_style_counterexample:
  "map_of supportStyles ''grid'' = Some (''normal'', ''grid'')
   \<and> src_get (sourceIni unsupported_style_store) ''support_material_style'' = Some ''grid''
   \<and> fst (convertParams sample_map (answering (Chosen ''KEEP'')) ''support_material_style''
              None unsupported_style_store) = Inr None
   \<and> newHash (snd (convertParams sample_map (answering (Chosen ''KEEP''))
                      ''support_material_style'' None unsupported_style_store))
         ''support_type'' = None
   \<and> newHash (snd (convertParams sample_map (answering (Chosen ''KEEP''))
                      ''support_material_style'' None unsupported_style_store))
         ''support_style'' = None
   \<and> map_of supportStyles ''constructor'' = None
   \<and> reaches sample_map inherited_style_store ''support_material_style'' ''constructor''
   \<and> fst (convertParams sample_map (answering (Chosen ''KEEP'')) ''support_material_style''
              None inherited_style_store) = Inl TypeError"
  by code_simp

text \<open>For every style that objects inherit, a call that reaches the special case throws
  and leaves the objects as they were.\<close>

lemma support_style_inherited:
  assumes "reaches pm w ''support_material_style'' v" and "v \<in> set object_prototype"
  shows "convertParams pm m ''support_material_style'' f w = (Inl TypeError, w)"
proof -
  have "map_of supportStyles v = None"
    using assms(2) by (auto simp: object_prototype_def supportStyles_def)
  then have "get_property supportStyles v = Inherited"
    using assms(2) by (simp add: get_property_def)
  then show ?thesis
    using convertParams_support_style [OF assms(1), of m f]
    by (simp add: support_material_style_def)
qed

section \<open>The special cases that call a numeric helper\<close>

lemma convertParams_special:
  assumes "reaches pm w p v" and "map_of multivalueParams p = None"
    and "p \<notin> set object_prototype"
    and "p \<noteq> ''external_perimeters_first''" and "p \<noteq> ''infill_first''" and "p \<noteq> ''ironing''"
    and "map_of (specialCases m p f v
           (if slicerFlavor (status w) = Some SuperSlicer
            then src_get (sourceIni w) ''default_speed'' else None)) p = Some rule"
    and "rule w = (Inr r, w')"
  shows "convertParams pm m p f w = (Inr (Some r), w')"
proof -
  have na: "map_of multivalueParams p \<noteq> Some array"
    using assms(2) by simp
  show ?thesis
    using convertParams_reached [OF assms(1) na assms(3), of m f] assms(2) assms(4-8)
    by (simp add: Let_def run_special_case_def)
qed

lemma convertParams_special_single:
  assumes "reaches pm w p v" and "map_of multivalueParams p = Some single"
    and "p \<notin> set object_prototype"
    and "p \<noteq> ''external_perimeters_first''" and "p \<noteq> ''infill_first''" and "p \<noteq> ''ironing''"
    and "map_of (specialCases m p f (or_else (elem_at (multivalueToArray (Some v)) 0) [])
           (if slicerFlavor (status w) = Some SuperSlicer
            then src_get (sourceIni w) ''default_speed'' else None)) p = Some rule"
    and "rule w = (Inr r, w')"
  shows "convertParams pm m p f w = (Inr (Some r), w')"
proof -
  have na: "map_of multivalueParams p \<noteq> Some array"
    using assms(2) by simp
  show ?thesis
    using convertParams_reached [OF assms(1) na assms(3), of m f] assms(2) assms(4-8)
    by (simp add: Let_def run_special_case_def)
qed

lemma helper_not_multivalue:
  "map_of multivalueParams ''external_perimeter_speed'' = None"
  "map_of multivalueParams ''first_layer_speed'' = None"
  "map_of multivalueParams ''support_material_interface_speed'' = None"
  "map_of multivalueParams ''top_solid_infill_speed'' = None"
  "map_of multivalueParams ''first_layer_infill_speed'' = None"
  "map_of multivalueParams ''solid_infill_speed'' = None"
  "map_of multivalueParams ''perimeter_speed'' = None"
  "map_of multivalueParams ''support_material_speed'' = None"
  "map_of multivalueParams ''bridge_speed'' = None"
  "map_of multivalueParams ''infill_speed'' = None"
  "map_of multivalueParams ''small_perimeter_speed'' = None"
  "map_of multivalueParams ''gap_fill_speed'' = None"
  "map_of multivalueParams ''fuzzy_skin_point_dist'' = None"
  "map_of multivalueParams ''fuzzy_skin_thickness'' = None"
  "map_of multivalueParams ''small_perimeter_min_length'' = None"
  "map_of multivalueParams ''wall_transition_length'' = None"
  "map_of multivalueParams ''support_material_xy_spacing'' = None"
  "map_of multivalueParams ''max_layer_height'' = Some single"
  "map_of multivalueParams ''min_layer_height'' = Some single"
  by (simp_all add: multivalueParams_def)

lemma helper_not_inherited:
  "''external_perimeter_speed'' \<notin> set object_prototype"
  "''first_layer_speed'' \<notin> set object_prototype"
  "''support_material_interface_speed'' \<notin> set object_prototype"
  "''top_solid_infill_speed'' \<notin> set object_prototype"
  "''first_layer_infill_speed'' \<notin> set object_prototype"
  "''solid_infill_speed'' \<notin> set object_prototype"
  "''perimeter_speed'' \<notin> set object_prototype"
  "''support_material_speed'' \<notin> set object_prototype"
  "''bridge_speed'' \<notin> set object_prototype"
  "''infill_speed'' \<notin> set object_prototype"
  "''small_perimeter_speed'' \<notin> set object_prototype"
  "''gap_fill_speed'' \<notin> set object_prototype"
  "''fuzzy_skin_point_dist'' \<notin> set object_prototype"
  "''fuzzy_skin_thickness'' \<notin> set object_prototype"
  "''small_perimeter_min_length'' \<notin> set object_prototype"
  "''wall_transition_length'' \<notin> set object_prototype"
  "''support_material_xy_spacing'' \<notin> set object_prototype"
  "''max_layer_height'' \<notin> set object_prototype"
  "''min_layer_height'' \<notin> set object_prototype"
  by (simp_all add: object_prototype_def)

lemma conv_external_perimeter_speed:
  assumes "reaches pm w ''external_perimeter_speed'' v"
  shows "convertParams pm m ''external_perimeter_speed'' f w =
           (Inr (Some (VStr (or_else (percentToMm (as_comparator (src_get (sourceIni w) ''perimeter_speed'')) (Some v)) v))), w)"
proof -
  let ?nv = "v"
  let ?ds = "(if slicerFlavor (status w) = Some SuperSlicer then src_get (sourceIni w) ''default_speed'' else None)"
  obtain rule where l: "map_of (specialCases m ''external_perimeter_speed'' f ?nv ?ds) ''external_perimeter_speed'' = Some rule"
    and r: "rule w = (Inr (VStr (or_else (percentToMm (as_comparator (src_get (sourceIni w) ''perimeter_speed'')) (Some v)) v)), w)"
    by (simp add: specialCases_def pure_case_def nozzle_mm_def default_speed_case_def
        output_speed_case_def Let_def)
  show ?thesis
    using convertParams_special [OF assms _ _ _ _ _ l r] by (simp add: helper_not_multivalue helper_not_inherited)
qed

lemma conv_first_layer_speed:
  assumes "reaches pm w ''first_layer_speed'' v"
  shows "convertParams pm m ''first_layer_speed'' f w =
           (Inr (Some (VStr (or_else (percentToMm (as_comparator (src_get (sourceIni w) ''perimeter_speed'')) (Some v)) v))), w)"
proof -
  let ?nv = "v"
  let ?ds = "(if slicerFlavor (status w) = Some SuperSlicer then src_get (sourceIni w) ''default_speed'' else None)"
  obtain rule where l: "map_of (specialCases m ''first_layer_speed'' f ?nv ?ds) ''first_layer_speed'' = Some rule"
    and r: "rule w = (Inr (VStr (or_else (percentToMm (as_comparator (src_get (sourceIni w) ''perimeter_speed'')) (Some v)) v)), w)"
    by (simp add: specialCases_def pure_case_def nozzle_mm_def default_speed_case_def
        output_speed_case_def Let_def)
  show ?thesis
    using convertParams_special [OF assms _ _ _ _ _ l r] by (simp add: helper_not_multivalue helper_not_inherited)
qed

lemma conv_support_material_interface_speed:
  assumes "reaches pm w ''support_material_interface_speed'' v"
  shows "convertParams pm m ''support_material_interface_speed'' f w =
           (Inr (Some (VStr (or_else (percentToMm (as_comparator (src_get (sourceIni w) ''support_material_speed'')) (Some v)) v))), w)"
proof -
  let ?nv = "v"
  let ?ds = "(if slicerFlavor (status w) = Some SuperSlicer then src_get (sourceIni w) ''default_speed'' else None)"
  obtain rule where l: "map_of (specialCases m ''support_material_interface_speed'' f ?nv ?ds) ''support_material_interface_speed'' = Some rule"
    and r: "rule w = (Inr (VStr (or_else (percentToMm (as_comparator (src_get (sourceIni w) ''support_material_speed'')) (Some v)) v)), w)"
    by (simp add: specialCases_def pure_case_def nozzle_mm_def default_speed_case_def
        output_speed_case_def Let_def)
  show ?thesis
    using convertParams_special [OF assms _ _ _ _ _ l r] by (simp add: helper_not_multivalue helper_not_inherited)
qed

lemma conv_top_solid_infill_speed:
  assumes "reaches pm w ''top_solid_infill_speed'' v"
  shows "convertParams pm m ''top_solid_infill_speed'' f w =
           (Inr (Some (VStr (or_else (percentToMm (Some (CStr (hash_str (newHash w) ''internal_solid_infill_speed''))) (Some v)) v))), w)"
proof -
  let ?nv = "v"
  let ?ds = "(if slicerFlavor (status w) = Some SuperSlicer then src_get (sourceIni w) ''default_speed'' else None)"
  obtain rule where l: "map_of (specialCases m ''top_solid_infill_speed'' f ?nv ?ds) ''top_solid_infill_speed'' = Some rule"
    and r: "rule w = (Inr (VStr (or_else (percentToMm (Some (CStr (hash_str (newHash w) ''internal_solid_infill_speed''))) (Some v)) v)), w)"
    by (simp add: specialCases_def pure_case_def nozzle_mm_def default_speed_case_def
        output_speed_case_def Let_def)
  show ?thesis
    using convertParams_special [OF assms _ _ _ _ _ l r] by (simp add: helper_not_multivalue helper_not_inherited)
qed

lemma conv_first_layer_infill_speed:
  assumes "reaches pm w ''first_layer_infill_speed'' v"
  shows "convertParams pm m ''first_layer_infill_speed'' f w =
           (Inr (Some (VStr (or_else (percentToMm (as_comparator (src_get (sourceIni w) ''infill_speed'')) (if slicerFlavor (status w) = Some PrusaSlicer then src_get (sourceIni w) ''first_layer_speed'' else Some v)) v))), w)"
proof -
  let ?nv = "v"
  let ?ds = "(if slicerFlavor (status w) = Some SuperSlicer then src_get (sourceIni w) ''default_speed'' else None)"
  obtain rule where l: "map_of (specialCases m ''first_layer_infill_speed'' f ?nv ?ds) ''first_layer_infill_speed'' = Some rule"
    and r: "rule w = (Inr (VStr (or_else (percentToMm (as_comparator (src_get (sourceIni w) ''infill_speed'')) (if slicerFlavor (status w) = Some PrusaSlicer then src_get (sourceIni w) ''first_layer_speed'' else Some v)) v)), w)"
    by (simp add: specialCases_def pure_case_def nozzle_mm_def default_speed_case_def
        output_speed_case_def Let_def)
  show ?thesis
    using convertParams_special [OF assms _ _ _ _ _ l r] by (simp add: helper_not_multivalue helper_not_inherited)
qed

lemma conv_solid_infill_speed:
  assumes "reaches pm w ''solid_infill_speed'' v"
  shows "convertParams pm m ''solid_infill_speed'' f w =
           (Inr (Some (VStr (or_else (percentToMm (as_comparator (if slicerFlavor (status w) = Some PrusaSlicer then src_get (sourceIni w) ''infill_speed'' else (if slicerFlavor (status w) = Some SuperSlicer then src_get (sourceIni w) ''default_speed'' else None))) (Some v)) v))), w)"
proof -
  let ?nv = "v"
  let ?ds = "(if slicerFlavor (status w) = Some SuperSlicer then src_get (sourceIni w) ''default_speed'' else None)"
  obtain rule where l: "map_of (specialCases m ''solid_infill_speed'' f ?nv ?ds) ''solid_infill_speed'' = Some rule"
    and r: "rule w = (Inr (VStr (or_else (percentToMm (as_comparator (if slicerFlavor (status w) = Some PrusaSlicer then src_get (sourceIni w) ''infill_speed'' else (if slicerFlavor (status w) = Some SuperSlicer then src_get (sourceIni w) ''default_speed'' else None))) (Some v)) v)), w)"
    by (simp add: specialCases_def pure_case_def nozzle_mm_def default_speed_case_def
        output_speed_case_def Let_def)
  show ?thesis
    using convertParams_special [OF assms _ _ _ _ _ l r] by (simp add: helper_not_multivalue helper_not_inherited)
qed

lemma conv_perimeter_speed:
  assumes "reaches pm w ''perimeter_speed'' v"
  shows "convertParams pm m ''perimeter_speed'' f w =
           (Inr (Some (VStr ((if slicerFlavor (status w) = Some SuperSlicer then or_else (percentToMm (as_comparator (if slicerFlavor (status w) = Some SuperSlicer then src_get (sourceIni w) ''default_speed'' else None)) (Some v)) v else v)))), w)"
proof -
  let ?nv = "v"
  let ?ds = "(if slicerFlavor (status w) = Some SuperSlicer then src_get (sourceIni w) ''default_speed'' else None)"
  obtain rule where l: "map_of (specialCases m ''perimeter_speed'' f ?nv ?ds) ''perimeter_speed'' = Some rule"
    and r: "rule w = (Inr (VStr ((if slicerFlavor (status w) = Some SuperSlicer then or_else (percentToMm (as_comparator (if slicerFlavor (status w) = Some SuperSlicer then src_get (sourceIni w) ''default_speed'' else None)) (Some v)) v else v))), w)"
    by (simp add: specialCases_def pure_case_def nozzle_mm_def default_speed_case_def
        output_speed_case_def Let_def)
  show ?thesis
    using convertParams_special [OF assms _ _ _ _ _ l r] by (simp add: helper_not_multivalue helper_not_inherited)
qed

lemma conv_support_material_speed:
  assumes "reaches pm w ''support_material_speed'' v"
  shows "convertParams pm m ''support_material_speed'' f w =
           (Inr (Some (VStr ((if slicerFlavor (status w) = Some SuperSlicer then or_else (percentToMm (as_comparator (if slicerFlavor (status w) = Some SuperSlicer then src_get (sourceIni w) ''default_speed'' else None)) (Some v)) v else v)))), w)"
proof -
  let ?nv = "v"
  let ?ds = "(if slicerFlavor (status w) = Some SuperSlicer then src_get (sourceIni w) ''default_speed'' else None)"
  obtain rule where l: "map_of (specialCases m ''support_material_speed'' f ?nv ?ds) ''support_material_speed'' = Some rule"
    and r: "rule w = (Inr (VStr ((if slicerFlavor (status w) = Some SuperSlicer then or_else (percentToMm (as_comparator (if slicerFlavor (status w) = Some SuperSlicer then src_get (sourceIni w) ''default_speed'' else None)) (Some v)) v else v))), w)"
    by (simp add: specialCases_def pure_case_def nozzle_mm_def default_speed_case_def
        output_speed_case_def Let_def)
  show ?thesis
    using convertParams_special [OF assms _ _ _ _ _ l r] by (simp add: helper_not_multivalue helper_not_inherited)
qed

lemma conv_bridge_speed:
  assumes "reaches pm w ''bridge_speed'' v"
  shows "convertParams pm m ''bridge_speed'' f w =
           (Inr (Some (VStr ((if slicerFlavor (status w) = Some SuperSlicer then or_else (percentToMm (as_comparator (if slicerFlavor (status w) = Some SuperSlicer then src_get (sourceIni w) ''default_speed'' else None)) (Some v)) v else v)))), w)"
proof -
  let ?nv = "v"
  let ?ds = "(if slicerFlavor (status w) = Some SuperSlicer then src_get (sourceIni w) ''default_speed'' else None)"
  obtain rule where l: "map_of (specialCases m ''bridge_speed'' f ?nv ?ds) ''bridge_speed'' = Some rule"
    and r: "rule w = (Inr (VStr ((if slicerFlavor (status w) = Some SuperSlicer then or_else (percentToMm (as_comparator (if slicerFlavor (status w) = Some SuperSlicer then src_get (sourceIni w) ''default_speed'' else None)) (Some v)) v else v))), w)"
    by (simp add: specialCases_def pure_case_def nozzle_mm_def default_speed_case_def
        output_speed_case_def Let_def)
  show ?thesis
    using convertParams_special [OF assms _ _ _ _ _ l r] by (simp add: helper_not_multivalue helper_not_inherited)
qed

lemma conv_infill_speed:
  assumes "reaches pm w ''infill_speed'' v"
  shows "convertParams pm m ''infill_speed'' f w =
           (Inr (Some (VStr ((if slicerFlavor (status w) = Some SuperSlicer then or_else (percentToMm (Some (CStr (hash_str (newHash w) ''internal_solid_infill_speed''))) (Some v)) v else v)))), w)"
proof -
  let ?nv = "v"
  let ?ds = "(if slicerFlavor (status w) = Some SuperSlicer then src_get (sourceIni w) ''default_speed'' else None)"
  obtain rule where l: "map_of (specialCases m ''infill_speed'' f ?nv ?ds) ''infill_speed'' = Some rule"
    and r: "rule w = (Inr (VStr ((if slicerFlavor (status w) = Some SuperSlicer then or_else (percentToMm (Some (CStr (hash_str (newHash w) ''internal_solid_infill_speed''))) (Some v)) v else v))), w)"
    by (simp add: specialCases_def pure_case_def nozzle_mm_def default_speed_case_def
        output_speed_case_def Let_def)
  show ?thesis
    using convertParams_special [OF assms _ _ _ _ _ l r] by (simp add: helper_not_multivalue helper_not_inherited)
qed

lemma conv_small_perimeter_speed:
  assumes "reaches pm w ''small_perimeter_speed'' v"
  shows "convertParams pm m ''small_perimeter_speed'' f w =
           (Inr (Some (VStr ((if slicerFlavor (status w) = Some SuperSlicer then or_else (percentToMm (Some (CStr (hash_str (newHash w) ''sparse_infill_speed''))) (Some v)) v else v)))), w)"
proof -
  let ?nv = "v"
  let ?ds = "(if slicerFlavor (status w) = Some SuperSlicer then src_get (sourceIni w) ''default_speed'' else None)"
  obtain rule where l: "map_of (specialCases m ''small_perimeter_speed'' f ?nv ?ds) ''small_perimeter_speed'' = Some rule"
    and r: "rule w = (Inr (VStr ((if slicerFlavor (status w) = Some SuperSlicer then or_else (percentToMm (Some (CStr (hash_str (newHash w) ''sparse_infill_speed''))) (Some v)) v else v))), w)"
    by (simp add: specialCases_def pure_case_def nozzle_mm_def default_speed_case_def
        output_speed_case_def Let_def)
  show ?thesis
    using convertParams_special [OF assms _ _ _ _ _ l r] by (simp add: helper_not_multivalue helper_not_inherited)
qed

lemma conv_gap_fill_speed:
  assumes "reaches pm w ''gap_fill_speed'' v"
  shows "convertParams pm m ''gap_fill_speed'' f w =
           (Inr (Some (VStr ((if slicerFlavor (status w) = Some SuperSlicer then or_else (percentToMm (Some (CStr (hash_str (newHash w) ''sparse_infill_speed''))) (Some v)) v else v)))), w)"
proof -
  let ?nv = "v"
  let ?ds = "(if slicerFlavor (status w) = Some SuperSlicer then src_get (sourceIni w) ''default_speed'' else None)"
  obtain rule where l: "map_of (specialCases m ''gap_fill_speed'' f ?nv ?ds) ''gap_fill_speed'' = Some rule"
    and r: "rule w = (Inr (VStr ((if slicerFlavor (status w) = Some SuperSlicer then or_else (percentToMm (Some (CStr (hash_str (newHash w) ''sparse_infill_speed''))) (Some v)) v else v))), w)"
    by (simp add: specialCases_def pure_case_def nozzle_mm_def default_speed_case_def
        output_speed_case_def Let_def)
  show ?thesis
    using convertParams_special [OF assms _ _ _ _ _ l r] by (simp add: helper_not_multivalue helper_not_inherited)
qed

lemma conv_fuzzy_skin_point_dist:
  assumes "reaches pm w ''fuzzy_skin_point_dist'' v"
  shows "convertParams pm m ''fuzzy_skin_point_dist'' f w =
           (Inr (Some (VStr (or_else (percentToMm (Some (CStr (nozzle_string (status w)))) (Some v)) []))), w)"
proof -
  let ?nv = "v"
  let ?ds = "(if slicerFlavor (status w) = Some SuperSlicer then src_get (sourceIni w) ''default_speed'' else None)"
  obtain rule where l: "map_of (specialCases m ''fuzzy_skin_point_dist'' f ?nv ?ds) ''fuzzy_skin_point_dist'' = Some rule"
    and r: "rule w = (Inr (VStr (or_else (percentToMm (Some (CStr (nozzle_string (status w)))) (Some v)) [])), w)"
    by (simp add: specialCases_def pure_case_def nozzle_mm_def default_speed_case_def
        output_speed_case_def Let_def)
  show ?thesis
    using convertParams_special [OF assms _ _ _ _ _ l r] by (simp add: helper_not_multivalue helper_not_inherited)
qed

lemma conv_fuzzy_skin_thickness:
  assumes "reaches pm w ''fuzzy_skin_thickness'' v"
  shows "convertParams pm m ''fuzzy_skin_thickness'' f w =
           (Inr (Some (VStr (or_else (percentToMm (Some (CStr (nozzle_string (status w)))) (Some v)) []))), w)"
proof -
  let ?nv = "v"
  let ?ds = "(if slicerFlavor (status w) = Some SuperSlicer then src_get (sourceIni w) ''default_speed'' else None)"
  obtain rule where l: "map_of (specialCases m ''fuzzy_skin_thickness'' f ?nv ?ds) ''fuzzy_skin_thickness'' = Some rule"
    and r: "rule w = (Inr (VStr (or_else (percentToMm (Some (CStr (nozzle_string (status w)))) (Some v)) [])), w)"
    by (simp add: specialCases_def pure_case_def nozzle_mm_def default_speed_case_def
        output_speed_case_def Let_def)
  show ?thesis
    using convertParams_special [OF assms _ _ _ _ _ l r] by (simp add: helper_not_multivalue helper_not_inherited)
qed

lemma conv_small_perimeter_min_length:
  assumes "reaches pm w ''small_perimeter_min_length'' v"
  shows "convertParams pm m ''small_perimeter_min_length'' f w =
           (Inr (Some (VStr (or_else (percentToMm (Some (CStr (nozzle_string (status w)))) (Some v)) []))), w)"
proof -
  let ?nv = "v"
  let ?ds = "(if slicerFlavor (status w) = Some SuperSlicer then src_get (sourceIni w) ''default_speed'' else None)"
  obtain rule where l: "map_of (specialCases m ''small_perimeter_min_length'' f ?nv ?ds) ''small_perimeter_min_length'' = Some rule"
    and r: "rule w = (Inr (VStr (or_else (percentToMm (Some (CStr (nozzle_string (status w)))) (Some v)) [])), w)"
    by (simp add: specialCases_def pure_case_def nozzle_mm_def default_speed_case_def
        output_speed_case_def Let_def)
  show ?thesis
    using convertParams_special [OF assms _ _ _ _ _ l r] by (simp add: helper_not_multivalue helper_not_inherited)
qed

lemma conv_wall_transition_length:
  assumes "reaches pm w ''wall_transition_length'' v"
  shows "convertParams pm m ''wall_transition_length'' f w =
           (Inr (Some (VStr (or_else (mmToPercent (Some (CStr (nozzle_string (status w)))) (Some v)) []))), w)"
proof -
  let ?nv = "v"
  let ?ds = "(if slicerFlavor (status w) = Some SuperSlicer then src_get (sourceIni w) ''default_speed'' else None)"
  obtain rule where l: "map_of (specialCases m ''wall_transition_length'' f ?nv ?ds) ''wall_transition_length'' = Some rule"
    and r: "rule w = (Inr (VStr (or_else (mmToPercent (Some (CStr (nozzle_string (status w)))) (Some v)) [])), w)"
    by (simp add: specialCases_def pure_case_def nozzle_mm_def default_speed_case_def
        output_speed_case_def Let_def)
  show ?thesis
    using convertParams_special [OF assms _ _ _ _ _ l r] by (simp add: helper_not_multivalue helper_not_inherited)
qed

lemma conv_support_material_xy_spacing:
  assumes "reaches pm w ''support_material_xy_spacing'' v"
  shows "convertParams pm m ''support_material_xy_spacing'' f w =
           (Inr (Some (VStr (or_else (if \<not> truthy (percentToMm (as_comparator (src_get (sourceIni w) ''external_perimeter_extrusion_width'')) (Some v)) then percentToMm (Some (CStr (nozzle_string (status w)))) (Some v) else percentToMm (as_comparator (src_get (sourceIni w) ''external_perimeter_extrusion_width'')) (Some v)) []))), w)"
proof -
  let ?nv = "v"
  let ?ds = "(if slicerFlavor (status w) = Some SuperSlicer then src_get (sourceIni w) ''default_speed'' else None)"
  obtain rule where l: "map_of (specialCases m ''support_material_xy_spacing'' f ?nv ?ds) ''support_material_xy_spacing'' = Some rule"
    and r: "rule w = (Inr (VStr (or_else (if \<not> truthy (percentToMm (as_comparator (src_get (sourceIni w) ''external_perimeter_extrusion_width'')) (Some v)) then percentToMm (Some (CStr (nozzle_string (status w)))) (Some v) else percentToMm (as_comparator (src_get (sourceIni w) ''external_perimeter_extrusion_width'')) (Some v)) [])), w)"
    by (simp add: specialCases_def pure_case_def nozzle_mm_def default_speed_case_def
        output_speed_case_def Let_def)
  show ?thesis
    using convertParams_special [OF assms _ _ _ _ _ l r] by (simp add: helper_not_multivalue helper_not_inherited)
qed

lemma conv_max_layer_height:
  assumes "reaches pm w ''max_layer_height'' v"
  shows "convertParams pm m ''max_layer_height'' f w =
           (Inr (Some (VStr (or_else (percentToMm (Some (CStr (nozzle_string (status w)))) (Some (or_else (elem_at (multivalueToArray (Some v)) 0) []))) []))), w)"
proof -
  let ?nv = "or_else (elem_at (multivalueToArray (Some v)) 0) []"
  let ?ds = "(if slicerFlavor (status w) = Some SuperSlicer then src_get (sourceIni w) ''default_speed'' else None)"
  obtain rule where l: "map_of (specialCases m ''max_layer_height'' f ?nv ?ds) ''max_layer_height'' = Some rule"
    and r: "rule w = (Inr (VStr (or_else (percentToMm (Some (CStr (nozzle_string (status w)))) (Some (or_else (elem_at (multivalueToArray (Some v)) 0) []))) [])), w)"
    by (simp add: specialCases_def pure_case_def nozzle_mm_def default_speed_case_def
        output_speed_case_def Let_def)
  show ?thesis
    using convertParams_special_single [OF assms _ _ _ _ _ l r] by (simp add: helper_not_multivalue helper_not_inherited)
qed

lemma conv_min_layer_height:
  assumes "reaches pm w ''min_layer_height'' v"
  shows "convertParams pm m ''min_layer_height'' f w =
           (Inr (Some (VStr (or_else (percentToMm (Some (CStr (nozzle_string (status w)))) (Some (or_else (elem_at (multivalueToArray (Some v)) 0) []))) []))), w)"
proof -
  let ?nv = "or_else (elem_at (multivalueToArray (Some v)) 0) []"
  let ?ds = "(if slicerFlavor (status w) = Some SuperSlicer then src_get (sourceIni w) ''default_speed'' else None)"
  obtain rule where l: "map_of (specialCases m ''min_layer_height'' f ?nv ?ds) ''min_layer_height'' = Some rule"
    and r: "rule w = (Inr (VStr (or_else (percentToMm (Some (CStr (nozzle_string (status w)))) (Some (or_else (elem_at (multivalueToArray (Some v)) 0) []))) [])), w)"
    by (simp add: specialCases_def pure_case_def nozzle_mm_def default_speed_case_def
        output_speed_case_def Let_def)
  show ?thesis
    using convertParams_special_single [OF assms _ _ _ _ _ l r] by (simp add: helper_not_multivalue helper_not_inherited)
qed

text \<open>
  C1, as amended. Every special case of \<open>convertParams\<close> that calls \<open>percentToMm\<close> or
  \<open>mmToPercent\<close> absorbs a missing result of the helper, in one of two ways. The twelve
  speed cases produce the unmodified source value. The cases that convert against the
  nozzle size (\<open>max_layer_height\<close>, \<open>min_layer_height\<close>, \<open>fuzzy_skin_point_dist\<close>,
  \<open>fuzzy_skin_thickness\<close>, \<open>small_perimeter_min_length\<close>, \<open>wall_transition_length\<close>,
  \<open>support_material_xy_spacing\<close>) produce the empty string. In both, a value is returned
  and the objects are as before.
\<close>

theorem helper_fallback:
  "(p1 \<in> set [''external_perimeter_speed'', ''first_layer_speed'']
      \<and> reaches pm w p1 v
      \<and> percentToMm (as_comparator (src_get (sourceIni w) ''perimeter_speed'')) (Some v) = None
      \<longrightarrow> convertParams pm m p1 f w = (Inr (Some (VStr v)), w))
   \<and> (reaches pm w ''support_material_interface_speed'' v
      \<and> percentToMm (as_comparator (src_get (sourceIni w) ''support_material_speed'')) (Some v) = None
      \<longrightarrow> convertParams pm m ''support_material_interface_speed'' f w = (Inr (Some (VStr v)), w))
   \<and> (reaches pm w ''top_solid_infill_speed'' v
      \<and> percentToMm (Some (CStr (hash_str (newHash w) ''internal_solid_infill_speed''))) (Some v) = None
      \<longrightarrow> convertParams pm m ''top_solid_infill_speed'' f w = (Inr (Some (VStr v)), w))
   \<and> (reaches pm w ''first_layer_infill_speed'' v
      \<and> percentToMm (as_comparator (src_get (sourceIni w) ''infill_speed'')) (if slicerFlavor (status w) = Some PrusaSlicer then src_get (sourceIni w) ''first_layer_speed'' else Some v) = None
      \<longrightarrow> convertParams pm m ''first_layer_infill_speed'' f w = (Inr (Some (VStr v)), w))
   \<and> (reaches pm w ''solid_infill_speed'' v
      \<and> percentToMm (as_comparator (if slicerFlavor (status w) = Some PrusaSlicer then src_get (sourceIni w) ''infill_speed'' else (if slicerFlavor (status w) = Some SuperSlicer then src_get (sourceIni w) ''default_speed'' else None))) (Some v) = None
      \<longrightarrow> convertParams pm m ''solid_infill_speed'' f w = (Inr (Some (VStr v)), w))
   \<and> (p2 \<in> set [''perimeter_speed'', ''support_material_speed'', ''bridge_speed'']
      \<and> reaches pm w p2 v
      \<and> slicerFlavor (status w) = Some SuperSlicer
      \<and> percentToMm (as_comparator (src_get (sourceIni w) ''default_speed'')) (Some v) = None
      \<longrightarrow> convertParams pm m p2 f w = (Inr (Some (VStr v)), w))
   \<and> (reaches pm w ''infill_speed'' v
      \<and> slicerFlavor (status w) = Some SuperSlicer
      \<and> percentToMm (Some (CStr (hash_str (newHash w) ''internal_solid_infill_speed''))) (Some v) = None
      \<longrightarrow> convertParams pm m ''infill_speed'' f w = (Inr (Some (VStr v)), w))
   \<and> (p3 \<in> set [''small_perimeter_speed'', ''gap_fill_speed'']
      \<and> reaches pm w p3 v
      \<and> slicerFlavor (status w) = Some SuperSlicer
      \<and> percentToMm (Some (CStr (hash_str (newHash w) ''sparse_infill_speed''))) (Some v) = None
      \<longrightarrow> convertParams pm m p3 f w = (Inr (Some (VStr v)), w))
   \<and> (p4 \<in> set [''fuzzy_skin_point_dist'', ''fuzzy_skin_thickness'', ''small_perimeter_min_length'']
      \<and> reaches pm w p4 v
      \<and> percentToMm (Some (CStr (nozzle_string (status w)))) (Some v) = None
      \<longrightarrow> convertParams pm m p4 f w = (Inr (Some (VStr [])), w))
   \<and> (p5 \<in> set [''max_layer_height'', ''min_layer_height'']
      \<and> reaches pm w p5 v
      \<and> percentToMm (Some (CStr (nozzle_string (status w)))) (Some (or_else (elem_at (multivalueToArray (Some v)) 0) [])) = None
      \<longrightarrow> convertParams pm m p5 f w = (Inr (Some (VStr [])), w))
   \<and> (reaches pm w ''wall_transition_length'' v
      \<and> mmToPercent (Some (CStr (nozzle_string (status w)))) (Some v) = None
      \<longrightarrow> convertParams pm m ''wall_transition_length'' f w = (Inr (Some (VStr [])), w))
   \<and> (reaches pm w ''support_material_xy_spacing'' v
      \<and> percentToMm (as_comparator (src_get (sourceIni w) ''external_perimeter_extrusion_width'')) (Some v) = None
      \<and> percentToMm (Some (CStr (nozzle_string (status w)))) (Some v) = None
      \<longrightarrow> convertParams pm m ''support_material_xy_spacing'' f w = (Inr (Some (VStr [])), w))"
proof -
  have c0: "(p1 \<in> set [''external_perimeter_speed'', ''first_layer_speed'']
      \<and> reaches pm w p1 v
      \<and> percentToMm (as_comparator (src_get (sourceIni w) ''perimeter_speed'')) (Some v) = None
      \<longrightarrow> convertParams pm m p1 f w = (Inr (Some (VStr v)), w))"
    using conv_external_perimeter_speed [of pm w v m f] conv_first_layer_speed [of pm w v m f]
    by (auto simp: or_else_def truthy_def)
  have c1: "(reaches pm w ''support_material_interface_speed'' v
      \<and> percentToMm (as_comparator (src_get (sourceIni w) ''support_material_speed'')) (Some v) = None
      \<longrightarrow> convertParams pm m ''support_material_interface_speed'' f w = (Inr (Some (VStr v)), w))"
    using conv_support_material_interface_speed [of pm w v m f]
    by (auto simp: or_else_def truthy_def)
  have c2: "(reaches pm w ''top_solid_infill_speed'' v
      \<and> percentToMm (Some (CStr (hash_str (newHash w) ''internal_solid_infill_speed''))) (Some v) = None
      \<longrightarrow> convertParams pm m ''top_solid_infill_speed'' f w = (Inr (Some (VStr v)), w))"
    using conv_top_solid_infill_speed [of pm w v m f]
    by (auto simp: or_else_def truthy_def)
  have c3: "(reaches pm w ''first_layer_infill_speed'' v
      \<and> percentToMm (as_comparator (src_get (sourceIni w) ''infill_speed'')) (if slicerFlavor (status w) = Some PrusaSlicer then src_get (sourceIni w) ''first_layer_speed'' else Some v) = None
      \<longrightarrow> convertParams pm m ''first_layer_infill_speed'' f w = (Inr (Some (VStr v)), w))"
    using conv_first_layer_infill_speed [of pm w v m f]
    by (auto simp: or_else_def truthy_def)
  have c4: "(reaches pm w ''solid_infill_speed'' v
      \<and> percentToMm (as_comparator (if slicerFlavor (status w) = Some PrusaSlicer then src_get (sourceIni w) ''infill_speed'' else (if slicerFlavor (status w) = Some SuperSlicer then src_get (sourceIni w) ''default_speed'' else None))) (Some v) = None
      \<longrightarrow> convertParams pm m ''solid_infill_speed'' f w = (Inr (Some (VStr v)), w))"
    using conv_solid_infill_speed [of pm w v m f]
    by (auto simp: or_else_def truthy_def)
  have c5: "(p2 \<in> set [''perimeter_speed'', ''support_material_speed'', ''bridge_speed'']
      \<and> reaches pm w p2 v
      \<and> slicerFlavor (status w) = Some SuperSlicer
      \<and> percentToMm (as_comparator (src_get (sourceIni w) ''default_speed'')) (Some v) = None
      \<longrightarrow> convertParams pm m p2 f w = (Inr (Some (VStr v)), w))"
    using conv_perimeter_speed [of pm w v m f] conv_support_material_speed [of pm w v m f] conv_bridge_speed [of pm w v m f]
    by (auto simp: or_else_def truthy_def)
  have c6: "(reaches pm w ''infill_speed'' v
      \<and> slicerFlavor (status w) = Some SuperSlicer
      \<and> percentToMm (Some (CStr (hash_str (newHash w) ''internal_solid_infill_speed''))) (Some v) = None
      \<longrightarrow> convertParams pm m ''infill_speed'' f w = (Inr (Some (VStr v)), w))"
    using conv_infill_speed [of pm w v m f]
    by (auto simp: or_else_def truthy_def)
  have c7: "(p3 \<in> set [''small_perimeter_speed'', ''gap_fill_speed'']
      \<and> reaches pm w p3 v
      \<and> slicerFlavor (status w) = Some SuperSlicer
      \<and> percentToMm (Some (CStr (hash_str (newHash w) ''sparse_infill_speed''))) (Some v) = None
      \<longrightarrow> convertParams pm m p3 f w = (Inr (Some (VStr v)), w))"
    using conv_small_perimeter_speed [of pm w v m f] conv_gap_fill_speed [of pm w v m f]
    by (auto simp: or_else_def truthy_def)
  have c8: "(p4 \<in> set [''fuzzy_skin_point_dist'', ''fuzzy_skin_thickness'', ''small_perimeter_min_length'']
      \<and> reaches pm w p4 v
      \<and> percentToMm (Some (CStr (nozzle_string (status w)))) (Some v) = None
      \<longrightarrow> convertParams pm m p4 f w = (Inr (Some (VStr [])), w))"
    using conv_fuzzy_skin_point_dist [of pm w v m f] conv_fuzzy_skin_thickness [of pm w v m f] conv_small_perimeter_min_length [of pm w v m f]
    by (auto simp: or_else_def truthy_def)
  have c9: "(p5 \<in> set [''max_layer_height'', ''min_layer_height'']
      \<and> reaches pm w p5 v
      \<and> percentToMm (Some (CStr (nozzle_string (status w)))) (Some (or_else (elem_at (multivalueToArray (Some v)) 0) [])) = None
      \<longrightarrow> convertParams pm m p5 f w = (Inr (Some (VStr [])), w))"
    using conv_max_layer_height [of pm w v m f] conv_min_layer_height [of pm w v m f]
    by (auto simp: or_else_def truthy_def)
  have c10: "(reaches pm w ''wall_transition_length'' v
      \<and> mmToPercent (Some (CStr (nozzle_string (status w)))) (Some v) = None
      \<longrightarrow> convertParams pm m ''wall_transition_length'' f w = (Inr (Some (VStr [])), w))"
    using conv_wall_transition_length [of pm w v m f]
    by (auto simp: or_else_def truthy_def)
  have c11: "(reaches pm w ''support_material_xy_spacing'' v
      \<and> percentToMm (as_comparator (src_get (sourceIni w) ''external_perimeter_extrusion_width'')) (Some v) = None
      \<and> percentToMm (Some (CStr (nozzle_string (status w)))) (Some v) = None
      \<longrightarrow> convertParams pm m ''support_material_xy_spacing'' f w = (Inr (Some (VStr [])), w))"
    using conv_support_material_xy_spacing [of pm w v m f]
    by (auto simp: or_else_def truthy_def)
  from c0 c1 c2 c3 c4 c5 c6 c7 c8 c9 c10 c11 show ?thesis
    by blast
qed

theorem helper_fallback_witness:
  "(''external_perimeter_speed'' \<in> set [''external_perimeter_speed'', ''first_layer_speed'']
      \<and> reaches sample_map percent_store ''external_perimeter_speed'' ''50%''
      \<and> percentToMm (as_comparator (src_get (sourceIni percent_store) ''perimeter_speed'')) (Some ''50%'') = None)
   \<and> convertParams sample_map (answering (Chosen ''KEEP'')) ''external_perimeter_speed'' None percent_store
       = (Inr (Some (VStr ''50%'')), percent_store)
   \<and> (reaches sample_map percent_store ''support_material_interface_speed'' ''50%''
      \<and> percentToMm (as_comparator (src_get (sourceIni percent_store) ''support_material_speed'')) (Some ''50%'') = None)
   \<and> convertParams sample_map (answering (Chosen ''KEEP'')) ''support_material_interface_speed'' None percent_store
       = (Inr (Some (VStr ''50%'')), percent_store)
   \<and> (reaches sample_map percent_store ''top_solid_infill_speed'' ''50%''
      \<and> percentToMm (Some (CStr (hash_str (newHash percent_store) ''internal_solid_infill_speed''))) (Some ''50%'') = None)
   \<and> convertParams sample_map (answering (Chosen ''KEEP'')) ''top_solid_infill_speed'' None percent_store
       = (Inr (Some (VStr ''50%'')), percent_store)
   \<and> (reaches sample_map percent_store ''first_layer_infill_speed'' ''50%''
      \<and> percentToMm (as_comparator (src_get (sourceIni percent_store) ''infill_speed'')) (if slicerFlavor (status percent_store) = Some PrusaSlicer then src_get (sourceIni percent_store) ''first_layer_speed'' else Some ''50%'') = None)
   \<and> convertParams sample_map (answering (Chosen ''KEEP'')) ''first_layer_infill_speed'' None percent_store
       = (Inr (Some (VStr ''50%'')), percent_store)
   \<and> (reaches sample_map percent_store ''solid_infill_speed'' ''50%''
      \<and> percentToMm (as_comparator (if slicerFlavor (status percent_store) = Some PrusaSlicer then src_get (sourceIni percent_store) ''infill_speed'' else (if slicerFlavor (status percent_store) = Some SuperSlicer then src_get (sourceIni percent_store) ''default_speed'' else None))) (Some ''50%'') = None)
   \<and> convertParams sample_map (answering (Chosen ''KEEP'')) ''solid_infill_speed'' None percent_store
       = (Inr (Some (VStr ''50%'')), percent_store)
   \<and> (''perimeter_speed'' \<in> set [''perimeter_speed'', ''support_material_speed'', ''bridge_speed'']
      \<and> reaches sample_map percent_store ''perimeter_speed'' ''50%''
      \<and> slicerFlavor (status percent_store) = Some SuperSlicer
      \<and> percentToMm (as_comparator (src_get (sourceIni percent_store) ''default_speed'')) (Some ''50%'') = None)
   \<and> convertParams sample_map (answering (Chosen ''KEEP'')) ''perimeter_speed'' None percent_store
       = (Inr (Some (VStr ''50%'')), percent_store)
   \<and> (reaches sample_map percent_store ''infill_speed'' ''50%''
      \<and> slicerFlavor (status percent_store) = Some SuperSlicer
      \<and> percentToMm (Some (CStr (hash_str (newHash percent_store) ''internal_solid_infill_speed''))) (Some ''50%'') = None)
   \<and> convertParams sample_map (answering (Chosen ''KEEP'')) ''infill_speed'' None percent_store
       = (Inr (Some (VStr ''50%'')), percent_store)
   \<and> (''small_perimeter_speed'' \<in> set [''small_perimeter_speed'', ''gap_fill_speed'']
      \<and> reaches sample_map percent_store ''small_perimeter_speed'' ''50%''
      \<and> slicerFlavor (status percent_store) = Some SuperSlicer
      \<and> percentToMm (Some (CStr (hash_str (newHash percent_store) ''sparse_infill_speed''))) (Some ''50%'') = None)
   \<and> convertParams sample_map (answering (Chosen ''KEEP'')) ''small_perimeter_speed'' None percent_store
       = (Inr (Some (VStr ''50%'')), percent_store)
   \<and> (''fuzzy_skin_thickness'' \<in> set [''fuzzy_skin_point_dist'', ''fuzzy_skin_thickness'', ''small_perimeter_min_length'']
      \<and> reaches sample_map percent_store ''fuzzy_skin_thickness'' ''50%''
      \<and> percentToMm (Some (CStr (nozzle_string (status percent_store)))) (Some ''50%'') = None)
   \<and> convertParams sample_map (answering (Chosen ''KEEP'')) ''fuzzy_skin_thickness'' None percent_store
       = (Inr (Some (VStr [])), percent_store)
   \<and> (''min_layer_height'' \<in> set [''max_layer_height'', ''min_layer_height'']
      \<and> reaches sample_map percent_store ''min_layer_height'' ''50%''
      \<and> percentToMm (Some (CStr (nozzle_string (status percent_store)))) (Some (or_else (elem_at (multivalueToArray (Some ''50%'')) 0) [])) = None)
   \<and> convertParams sample_map (answering (Chosen ''KEEP'')) ''min_layer_height'' None percent_store
       = (Inr (Some (VStr [])), percent_store)
   \<and> (reaches sample_map percent_store ''wall_transition_length'' ''50%''
      \<and> mmToPercent (Some (CStr (nozzle_string (status percent_store)))) (Some ''50%'') = None)
   \<and> convertParams sample_map (answering (Chosen ''KEEP'')) ''wall_transition_length'' None percent_store
       = (Inr (Some (VStr [])), percent_store)
   \<and> (reaches sample_map percent_store ''support_material_xy_spacing'' ''50%''
      \<and> percentToMm (as_comparator (src_get (sourceIni percent_store) ''external_perimeter_extrusion_width'')) (Some ''50%'') = None
      \<and> percentToMm (Some (CStr (nozzle_string (status percent_store)))) (Some ''50%'') = None)
   \<and> convertParams sample_map (answering (Chosen ''KEEP'')) ''support_material_xy_spacing'' None percent_store
       = (Inr (Some (VStr [])), percent_store)"
proof -
  note t = helper_fallback [of "''external_perimeter_speed''" sample_map percent_store "''50%''"
      "answering (Chosen ''KEEP'')" None "''perimeter_speed''" "''small_perimeter_speed''"
      "''fuzzy_skin_thickness''" "''min_layer_height''"]
  have h0: "''external_perimeter_speed'' \<in> set [''external_perimeter_speed'', ''first_layer_speed'']
      \<and> reaches sample_map percent_store ''external_perimeter_speed'' ''50%''
      \<and> percentToMm (as_comparator (src_get (sourceIni percent_store) ''perimeter_speed'')) (Some ''50%'') = None"
    by code_simp
  have r0: "convertParams sample_map (answering (Chosen ''KEEP'')) ''external_perimeter_speed'' None percent_store
       = (Inr (Some (VStr ''50%'')), percent_store)"
    by (rule mp [OF t [THEN conjunct1] h0])
  have h1: "reaches sample_map percent_store ''support_material_interface_speed'' ''50%''
      \<and> percentToMm (as_comparator (src_get (sourceIni percent_store) ''support_material_speed'')) (Some ''50%'') = None"
    by code_simp
  have r1: "convertParams sample_map (answering (Chosen ''KEEP'')) ''support_material_interface_speed'' None percent_store
       = (Inr (Some (VStr ''50%'')), percent_store)"
    by (rule mp [OF t [THEN conjunct2, THEN conjunct1] h1])
  have h2: "reaches sample_map percent_store ''top_solid_infill_speed'' ''50%''
      \<and> percentToMm (Some (CStr (hash_str (newHash percent_store) ''internal_solid_infill_speed''))) (Some ''50%'') = None"
    by code_simp
  have r2: "convertParams sample_map (answering (Chosen ''KEEP'')) ''top_solid_infill_speed'' None percent_store
       = (Inr (Some (VStr ''50%'')), percent_store)"
    by (rule mp [OF t [THEN conjunct2, THEN conjunct2, THEN conjunct1] h2])
  have h3: "reaches sample_map percent_store ''first_layer_infill_speed'' ''50%''
      \<and> percentToMm (as_comparator (src_get (sourceIni percent_store) ''infill_speed'')) (if slicerFlavor (status percent_store) = Some PrusaSlicer then src_get (sourceIni percent_store) ''first_layer_speed'' else Some ''50%'') = None"
    by code_simp
  have r3: "convertParams sample_map (answering (Chosen ''KEEP'')) ''first_layer_infill_speed'' None percent_store
       = (Inr (Some (VStr ''50%'')), percent_store)"
    by (rule mp [OF t [THEN conjunct2, THEN conjunct2, THEN conjunct2, THEN conjunct1] h3])
  have h4: "reaches sample_map percent_store ''solid_infill_speed'' ''50%''
      \<and> percentToMm (as_comparator (if slicerFlavor (status percent_store) = Some PrusaSlicer then src_get (sourceIni percent_store) ''infill_speed'' else (if slicerFlavor (status percent_store) = Some SuperSlicer then src_get (sourceIni percent_store) ''default_speed'' else None))) (Some ''50%'') = None"
    by code_simp
  have r4: "convertParams sample_map (answering (Chosen ''KEEP'')) ''solid_infill_speed'' None percent_store
       = (Inr (Some (VStr ''50%'')), percent_store)"
    by (rule mp [OF t [THEN conjunct2, THEN conjunct2, THEN conjunct2, THEN conjunct2, THEN conjunct1] h4])
  have h5: "''perimeter_speed'' \<in> set [''perimeter_speed'', ''support_material_speed'', ''bridge_speed'']
      \<and> reaches sample_map percent_store ''perimeter_speed'' ''50%''
      \<and> slicerFlavor (status percent_store) = Some SuperSlicer
      \<and> percentToMm (as_comparator (src_get (sourceIni percent_store) ''default_speed'')) (Some ''50%'') = None"
    by code_simp
  have r5: "convertParams sample_map (answering (Chosen ''KEEP'')) ''perimeter_speed'' None percent_store
       = (Inr (Some (VStr ''50%'')), percent_store)"
    by (rule mp [OF t [THEN conjunct2, THEN conjunct2, THEN conjunct2, THEN conjunct2, THEN conjunct2, THEN conjunct1] h5])
  have h6: "reaches sample_map percent_store ''infill_speed'' ''50%''
      \<and> slicerFlavor (status percent_store) = Some SuperSlicer
      \<and> percentToMm (Some (CStr (hash_str (newHash percent_store) ''internal_solid_infill_speed''))) (Some ''50%'') = None"
    by code_simp
  have r6: "convertParams sample_map (answering (Chosen ''KEEP'')) ''infill_speed'' None percent_store
       = (Inr (Some (VStr ''50%'')), percent_store)"
    by (rule mp [OF t [THEN conjunct2, THEN conjunct2, THEN conjunct2, THEN conjunct2, THEN conjunct2, THEN conjunct2, THEN conjunct1] h6])
  have h7: "''small_perimeter_speed'' \<in> set [''small_perimeter_speed'', ''gap_fill_speed'']
      \<and> reaches sample_map percent_store ''small_perimeter_speed'' ''50%''
      \<and> slicerFlavor (status percent_store) = Some SuperSlicer
      \<and> percentToMm (Some (CStr (hash_str (newHash percent_store) ''sparse_infill_speed''))) (Some ''50%'') = None"
    by code_simp
  have r7: "convertParams sample_map (answering (Chosen ''KEEP'')) ''small_perimeter_speed'' None percent_store
       = (Inr (Some (VStr ''50%'')), percent_store)"
    by (rule mp [OF t [THEN conjunct2, THEN conjunct2, THEN conjunct2, THEN conjunct2, THEN conjunct2, THEN conjunct2, THEN conjunct2, THEN conjunct1] h7])
  have h8: "''fuzzy_skin_thickness'' \<in> set [''fuzzy_skin_point_dist'', ''fuzzy_skin_thickness'', ''small_perimeter_min_length'']
      \<and> reaches sample_map percent_store ''fuzzy_skin_thickness'' ''50%''
      \<and> percentToMm (Some (CStr (nozzle_string (status percent_store)))) (Some ''50%'') = None"
    by code_simp
  have r8: "convertParams sample_map (answering (Chosen ''KEEP'')) ''fuzzy_skin_thickness'' None percent_store
       = (Inr (Some (VStr [])), percent_store)"
    by (rule mp [OF t [THEN conjunct2, THEN conjunct2, THEN conjunct2, THEN conjunct2, THEN conjunct2, THEN conjunct2, THEN conjunct2, THEN conjunct2, THEN conjunct1] h8])
  have h9: "''min_layer_height'' \<in> set [''max_layer_height'', ''min_layer_height'']
      \<and> reaches sample_map percent_store ''min_layer_height'' ''50%''
      \<and> percentToMm (Some (CStr (nozzle_string (status percent_store)))) (Some (or_else (elem_at (multivalueToArray (Some ''50%'')) 0) [])) = None"
    by code_simp
  have r9: "convertParams sample_map (answering (Chosen ''KEEP'')) ''min_layer_height'' None percent_store
       = (Inr (Some (VStr [])), percent_store)"
    by (rule mp [OF t [THEN conjunct2, THEN conjunct2, THEN conjunct2, THEN conjunct2, THEN conjunct2, THEN conjunct2, THEN conjunct2, THEN conjunct2, THEN conjunct2, THEN conjunct1] h9])
  have h10: "reaches sample_map percent_store ''wall_transition_length'' ''50%''
      \<and> mmToPercent (Some (CStr (nozzle_string (status percent_store)))) (Some ''50%'') = None"
    by code_simp
  have r10: "convertParams sample_map (answering (Chosen ''KEEP'')) ''wall_transition_length'' None percent_store
       = (Inr (Some (VStr [])), percent_store)"
    by (rule mp [OF t [THEN conjunct2, THEN conjunct2, THEN conjunct2, THEN conjunct2, THEN conjunct2, THEN conjunct2, THEN conjunct2, THEN conjunct2, THEN conjunct2, THEN conjunct2, THEN conjunct1] h10])
  have h11: "reaches sample_map percent_store ''support_material_xy_spacing'' ''50%''
      \<and> percentToMm (as_comparator (src_get (sourceIni percent_store) ''external_perimeter_extrusion_width'')) (Some ''50%'') = None
      \<and> percentToMm (Some (CStr (nozzle_string (status percent_store)))) (Some ''50%'') = None"
    by code_simp
  have r11: "convertParams sample_map (answering (Chosen ''KEEP'')) ''support_material_xy_spacing'' None percent_store
       = (Inr (Some (VStr [])), percent_store)"
    by (rule mp [OF t [THEN conjunct2, THEN conjunct2, THEN conjunct2, THEN conjunct2, THEN conjunct2, THEN conjunct2, THEN conjunct2, THEN conjunct2, THEN conjunct2, THEN conjunct2, THEN conjunct2] h11])
  show ?thesis
    by (rule conjI [OF h0 conjI [OF r0 conjI [OF h1 conjI [OF r1 conjI [OF h2 conjI [OF r2 conjI [OF h3 conjI [OF r3 conjI [OF h4 conjI [OF r4 conjI [OF h5 conjI [OF r5 conjI [OF h6 conjI [OF r6 conjI [OF h7 conjI [OF r7 conjI [OF h8 conjI [OF r8 conjI [OF h9 conjI [OF r9 conjI [OF h10 conjI [OF r10 conjI [OF h11 r11]]]]]]]]]]]]]]]]]]]]]]])
qed

text \<open>
  C1 as stated fails for the cases that convert against the nozzle size: without a
  nozzle size \<open>percentToMm\<close> has no result for \<open>max_layer_height = 50%\<close>, and the case
  produces the empty string, not the source value.
\<close>

theorem helper_fallback_counterexample:
  "src_get (sourceIni layer_height_store) ''max_layer_height'' = Some ''50%''
   \<and> percentToMm (Some (CStr (nozzle_string (status layer_height_store)))) (Some ''50%'') = None
   \<and> fst (convertParams sample_map (answering (Chosen ''KEEP'')) ''max_layer_height'' None
              layer_height_store) = Inr (Some (VStr []))
   \<and> fst (convertParams sample_map (answering (Chosen ''KEEP'')) ''max_layer_height'' None
              layer_height_store) \<noteq> Inr (Some (VStr ''50%''))"
  by code_simp

section \<open>Dynamic overhang speeds\<close>

text \<open>No call of the loop over the speed parameters throws.\<close>

lemma speed_rules:
  "list_all (\<lambda>p. \<forall>w. \<not> isl (fst (run_special_case m p f nv ds w))) speedSequence"
  by (simp add: speedSequence_def run_special_case_def specialCases_def pure_case_def
      default_speed_case_def output_speed_case_def)

lemma speed_names:
  "list_all (\<lambda>p. p \<notin> set object_prototype \<and> p \<noteq> ''external_perimeters_first''
                 \<and> p \<noteq> ''infill_first'' \<and> p \<noteq> ''ironing'') speedSequence"
  by (simp add: speedSequence_def object_prototype_def)

lemma convertParams_speed_returns:
  assumes "p \<in> set speedSequence"
  shows "\<not> isl (fst (convertParams pm m p f w))"
proof -
  have n: "p \<notin> set object_prototype" "p \<noteq> ''external_perimeters_first''"
    "p \<noteq> ''infill_first''" "p \<noteq> ''ironing''"
    using assms speed_names by (simp_all add: list_all_iff)
  have r: "\<not> isl (fst (run_special_case m p f nv ds w))" for nv ds
    using assms speed_rules [of m f nv ds] by (simp add: list_all_iff)
  have ni: "get_property (sourceIni w) p \<noteq> Inherited"
    using n(1) by (simp add: get_property_def split: option.split)
  show ?thesis
  proof (cases "get_property (sourceIni w) p")
    case (Own x)
    show ?thesis
    proof (cases x)
      case None
      then show ?thesis using Own by (simp add: convertParams_def)
    next
      case (Some v)
      show ?thesis
        unfolding convertParams_def Let_def
        using Own Some n r
        by (simp split: option.split map_target.split property.split)
    qed
  next
    case Inherited
    then show ?thesis using ni by simp
  next
    case Absent
    then show ?thesis by (simp add: convertParams_def)
  qed
qed

lemma speed_loop_returns:
  assumes "set ps \<subseteq> set speedSequence"
  shows "fst (speed_loop pm m ps w) = None"
  using assms
proof (induction ps arbitrary: w)
  case Nil
  show ?case by simp
next
  case (Cons parameter rest)
  then have p: "parameter \<in> set speedSequence" and r: "set rest \<subseteq> set speedSequence"
    by simp_all
  obtain x w1 where c: "convertParams pm m parameter None w = (x, w1)"
    by (cases "convertParams pm m parameter None w")
  from convertParams_speed_returns [OF p, of pm m None w] c obtain y where x: "x = Inr y"
    by (cases x) simp_all
  show ?case
  proof (cases "truthy (src_get (sourceIni w) parameter)")
    case False
    then show ?thesis using Cons.IH [OF r] by simp
  next
    case True
    show ?thesis
    proof (cases y)
      case None
      then show ?thesis using True c x Cons.IH [OF r] by simp
    next
      case (Some val)
      then show ?thesis using True c x Cons.IH [OF r] by (cases val) simp_all
    qed
  qed
qed

lemma calculatePrintParams_returns:
  "calculatePrintParams pm m w =
     (Inr (newHash (after_speeds (snd (speed_loop pm m speedSequence w)))),
      after_speeds (snd (speed_loop pm m speedSequence w)))"
proof -
  have "fst (speed_loop pm m speedSequence w) = None"
    by (rule speed_loop_returns) simp
  then show ?thesis
    by (cases "speed_loop pm m speedSequence w") (simp add: calculatePrintParams_def)
qed

lemma overhang_speeds_cong:
  "sourceIni a = sourceIni b \<Longrightarrow> slicerFlavor (status a) = slicerFlavor (status b) \<Longrightarrow>
   overhang_speeds a = overhang_speeds b"
  by (simp add: overhang_speeds_def)

lemma write_overhang_eq:
  "write_overhang speeds h =
     h(''overhang_1_4_speed'' \<mapsto> HStr (or_else (elem_at speeds 3) []),
       ''overhang_2_4_speed'' \<mapsto> HStr (or_else (elem_at speeds 2) []),
       ''overhang_3_4_speed'' \<mapsto> HStr (or_else (elem_at speeds 1) []),
       ''overhang_4_4_speed'' \<mapsto> HStr (or_else (elem_at speeds 0) []))"
proof -
  have "[0 ..< length overhangSpeedKeys] = [0, 1, 2, 3]"
    by (simp add: overhangSpeedKeys_def upt_rec)
  then show ?thesis
    by (simp add: write_overhang_def) (simp add: overhangSpeedKeys_def)
qed

text \<open>
  The flag \<open>enable_overhang_speed\<close> is always written, \<open>"1"\<close> when the source field
  \<open>enable_dynamic_overhang_speeds\<close> is a non-empty string and \<open>"0"\<close> otherwise.
\<close>

lemma overhang_flag:
  "newHash (snd (calculatePrintParams pm m w)) ''enable_overhang_speed'' =
     Some (HStr (if truthy (src_get (sourceIni w) ''enable_dynamic_overhang_speeds'')
                 then ''1'' else ''0''))"
  by (simp add: calculatePrintParams_returns after_speeds_def Let_def speed_loop_frame
      write_overhang_eq)

text \<open>
  When the flag is \<open>"1"\<close>, the four overhang keys receive the gathered speeds in reversed
  order: the key of index \<open>i\<close> gets the speed of index \<open>3 - i\<close>, and the empty string
  where there is none.
\<close>

lemma overhang_keys:
  assumes "truthy (src_get (sourceIni w) ''enable_dynamic_overhang_speeds'')"
  shows "map (newHash (snd (calculatePrintParams pm m w))) overhangSpeedKeys =
           map (\<lambda>i. Some (HStr (or_else (elem_at (overhang_speeds w) i) []))) [3, 2, 1, 0]"
proof -
  let ?w1 = "snd (speed_loop pm m speedSequence w)"
  have "overhang_speeds
          (?w1\<lparr>newHash := (newHash ?w1)(''enable_overhang_speed'' \<mapsto> HStr ''1'')\<rparr>)
        = overhang_speeds w"
    by (rule overhang_speeds_cong) (simp_all add: speed_loop_frame)
  then show ?thesis
    using assms
    by (simp add: calculatePrintParams_returns after_speeds_def Let_def speed_loop_frame
        write_overhang_eq overhangSpeedKeys_def)
qed

text \<open>
  C4. \<open>calculatePrintParams\<close> takes dynamic overhang speeds as enabled whenever the
  source field \<open>enable_dynamic_overhang_speeds\<close> is a non-empty string. A profile that has
  them switched off holds the string \<open>"0"\<close> there, as the converter itself writes a false
  flag: for that profile the call returns the output map with the flag \<open>"1"\<close> and the
  four overhang keys filled, in reversed order, where the flag should be \<open>"0"\<close> and the
  keys untouched.
\<close>

theorem overhang_enabled_by_zero:
  "src_get (sourceIni overhang_off_store) ''enable_dynamic_overhang_speeds'' = Some ''0''
   \<and> map (newHash overhang_off_store) overhangSpeedKeys = [None, None, None, None]
   \<and> \<not> isl (fst (calculatePrintParams sample_map (answering (Chosen ''KEEP''))
                     overhang_off_store))
   \<and> projr (fst (calculatePrintParams sample_map (answering (Chosen ''KEEP''))
                     overhang_off_store)) ''enable_overhang_speed'' = Some (HStr ''1'')
   \<and> map (projr (fst (calculatePrintParams sample_map (answering (Chosen ''KEEP''))
                         overhang_off_store))) overhangSpeedKeys
       = [Some (HStr ''40''), Some (HStr ''60''), Some (HStr ''80''), Some (HStr ''100'')]"
  by code_simp

section \<open>The profile type detector\<close>

lemma set_object_keys: "set (object_keys xs) = fst ` set xs"
  by (induction xs rule: object_keys.induct) auto

lemma distinct_object_keys [simp]: "distinct (object_keys xs)"
  by (induction xs rule: object_keys.induct) auto

text \<open>The count of the specification, as a computation.\<close>

lemma shared_names_code:
  "shared_names typeMap ini
     = length (filter (\<lambda>param. map_of typeMap param \<noteq> None) (object_keys ini))"
proof -
  have "distinct (filter (\<lambda>param. map_of typeMap param \<noteq> None) (object_keys ini))"
    by simp
  then have "length (filter (\<lambda>param. map_of typeMap param \<noteq> None) (object_keys ini))
        = card (set (filter (\<lambda>param. map_of typeMap param \<noteq> None) (object_keys ini)))"
    by (rule distinct_card [symmetric])
  also have "set (filter (\<lambda>param. map_of typeMap param \<noteq> None) (object_keys ini))
             = fst ` set ini \<inter> fst ` set typeMap"
    by (auto simp: map_of_eq_None_iff set_object_keys)
  finally show ?thesis
    by (simp add: shared_names_def)
qed

text \<open>The count the detector keeps: the names of the profile that are keys of the map
  or that every object inherits. It is the count of the specification when the profile
  has no name that objects inherit, and never below it.\<close>

lemma has_property_iff:
  "has_property obj k \<longleftrightarrow> k \<in> fst ` set obj \<or> k \<in> set object_prototype"
proof (cases "map_of obj k")
  case None
  then have "k \<notin> fst ` set obj"
    by (simp add: map_of_eq_None_iff)
  then show ?thesis
    using None by (simp add: has_property_def get_property_def)
next
  case (Some v)
  then have "(k, v) \<in> set obj"
    by (rule map_of_SomeD)
  then have "k \<in> fst ` set obj"
    by force
  then show ?thesis
    using Some by (simp add: has_property_def get_property_def)
qed

lemma match_count_card:
  "match_count typeMap ini
     = card (fst ` set ini \<inter> (fst ` set typeMap \<union> set object_prototype))"
proof -
  have "distinct (filter (\<lambda>param. has_property typeMap param) (object_keys ini))"
    by simp
  then have "match_count typeMap ini
        = card (set (filter (\<lambda>param. has_property typeMap param) (object_keys ini)))"
    unfolding match_count_def by (rule distinct_card [symmetric])
  also have "set (filter (\<lambda>param. has_property typeMap param) (object_keys ini))
             = fst ` set ini \<inter> (fst ` set typeMap \<union> set object_prototype)"
    by (auto simp: has_property_iff set_object_keys)
  finally show ?thesis .
qed

lemma match_count_own:
  assumes "fst ` set ini \<inter> set object_prototype = {}"
  shows "match_count typeMap ini = shared_names typeMap ini"
proof -
  have "fst ` set ini \<inter> (fst ` set typeMap \<union> set object_prototype)
          = fst ` set ini \<inter> fst ` set typeMap"
    using assms by auto
  then show ?thesis
    by (simp add: match_count_card shared_names_def)
qed

lemma shared_names_le: "shared_names typeMap ini \<le> match_count typeMap ini"
  unfolding match_count_card shared_names_def
  by (rule card_mono) auto

lemma kept_count_own:
  "fst ` set ini \<inter> set object_prototype = {} \<Longrightarrow>
   kept_count pm ini t = candidate_count pm ini t"
  by (simp add: kept_count_def candidate_count_def match_count_own split: option.split)

lemma typeCounts_eq:
  "typeCounts pm ini = map (\<lambda>type. (type, kept_count pm ini type)) (object_keys pm)"
  by (simp add: typeCounts_def kept_count_def cong: option.case_cong)

lemma sort_key_head:
  assumes "sort_key f xs = y # ys"
  shows "\<exists>pre post. xs = pre @ y # post \<and> (\<forall>x \<in> set pre. f y < f x)
           \<and> (\<forall>x \<in> set post. f y \<le> f x)"
proof -
  have le: "f y \<le> f x" if "x \<in> set xs" for x
  proof -
    have "sorted (map f (sort_key f xs))" by simp
    then have "\<forall>z \<in> set ys. f y \<le> f z"
      using assms by simp
    moreover have "x = y \<or> x \<in> set ys"
      using that assms by (metis set_ConsD set_sort)
    ultimately show ?thesis by auto
  qed
  have "filter (\<lambda>z. f z = f y) xs = filter (\<lambda>z. f z = f y) (sort_key f xs)"
    by (simp add: sort_key_stable)
  also have "\<dots> = y # filter (\<lambda>z. f z = f y) ys"
    using assms by simp
  finally obtain pre post where xs: "xs = pre @ y # post" and pre: "\<forall>u \<in> set pre. f u \<noteq> f y"
    by (auto simp: filter_eq_Cons_iff)
  have "\<forall>x \<in> set pre. f y < f x"
    using pre le xs by (auto simp: less_le)
  moreover have "\<forall>x \<in> set post. f y \<le> f x"
    using le xs by auto
  ultimately show ?thesis
    using xs by blast
qed

lemma detect_explicit:
  "src_get ini ''ini_type'' = Some v \<Longrightarrow> v \<noteq> [] \<Longrightarrow> detectIniType pm ini = Some v"
  by (simp add: detectIniType_def truthy_def)

lemma detect_none:
  assumes "\<not> truthy (src_get ini ''ini_type'')"
    and "\<forall>t \<in> set (object_keys pm). kept_count pm ini t < 10"
  shows "detectIniType pm ini = None"
proof -
  have "\<not> list_ex (\<lambda>(type, count). 10 \<le> count) (typeCounts pm ini)"
    using assms(2) by (auto simp: typeCounts_eq list_ex_iff)
  then show ?thesis
    using assms(1) by (simp add: detectIniType_def)
qed

lemma detect_best:
  assumes "\<not> truthy (src_get ini ''ini_type'')"
    and "\<exists>t \<in> set (object_keys pm). 10 \<le> kept_count pm ini t"
  shows "\<exists>before t after. object_keys pm = before @ t # after
           \<and> detectIniType pm ini = Some t
           \<and> (\<forall>t' \<in> set before. kept_count pm ini t' < kept_count pm ini t)
           \<and> (\<forall>t' \<in> set after. kept_count pm ini t' \<le> kept_count pm ini t)"
proof -
  let ?g = "\<lambda>type. (type, kept_count pm ini type)"
  let ?f = "\<lambda>(type, count). - int count"
  have ex: "list_ex (\<lambda>(type, count). 10 \<le> count) (typeCounts pm ini)"
    using assms(2) by (auto simp: typeCounts_eq list_ex_iff)
  have "object_keys pm \<noteq> []"
    using assms(2) by auto
  then have "typeCounts pm ini \<noteq> []"
    by (simp add: typeCounts_eq)
  then have "sort_key ?f (typeCounts pm ini) \<noteq> []"
    by (metis length_0_conv length_sort)
  then obtain y ys where s: "sort_key ?f (typeCounts pm ini) = y # ys"
    by (cases "sort_key ?f (typeCounts pm ini)") auto
  obtain t c where y: "y = (t, c)" by (cases y)
  have d: "detectIniType pm ini = Some t"
    using assms(1) ex s y by (simp add: detectIniType_def sort_by_count_def)
  from sort_key_head [OF s] obtain pre post where
    xs: "typeCounts pm ini = pre @ y # post"
    and pre: "\<forall>x \<in> set pre. ?f y < ?f x" and post: "\<forall>x \<in> set post. ?f y \<le> ?f x"
    by blast
  from xs obtain before after where
    k: "object_keys pm = before @ t # after" and p1: "pre = map ?g before"
    and p2: "post = map ?g after" and c: "c = kept_count pm ini t"
    unfolding typeCounts_eq y
    by (auto simp: map_eq_append_conv map_eq_Cons_conv)
  have "\<forall>t' \<in> set before. kept_count pm ini t' < kept_count pm ini t"
    using pre p1 y c by auto
  moreover have "\<forall>t' \<in> set after. kept_count pm ini t' \<le> kept_count pm ini t"
    using post p2 y c by auto
  ultimately show ?thesis
    using k d by blast
qed

text \<open>
  C3. \<open>detectIniType\<close>: a non-empty \<open>ini_type\<close> of the profile is returned as it is.
  Otherwise each candidate type, a key of the parameter map, counts the parameter names
  of the profile that are keys of its map; when every count is below 10 nothing is
  produced; when some count reaches 10 the result is a candidate of highest count, and
  among those the first in the order of the parameter map's keys.
\<close>

text \<open>
  With the count the detector keeps, \<open>detectIniType\<close> does what its description says:
  a non-empty \<open>ini_type\<close> of the profile is returned as it is; otherwise nothing is
  produced when every count is below 10, and when some count reaches 10 the result is
  a candidate of highest count, and among those the first in the order of the
  parameter map's keys.
\<close>

lemma detectIniType_kept:
  "(src_get ini1 ''ini_type'' = Some v \<and> v \<noteq> [] \<longrightarrow> detectIniType pm1 ini1 = Some v)
   \<and> (\<not> truthy (src_get ini2 ''ini_type'')
        \<and> (\<forall>t \<in> set (object_keys pm2). kept_count pm2 ini2 t < 10)
        \<longrightarrow> detectIniType pm2 ini2 = None)
   \<and> (\<not> truthy (src_get ini3 ''ini_type'')
        \<and> (\<exists>t \<in> set (object_keys pm3). 10 \<le> kept_count pm3 ini3 t)
        \<longrightarrow> (\<exists>before t after. object_keys pm3 = before @ t # after
               \<and> detectIniType pm3 ini3 = Some t
               \<and> (\<forall>t' \<in> set before. kept_count pm3 ini3 t' < kept_count pm3 ini3 t)
               \<and> (\<forall>t' \<in> set after. kept_count pm3 ini3 t' \<le> kept_count pm3 ini3 t)))"
  using detect_explicit [of ini1 v pm1] detect_none [of ini2 pm2] detect_best [of ini3 pm3]
  by blast

text \<open>
  C3. The count that \<open>detectIniType\<close> keeps for a candidate type is not the number of
  the profile's parameter names that appear in the type's parameter map: the test
  \<open>param in typeMap\<close> also holds for every name that objects inherit. For a profile with
  nine names of the map of \<open>print\<close> and a parameter called \<open>constructor\<close>, no candidate
  has ten of the profile's names in its map, so nothing should be produced; the
  detector counts ten and returns \<open>print\<close>.
\<close>

theorem detectIniType_inherited_name:
  "\<not> truthy (src_get inherited_profile ''ini_type'')
   \<and> object_keys detector_map = [''print'', ''filament'']
   \<and> map_of inherited_profile ''constructor'' = Some (Some ''1'')
   \<and> map_of detector_map ''print'' = Some (map (\<lambda>name. (name, One name)) ten_names)
   \<and> map_of (map (\<lambda>name. (name, One name)) ten_names) ''constructor'' = None
   \<and> candidate_count detector_map inherited_profile ''print'' = 9
   \<and> candidate_count detector_map inherited_profile ''filament'' = 9
   \<and> kept_count detector_map inherited_profile ''print'' = 10
   \<and> detectIniType detector_map inherited_profile = Some ''print''"
proof -
  have cc: "candidate_count pm ini t =
              (case map_of pm t of
                 None \<Rightarrow> 0
               | Some typeMap \<Rightarrow>
                   length (filter (\<lambda>param. map_of typeMap param \<noteq> None) (object_keys ini)))"
    for pm ini t
    by (simp add: candidate_count_def shared_names_code split: option.split)
  have a: "\<not> truthy (src_get inherited_profile ''ini_type'')
           \<and> object_keys detector_map = [''print'', ''filament'']
           \<and> map_of inherited_profile ''constructor'' = Some (Some ''1'')
           \<and> map_of detector_map ''print'' = Some (map (\<lambda>name. (name, One name)) ten_names)
           \<and> map_of (map (\<lambda>name. (name, One name)) ten_names) ''constructor'' = None"
    by code_simp
  have c1: "candidate_count detector_map inherited_profile ''print'' = 9"
    unfolding cc by code_simp
  have c2: "candidate_count detector_map inherited_profile ''filament'' = 9"
    unfolding cc by code_simp
  have k: "kept_count detector_map inherited_profile ''print'' = 10"
    by code_simp
  have d: "detectIniType detector_map inherited_profile = Some ''print''"
    by code_simp
  from a c1 c2 k d show ?thesis
    by simp
qed

end
